theory Spec2Isabelle
  imports Main "HOL-Library.Sublist"
begin

section \<open>JavaScript values, objects and errors\<close>

text \<open>
  The engine is written in JavaScript and passes plain objects around. A value is one of
  the JSON-like shapes below; an object is the list of its own enumerable properties in
  insertion order. Numbers are the integers (the data model declares priorities as
  integers); \<open>NaN\<close> and fractions are not represented.
\<close>

datatype jsval =
    JUndefined
  | JNull
  | JBool bool
  | JNum int
  | JStr string
  | JArr "jsval list"
  | JObj "(string \<times> jsval) list"

type_synonym js_object = "(string \<times> jsval) list"

text \<open>Truthiness, as \<open>if (x)\<close> and \<open>!x\<close> read it.\<close>

fun truthy :: "jsval \<Rightarrow> bool" where
  "truthy JUndefined = False"
| "truthy JNull = False"
| "truthy (JBool b) = b"
| "truthy (JNum n) = (n \<noteq> 0)"
| "truthy (JStr s) = (s \<noteq> [])"
| "truthy (JArr _) = True"
| "truthy (JObj _) = True"

text \<open>
  An optional string field: \<open>None\<close> is an absent (undefined) property. The empty
  string is falsy. String concatenation prints an absent value as \<open>undefined\<close>.
\<close>

definition truthy_str :: "string option \<Rightarrow> bool" where
  "truthy_str s = (case s of None \<Rightarrow> False | Some v \<Rightarrow> v \<noteq> [])"

definition str_of :: "string option \<Rightarrow> string" where
  "str_of s = (case s of None \<Rightarrow> ''undefined'' | Some v \<Rightarrow> v)"

text \<open>
  Property assignment \<open>o[k] = v\<close>: an existing key keeps its place, a new key goes
  last. \<open>_.assign({}, a, b)\<close> copies the properties of \<open>a\<close> and then those of
  \<open>b\<close> into a fresh object; an undefined source is skipped.
\<close>

fun set_prop :: "string \<Rightarrow> 'v \<Rightarrow> (string \<times> 'v) list \<Rightarrow> (string \<times> 'v) list" where
  "set_prop k v [] = [(k, v)]"
| "set_prop k v ((k', v') # kvs) =
     (if k' = k then (k, v) # kvs else (k', v') # set_prop k v kvs)"

definition assign_from :: "js_object option \<Rightarrow> js_object \<Rightarrow> js_object" where
  "assign_from src tgt =
     (case src of None \<Rightarrow> tgt | Some kvs \<Rightarrow> fold (\<lambda>(k, v). set_prop k v) kvs tgt)"

definition assign :: "js_object option \<Rightarrow> js_object option \<Rightarrow> js_object" where
  "assign a b = assign_from b (assign_from a [])"

text \<open>Reading a property of an object that may be undefined-valued or absent.\<close>

definition get_prop :: "js_object option \<Rightarrow> string \<Rightarrow> jsval option" where
  "get_prop ob k = (case ob of None \<Rightarrow> None | Some kvs \<Rightarrow> map_of kvs k)"

text \<open>
  The \<open>priority\<close> of a setting object, read as a number; \<open>None\<close> stands for a
  setting object without a numeric priority. \<open>a > b\<close> on two such readings is the
  numeric comparison, and is false as soon as one side is undefined.
\<close>

definition priority_of :: "js_object \<Rightarrow> int option" where
  "priority_of ob = (case map_of ob ''priority'' of Some (JNum n) \<Rightarrow> Some n | _ \<Rightarrow> None)"

fun js_gt :: "int option \<Rightarrow> int option \<Rightarrow> bool" where
  "js_gt (Some a) (Some b) = (a > b)"
| "js_gt _ _ = False"

text \<open>
  Errors are values. An error carries its kind and its message; the message is kept as
  the list of the pieces the code concatenates, where \<open>Json v\<close> is the text
  \<open>JSON.stringify\<close> prints for \<open>v\<close>, \<open>Idx n\<close> the decimal text of an array
  index and \<open>Arr vs\<close> the text of an array joined to a string. \<open>e.message += m\<close>
  appends pieces.
\<close>

datatype msg_part = Txt string | Idx nat | Json jsval | Arr "jsval list"

type_synonym message = "msg_part list"

datatype err_kind = PlainError | AssertionError | TypeError

datatype js_error = Err err_kind message | Rejection string

fun err_message :: "js_error \<Rightarrow> message" where
  "err_message (Err k m) = m"
| "err_message (Rejection r) = []"

fun add_message :: "message \<Rightarrow> js_error \<Rightarrow> js_error" where
  "add_message m (Err k m0) = Err k (m0 @ m)"
| "add_message m (Rejection r) = Rejection r"

text \<open>
  A statement that may throw and that works on a state \<open>'s\<close> returns the outcome and
  the state it leaves behind; the state of a failed run is the one reached when the
  exception was raised.
\<close>

type_synonym ('a, 's) run = "'s \<Rightarrow> (js_error + 'a) \<times> 's"

definition assert :: "bool \<Rightarrow> message \<Rightarrow> (unit, 's) run" where
  "assert c m s = (if c then (Inr (), s) else (Inl (Err AssertionError m), s))"

text \<open>\<open>try { body } catch (e) { e.message += m; throw e; }\<close>\<close>

definition rethrow_with :: "message \<Rightarrow> (js_error + 'a) \<times> 's \<Rightarrow> (js_error + 'a) \<times> 's" where
  "rethrow_with m r = (case r of (Inl e, s) \<Rightarrow> (Inl (add_message m e), s) | (Inr a, s) \<Rightarrow> (Inr a, s))"

text \<open>\<open>xs.forEach(f)\<close>: the first exception ends the loop.\<close>

fun forEach :: "('a \<Rightarrow> (unit, 's) run) \<Rightarrow> 'a list \<Rightarrow> (unit, 's) run" where
  "forEach f [] s = (Inr (), s)"
| "forEach f (x # xs) s =
     (case f x s of (Inl e, s') \<Rightarrow> (Inl e, s') | (Inr _, s') \<Rightarrow> forEach f xs s')"

section \<open>The data model\<close>

text \<open>
  \<open>env\<close> of a resource type is read with \<open>indexOf\<close> only. The specification makes it
  a list of tags; the repository's own tests write a single string (\<open>env: 'client'\<close>), on
  which \<open>indexOf\<close> searches a substring. Both shapes are kept.
\<close>

datatype env_decl = EnvArray "string list" | EnvString string

fun contains_str :: "string \<Rightarrow> string \<Rightarrow> bool" where
  "contains_str [] p = (p = [])"
| "contains_str (c # cs) p = (prefix p (c # cs) \<or> contains_str cs p)"

text \<open>\<open>env.indexOf(e) !== -1\<close>\<close>

fun env_includes :: "env_decl \<Rightarrow> string \<Rightarrow> bool" where
  "env_includes (EnvArray tags) e = (e \<in> set tags)"
| "env_includes (EnvString s) e = contains_str s e"

fun env_truthy :: "env_decl option \<Rightarrow> bool" where
  "env_truthy None = False"
| "env_truthy (Some (EnvArray tags)) = True"
| "env_truthy (Some (EnvString s)) = (s \<noteq> [])"

text \<open>
  The apply function of a resource type takes the resolved setting and the context
  parameters; it returns a value (directly or through a promise) or fails.
\<close>

type_synonym apply_fn = "js_object \<Rightarrow> jsval \<Rightarrow> js_error + jsval"

record resource_type =
  rt_name :: "string option"
  rt_env :: "env_decl option"
  rt_settings :: "js_object list"
  rt_apply :: "apply_fn option"

record protected_resource =
  pr_name :: "string option"
  pr_type :: "string option"
  pr_locator :: "string option"
  pr_defaultSetting :: "string option"
  pr_params :: "js_object option"
  pr_id :: "nat option"

record policy_resource =
  g_resource :: string
  g_setting :: "string option"
  g_params :: "js_object option"

record policy_setting =
  ps_setting :: "string option"
  ps_notes :: "string option"
  ps_condition :: "string option"
  ps_params :: jsval
  ps_protectedResources :: "policy_resource list option"

record policy =
  p_name :: "string option"
  p_description :: "string option"
  p_defaultSetting :: "string option"
  p_settings :: "policy_setting list option"

text \<open>
  A condition factory is an object with a \<open>factory\<close> property (its name) and the
  condition functions as further properties. A condition function takes the policy
  setting's params and the context params. Properties inherited from the prototype are
  not represented.
\<close>

type_synonym condition_fn = "jsval \<Rightarrow> jsval \<Rightarrow> js_error + jsval"

datatype member = Fn condition_fn | Val jsval

type_synonym condition_factory = "(string \<times> member) list"

fun member_truthy :: "member option \<Rightarrow> bool" where
  "member_truthy None = False"
| "member_truthy (Some (Fn f)) = True"
| "member_truthy (Some (Val v)) = truthy v"

text \<open>\<open>_.find(list, {name: n})\<close>: the first element whose property equals \<open>n\<close>; an
  undefined \<open>n\<close> matches no element that lacks the property.\<close>

definition find_by :: "('a \<Rightarrow> string option) \<Rightarrow> string option \<Rightarrow> 'a list \<Rightarrow> 'a option" where
  "find_by field n xs = find (\<lambda>x. n \<noteq> None \<and> field x = n) xs"

definition has_value :: "string option \<Rightarrow> js_object \<Rightarrow> bool" where
  "has_value setting ob = (case setting of None \<Rightarrow> False | Some v \<Rightarrow> map_of ob ''value'' = Some (JStr v))"

text \<open>\<open>_.find(settings, {value: setting})\<close>\<close>

definition find_setting :: "js_object list \<Rightarrow> string option \<Rightarrow> js_object option" where
  "find_setting settings setting = find (has_value setting) settings"

text \<open>The grants a policy setting and a policy list, in enumeration order.\<close>

definition grants_of_setting :: "policy_setting \<Rightarrow> policy_resource list" where
  "grants_of_setting c = (case ps_protectedResources c of None \<Rightarrow> [] | Some gs \<Rightarrow> gs)"

definition grants_of_policy :: "policy \<Rightarrow> policy_resource list" where
  "grants_of_policy pol =
     concat (map grants_of_setting (case p_settings pol of None \<Rightarrow> [] | Some cs \<Rightarrow> cs))"

section \<open>The user policy model (user-policy.model.js)\<close>

text \<open>
  The security data a user policy is compiled from: the policies selected for the user,
  and the dictionary and the resource types of the target environment. Each of the three
  may be missing (\<open>securityData.policies || []\<close>).
\<close>

record user_security_data =
  usd_id :: nat
  usd_revision :: nat
  usd_timestamp :: js_object
  usd_userId :: "string option"
  usd_display :: "string option"
  usd_policies :: "policy list option"
  usd_dictionary :: "protected_resource list option"
  usd_resourceTypes :: "resource_type list option"

text \<open>A dictionary entry once compiled: its type is the resource type object and its
  default setting the setting object.\<close>

record compiled_resource =
  cr_name :: "string option"
  cr_type :: resource_type
  cr_locator :: "string option"
  cr_defaultSetting :: js_object
  cr_params :: "js_object option"
  cr_id :: "nat option"

record implementation =
  impl_target :: "string option"
  impl_apply :: "apply_fn option"

record compiled_policy_setting =
  cps_setting :: "string option"
  cps_notes :: "string option"
  cps_condition :: "string option"
  cps_params :: jsval
  cps_protectedResources :: "policy_resource list option"
  cps_checkIfEnabled :: "jsval \<Rightarrow> js_error + jsval"
  cps_policy :: policy

text \<open>One contributed entry of a protected resource.\<close>

record resource_config =
  rc_resource :: compiled_resource
  rc_setting :: js_object
  rc_params :: "js_object option"
  rc_policySetting :: compiled_policy_setting

record protected_resource_obj =
  pro_resource :: compiled_resource
  pro_settings :: "resource_config list"
  pro_apply :: "apply_fn option"
  pro_target :: "string option"

text \<open>\<open>buildResourceSettingObject(resource, setting, params)\<close>, given \<open>resource.type\<close>.\<close>

definition buildResourceSettingObject ::
  "resource_type \<Rightarrow> string option \<Rightarrow> js_object option \<Rightarrow> js_object" where
  "buildResourceSettingObject ty setting params =
     (let settingObject = find_setting (rt_settings ty) setting
      in assign params settingObject)"

definition getResourceImplementation ::
  "(resource_type \<Rightarrow> js_error + implementation) \<Rightarrow> resource_type \<Rightarrow> js_error + implementation" where
  "getResourceImplementation getResourceTypeFactory resourceType =
     (case getResourceTypeFactory resourceType of
        Inl e \<Rightarrow> Inl (add_message
          [Txt '' - Unknown policy implementation for resource type ['', Txt ''[object Object]'', Txt '']''] e)
      | Inr i \<Rightarrow> Inr i)"

definition buildProtectedResourceObject ::
  "implementation \<Rightarrow> compiled_resource \<Rightarrow> protected_resource_obj" where
  "buildProtectedResourceObject implementation resource =
     \<lparr>pro_resource = resource, pro_settings = [],
      pro_apply = impl_apply implementation, pro_target = impl_target implementation\<rparr>"

text \<open>
  The body of the loop of \<open>buildProtectedResources\<close>. A dictionary entry whose type
  is not among the resource types makes \<open>resource.type\<close> undefined, and reading its
  settings throws.
\<close>

definition buildProtectedResource ::
  "(resource_type \<Rightarrow> js_error + implementation) \<Rightarrow> resource_type list \<Rightarrow> protected_resource
     \<Rightarrow> (unit, (string \<times> protected_resource_obj) list) run" where
  "buildProtectedResource getResourceTypeFactory resourceTypes resourceData resourceMap =
     (case find_by rt_name (pr_type resourceData) resourceTypes of
        None \<Rightarrow> (Inl (Err TypeError [Txt ''Cannot read property settings of undefined'']), resourceMap)
      | Some ty \<Rightarrow>
          (let resource = \<lparr>cr_name = pr_name resourceData, cr_type = ty,
                 cr_locator = pr_locator resourceData,
                 cr_defaultSetting =
                   buildResourceSettingObject ty (pr_defaultSetting resourceData) (pr_params resourceData),
                 cr_params = pr_params resourceData, cr_id = pr_id resourceData\<rparr>
           in case getResourceImplementation getResourceTypeFactory ty of
                Inl e \<Rightarrow> (Inl e, resourceMap)
              | Inr implementation \<Rightarrow>
                  (Inr (), set_prop (str_of (cr_name resource))
                     (buildProtectedResourceObject implementation resource) resourceMap)))"

definition buildProtectedResources ::
  "(resource_type \<Rightarrow> js_error + implementation) \<Rightarrow> protected_resource list \<Rightarrow> resource_type list
     \<Rightarrow> (js_error + unit) \<times> (string \<times> protected_resource_obj) list" where
  "buildProtectedResources getResourceTypeFactory dictionary resourceTypes =
     forEach (buildProtectedResource getResourceTypeFactory resourceTypes) dictionary []"

text \<open>
  \<open>getPolicyConditionImplementation\<close>. The condition is \<open>factory.name\<close>, split at
  the first period; the factory and the function are looked up once, here, and the
  closure returned calls the function with the setting's params and the context params.
\<close>

definition unknown_condition :: "string \<Rightarrow> policy_setting \<Rightarrow> js_error \<Rightarrow> js_error" where
  "unknown_condition cond policySetting e =
     add_message [Txt ''- Unknown security condition ['', Txt cond,
       Txt ''] for policy setting ['', Txt (str_of (ps_setting policySetting)), Txt '']''] e"

definition context_hint :: message where
  "context_hint =
     [Txt '' - make sure the context param object is passed when calling the protected resource apply method'']"

definition call_condition :: "member option \<Rightarrow> jsval \<Rightarrow> jsval \<Rightarrow> js_error + jsval" where
  "call_condition conditionFn params contextParams =
     (case conditionFn of
        Some (Fn f) \<Rightarrow>
          (case f params contextParams of
             Inl e \<Rightarrow> Inl (add_message context_hint e)
           | Inr v \<Rightarrow> Inr v)
      | _ \<Rightarrow> Inl (add_message context_hint (Err TypeError [Txt ''conditionFn is not a function''])))"

definition getPolicyConditionImplementation ::
  "(string \<Rightarrow> js_error + condition_factory) \<Rightarrow> policy_setting
     \<Rightarrow> js_error + (jsval \<Rightarrow> js_error + jsval)" where
  "getPolicyConditionImplementation getPolicyConditionFactory policySetting =
     (case ps_condition policySetting of
        None \<Rightarrow> Inr (\<lambda>contextParams. Inr (JBool True))
      | Some cond \<Rightarrow>
          if cond = [] then Inr (\<lambda>contextParams. Inr (JBool True))
          else if CHR ''.'' \<notin> set cond
          then Inl (unknown_condition cond policySetting (Err PlainError [Txt ''No security name defined'']))
          else
            (let factoryName = takeWhile (\<lambda>c. c \<noteq> CHR ''.'') cond;
                 conditionName = tl (dropWhile (\<lambda>c. c \<noteq> CHR ''.'') cond)
             in case getPolicyConditionFactory factoryName of
                  Inl e \<Rightarrow> Inl (unknown_condition cond policySetting e)
                | Inr conditionGroup \<Rightarrow>
                    (let conditionFn = map_of conditionGroup conditionName
                     in if \<not> member_truthy conditionFn
                        then Inl (unknown_condition cond policySetting
                               (Err PlainError [Txt ''No condition implementation ['', Txt conditionName,
                                  Txt ''] in ['', Txt factoryName, Txt '']'']))
                        else Inr (\<lambda>contextParams.
                               call_condition conditionFn (ps_params policySetting) contextParams))))"

text \<open>
  \<open>addPolicyResourceSettingToProtectedResource\<close>: the grant, with its setting name
  replaced by the setting object, is pushed on the contributed entries of the resource.
\<close>

definition addPolicyResourceSettingToProtectedResource ::
  "policy_resource \<Rightarrow> protected_resource_obj option \<Rightarrow> compiled_policy_setting
     \<Rightarrow> js_error + protected_resource_obj" where
  "addPolicyResourceSettingToProtectedResource policyResourceConfig protectedResource policySetting =
     (case protectedResource of
        None \<Rightarrow> Inl (Err PlainError [Txt ''Resource ['', Txt (g_resource policyResourceConfig),
                  Txt ''] does not exist in dictionary''])
      | Some pr \<Rightarrow>
          (let resourceConfig =
                 \<lparr>rc_resource = pro_resource pr,
                  rc_setting = buildResourceSettingObject (cr_type (pro_resource pr))
                     (g_setting policyResourceConfig) (g_params policyResourceConfig),
                  rc_params = g_params policyResourceConfig,
                  rc_policySetting = policySetting\<rparr>
           in Inr (pr\<lparr>pro_settings := pro_settings pr @ [resourceConfig]\<rparr>)))"

definition addGrant ::
  "compiled_policy_setting \<Rightarrow> policy_resource \<Rightarrow> (unit, (string \<times> protected_resource_obj) list) run" where
  "addGrant policySetting policyResourceConfig protectedResources =
     (case addPolicyResourceSettingToProtectedResource policyResourceConfig
             (map_of protectedResources (g_resource policyResourceConfig)) policySetting of
        Inl e \<Rightarrow>
          (Inl (add_message [Txt '' - Issue in with policy setting ['',
                  Txt (str_of (cps_setting policySetting)), Txt '']''] e), protectedResources)
      | Inr pr \<Rightarrow> (Inr (), set_prop (g_resource policyResourceConfig) pr protectedResources))"

definition addPolicySetting ::
  "(string \<Rightarrow> js_error + condition_factory) \<Rightarrow> policy \<Rightarrow> policy_setting
     \<Rightarrow> (unit, (string \<times> protected_resource_obj) list) run" where
  "addPolicySetting getPolicyConditionFactory pol policySettingConfig protectedResources =
     (case getPolicyConditionImplementation getPolicyConditionFactory policySettingConfig of
        Inl e \<Rightarrow> (Inl e, protectedResources)
      | Inr checkIfEnabled \<Rightarrow>
          (let policySetting =
                 \<lparr>cps_setting = ps_setting policySettingConfig, cps_notes = ps_notes policySettingConfig,
                  cps_condition = ps_condition policySettingConfig,
                  cps_params = ps_params policySettingConfig,
                  cps_protectedResources = ps_protectedResources policySettingConfig,
                  cps_checkIfEnabled = checkIfEnabled, cps_policy = pol\<rparr>
           in case cps_protectedResources policySetting of
                None \<Rightarrow> (Inl (Err TypeError [Txt ''Cannot read property forEach of undefined'']),
                          protectedResources)
              | Some grants \<Rightarrow> forEach (addGrant policySetting) grants protectedResources))"

definition addProtectedResourcePreferences ::
  "(string \<Rightarrow> js_error + condition_factory) \<Rightarrow> policy list
     \<Rightarrow> (unit, (string \<times> protected_resource_obj) list) run" where
  "addProtectedResourcePreferences getPolicyConditionFactory policies protectedResources =
     forEach (\<lambda>pol prs.
        case p_settings pol of
          None \<Rightarrow> (Inl (Err TypeError [Txt ''Cannot read property forEach of undefined'']), prs)
        | Some settings \<Rightarrow> forEach (addPolicySetting getPolicyConditionFactory pol) settings prs)
       policies protectedResources"

text \<open>
  \<open>_.values(map)\<close> lists the values in the key order of a JavaScript object: the keys
  that are array indices first, in increasing order, then the others as inserted.
\<close>

definition is_digit :: "char \<Rightarrow> bool" where
  "is_digit c = (48 \<le> (of_char c :: nat) \<and> (of_char c :: nat) \<le> 57)"

definition dec_val :: "string \<Rightarrow> nat" where
  "dec_val s = foldl (\<lambda>n c. 10 * n + ((of_char c :: nat) - 48)) 0 s"

definition is_index_key :: "string \<Rightarrow> bool" where
  "is_index_key s =
     (s \<noteq> [] \<and> list_all is_digit s \<and> (s = ''0'' \<or> hd s \<noteq> CHR ''0'') \<and> dec_val s < 4294967295)"

definition js_values :: "(string \<times> 'a) list \<Rightarrow> 'a list" where
  "js_values kvs =
     map snd (sort_key (\<lambda>kv. dec_val (fst kv)) (filter (\<lambda>kv. is_index_key (fst kv)) kvs)
              @ filter (\<lambda>kv. \<not> is_index_key (fst kv)) kvs)"

definition compileSecurityData ::
  "(string \<Rightarrow> js_error + condition_factory) \<Rightarrow> (resource_type \<Rightarrow> js_error + implementation)
     \<Rightarrow> user_security_data \<Rightarrow> js_error + protected_resource_obj list" where
  "compileSecurityData getPolicyConditionFactory getResourceTypeFactory securityData =
     (case buildProtectedResources getResourceTypeFactory
             (case usd_dictionary securityData of None \<Rightarrow> [] | Some d \<Rightarrow> d)
             (case usd_resourceTypes securityData of None \<Rightarrow> [] | Some t \<Rightarrow> t) of
        (Inl e, _) \<Rightarrow> Inl e
      | (Inr _, protectedResourceMap) \<Rightarrow>
          (case addProtectedResourcePreferences getPolicyConditionFactory
                  (case usd_policies securityData of None \<Rightarrow> [] | Some p \<Rightarrow> p)
                  protectedResourceMap of
             (Inl e, _) \<Rightarrow> Inl e
           | (Inr _, compiled) \<Rightarrow> Inr (js_values compiled)))"

text \<open>
  \<open>computeResourceSetting\<close>. The loop keeps \<open>finalSetting\<close>; an enabled entry
  replaces it when there is none yet or when its priority is strictly lower. The
  messages the function collects are never printed and are left out.
\<close>

fun selectSetting :: "jsval \<Rightarrow> js_object option \<Rightarrow> resource_config list \<Rightarrow> js_error + js_object option" where
  "selectSetting contextParams finalSetting [] = Inr finalSetting"
| "selectSetting contextParams finalSetting (resourceConfig # rest) =
     (case cps_checkIfEnabled (rc_policySetting resourceConfig) contextParams of
        Inl e \<Rightarrow> Inl e
      | Inr enabled \<Rightarrow>
          (if truthy enabled
           then (case finalSetting of
                   None \<Rightarrow> selectSetting contextParams (Some (rc_setting resourceConfig)) rest
                 | Some f \<Rightarrow>
                     if js_gt (priority_of f) (priority_of (rc_setting resourceConfig))
                     then selectSetting contextParams (Some (rc_setting resourceConfig)) rest
                     else selectSetting contextParams (Some f) rest)
           else selectSetting contextParams finalSetting rest))"

definition computeResourceSetting :: "protected_resource_obj \<Rightarrow> jsval \<Rightarrow> js_error + js_object" where
  "computeResourceSetting protectedResource contextParams =
     (case selectSetting contextParams None (pro_settings protectedResource) of
        Inl e \<Rightarrow> Inl e
      | Inr None \<Rightarrow> Inr (cr_defaultSetting (pro_resource protectedResource))
      | Inr (Some finalSetting) \<Rightarrow> Inr finalSetting)"

definition calculateSetting :: "protected_resource_obj \<Rightarrow> jsval \<Rightarrow> js_error + js_object" where
  "calculateSetting protectedResource contextParams = computeResourceSetting protectedResource contextParams"

definition getProtectedResourceByLocator ::
  "protected_resource_obj list \<Rightarrow> string \<Rightarrow> js_error + protected_resource_obj" where
  "getProtectedResourceByLocator protectedResourceList locator =
     (case find (\<lambda>r. cr_locator (pro_resource r) = Some locator) protectedResourceList of
        None \<Rightarrow> Inl (Err PlainError [Txt ''Protected resource ['', Txt locator, Txt ''] undefined''])
      | Some r \<Rightarrow> Inr r)"

definition getProtectedResourcesByTarget ::
  "protected_resource_obj list \<Rightarrow> string \<Rightarrow> protected_resource_obj list" where
  "getProtectedResourcesByTarget protectedResourceList groupName =
     filter (\<lambda>r. pro_target r = Some groupName) protectedResourceList"

text \<open>
  How one contributed entry answers for given context params: its condition returns a
  truthy value (enabled), returns at all (evaluates), or throws.
\<close>

definition evaluates :: "jsval \<Rightarrow> resource_config \<Rightarrow> bool" where
  "evaluates contextParams rc =
     (case cps_checkIfEnabled (rc_policySetting rc) contextParams of Inl e \<Rightarrow> False | Inr v \<Rightarrow> True)"

definition is_enabled :: "jsval \<Rightarrow> resource_config \<Rightarrow> bool" where
  "is_enabled contextParams rc =
     (case cps_checkIfEnabled (rc_policySetting rc) contextParams of Inl e \<Rightarrow> False | Inr v \<Rightarrow> truthy v)"

definition is_disabled :: "jsval \<Rightarrow> resource_config \<Rightarrow> bool" where
  "is_disabled contextParams rc =
     (case cps_checkIfEnabled (rc_policySetting rc) contextParams of Inl e \<Rightarrow> False | Inr v \<Rightarrow> \<not> truthy v)"

text \<open>
  What compilation leaves in the map of protected resources: each resource is the
  compilation of a dictionary entry, and each of its contributed entries comes from a
  grant of one of the policies, with the setting object \<open>buildResourceSettingObject\<close>
  makes of it.
\<close>

definition compiled_from :: "resource_type list \<Rightarrow> protected_resource list \<Rightarrow> compiled_resource \<Rightarrow> bool" where
  "compiled_from resourceTypes dictionary resource =
     (\<exists>d \<in> set dictionary. \<exists>ty.
        find_by rt_name (pr_type d) resourceTypes = Some ty
      \<and> resource = \<lparr>cr_name = pr_name d, cr_type = ty, cr_locator = pr_locator d,
                    cr_defaultSetting = assign (pr_params d) (find_setting (rt_settings ty) (pr_defaultSetting d)),
                    cr_params = pr_params d, cr_id = pr_id d\<rparr>)"

definition contributed_by :: "policy list \<Rightarrow> protected_resource_obj \<Rightarrow> resource_config \<Rightarrow> bool" where
  "contributed_by policies pr rc =
     (\<exists>pol \<in> set policies. \<exists>g \<in> set (grants_of_policy pol).
        rc_setting rc = assign (g_params g)
                          (find_setting (rt_settings (cr_type (pro_resource pr))) (g_setting g))
      \<and> rc_params rc = g_params g \<and> rc_resource rc = pro_resource pr
      \<and> cps_policy (rc_policySetting rc) = pol)"

definition compiled_ok ::
  "resource_type list \<Rightarrow> protected_resource list \<Rightarrow> policy list
     \<Rightarrow> (string \<times> protected_resource_obj) list \<Rightarrow> bool" where
  "compiled_ok types dict pols m =
     (\<forall>(k, pr) \<in> set m. compiled_from types dict (pro_resource pr)
         \<and> (\<forall>rc \<in> set (pro_settings pr). contributed_by pols pr rc))"

text \<open>
  And which policy setting an entry comes from: its \<open>policySetting\<close> is a copy of a
  setting of one of the policies, with that policy and the closure
  \<open>getPolicyConditionImplementation\<close> makes of that very setting attached, and the
  entry itself is made of one of the grants of the setting.
\<close>

definition gated_by ::
  "(string \<Rightarrow> js_error + condition_factory) \<Rightarrow> policy list \<Rightarrow> resource_config \<Rightarrow> bool" where
  "gated_by getPolicyConditionFactory policies rc =
     (\<exists>pol \<in> set policies. \<exists>ps \<in> set (case p_settings pol of None \<Rightarrow> [] | Some cs \<Rightarrow> cs).
        \<exists>g \<in> set (grants_of_setting ps).
          cps_policy (rc_policySetting rc) = pol
        \<and> cps_setting (rc_policySetting rc) = ps_setting ps
        \<and> cps_notes (rc_policySetting rc) = ps_notes ps
        \<and> cps_condition (rc_policySetting rc) = ps_condition ps
        \<and> cps_params (rc_policySetting rc) = ps_params ps
        \<and> cps_protectedResources (rc_policySetting rc) = ps_protectedResources ps
        \<and> getPolicyConditionImplementation getPolicyConditionFactory ps
            = Inr (cps_checkIfEnabled (rc_policySetting rc))
        \<and> rc_params rc = g_params g
        \<and> rc_setting rc = assign (g_params g)
                             (find_setting (rt_settings (cr_type (rc_resource rc))) (g_setting g)))"

definition gated_ok ::
  "(string \<Rightarrow> js_error + condition_factory) \<Rightarrow> policy list
     \<Rightarrow> (string \<times> protected_resource_obj) list \<Rightarrow> bool" where
  "gated_ok getPolicyConditionFactory policies m =
     (\<forall>(k, pr) \<in> set m. \<forall>rc \<in> set (pro_settings pr). gated_by getPolicyConditionFactory policies rc)"

section \<open>The definition loader (security-definition.service.js)\<close>

text \<open>
  The module keeps four registries in module-level variables and writes to a logger.
  Its state is those variables, the log, and the number of UUIDs drawn so far (an id is
  modelled by its rank). Before the first load the registries are undefined, which every
  read below treats as empty.
\<close>

datatype level = Debug | Info | Warn | ErrorLevel | Fatal

record def_state =
  m_dictionary :: "protected_resource list"
  m_resourceTypes :: "resource_type list"
  m_policies :: "policy list"
  m_conditionFactories :: "condition_factory list"
  logged :: "(level \<times> message) list"
  uuids_drawn :: nat

definition logger :: "level \<Rightarrow> message \<Rightarrow> def_state \<Rightarrow> def_state" where
  "logger l m s = s\<lparr>logged := logged s @ [(l, m)]\<rparr>"

text \<open>What \<open>JSON.stringify\<close> is given: the object with its defined, non-function fields.\<close>

definition opt_field :: "string \<Rightarrow> ('a \<Rightarrow> jsval) \<Rightarrow> 'a option \<Rightarrow> js_object" where
  "opt_field k f v = (case v of None \<Rightarrow> [] | Some x \<Rightarrow> [(k, f x)])"

fun json_env :: "env_decl \<Rightarrow> jsval" where
  "json_env (EnvArray tags) = JArr (map JStr tags)"
| "json_env (EnvString s) = JStr s"

definition json_resource_type :: "resource_type \<Rightarrow> jsval" where
  "json_resource_type rt =
     JObj (opt_field ''name'' JStr (rt_name rt) @ opt_field ''env'' json_env (rt_env rt)
           @ [(''settings'', JArr (map JObj (rt_settings rt)))])"

definition json_protected_resource :: "protected_resource \<Rightarrow> jsval" where
  "json_protected_resource d =
     JObj (opt_field ''name'' JStr (pr_name d) @ opt_field ''type'' JStr (pr_type d)
           @ opt_field ''locator'' JStr (pr_locator d)
           @ opt_field ''defaultSetting'' JStr (pr_defaultSetting d)
           @ opt_field ''params'' JObj (pr_params d))"

definition json_policy_resource :: "policy_resource \<Rightarrow> jsval" where
  "json_policy_resource g =
     JObj ([(''resource'', JStr (g_resource g))] @ opt_field ''setting'' JStr (g_setting g)
           @ opt_field ''params'' JObj (g_params g))"

definition json_policy_setting :: "policy_setting \<Rightarrow> jsval" where
  "json_policy_setting c =
     JObj (opt_field ''setting'' JStr (ps_setting c) @ opt_field ''notes'' JStr (ps_notes c)
           @ opt_field ''condition'' JStr (ps_condition c)
           @ (if ps_params c = JUndefined then [] else [(''params'', ps_params c)])
           @ opt_field ''protectedResources'' (\<lambda>gs. JArr (map json_policy_resource gs))
               (ps_protectedResources c))"

text \<open>
  The lookups the module hangs on its arrays (\<open>resourceTypes.find\<close>,
  \<open>resourceTypes.findSetting\<close>, \<open>conditionFactories.find\<close>,
  \<open>dictionary.findProtectedResourceByName\<close>). Each is a closure over the module-level
  variable, not over the array it is attached to: it reads the registry as it is when
  the lookup is called.
\<close>

definition findResourceType :: "def_state \<Rightarrow> string option \<Rightarrow> js_error + resource_type" where
  "findResourceType s ty =
     (case find_by rt_name ty (m_resourceTypes s) of
        None \<Rightarrow> Inl (Err PlainError [Txt ''Undefined resource type ['', Txt (str_of ty), Txt ''].''])
      | Some found \<Rightarrow> Inr found)"

definition findSetting :: "def_state \<Rightarrow> string option \<Rightarrow> string option \<Rightarrow> js_error + js_object option" where
  "findSetting s typeName setting =
     (case findResourceType s typeName of
        Inl e \<Rightarrow> Inl e
      | Inr ty \<Rightarrow> Inr (find_setting (rt_settings ty) setting))"

definition findConditionFactory :: "def_state \<Rightarrow> string \<Rightarrow> js_error + condition_factory" where
  "findConditionFactory s factoryName =
     (case find (\<lambda>f. map_of f ''factory'' = Some (Val (JStr factoryName))) (m_conditionFactories s) of
        None \<Rightarrow> Inl (Err PlainError [Txt ''Undefined condition factory ['', Txt factoryName,
                  Txt '']. Check your security config.''])
      | Some factory \<Rightarrow> Inr factory)"

definition findProtectedResourceByName :: "def_state \<Rightarrow> string \<Rightarrow> protected_resource option" where
  "findProtectedResourceByName s name = find_by pr_name (Some name) (m_dictionary s)"

definition addResourceType :: "resource_type \<Rightarrow> (unit, def_state) run" where
  "addResourceType resourceType s =
     (if \<not> truthy_str (rt_name resourceType)
      then (Inl (Err AssertionError [Txt ''name property is required'']), s)
      else
        (let s1 = logger Debug [Txt ''Add resource type %b'', Txt (str_of (rt_name resourceType))] s
         in if find_by rt_name (rt_name resourceType) (m_resourceTypes s1) \<noteq> None
            then (Inl (Err AssertionError [Txt ''Duplicated resource type'']), s1)
            else case rt_env resourceType of
                   None \<Rightarrow> (Inl (Err AssertionError [Txt ''env property is required'']), s1)
                 | Some env \<Rightarrow>
                     if \<not> env_truthy (Some env)
                     then (Inl (Err AssertionError [Txt ''env property is required'']), s1)
                     else if env_includes env ''server'' \<and> rt_apply resourceType = None
                     then (Inl (Err AssertionError
                             [Txt ''Apply function is required in server protected resource type'']), s1)
                     else (Inr (), s1\<lparr>m_resourceTypes := m_resourceTypes s1 @ [resourceType]\<rparr>)))"

definition initializeResourceTypes ::
  "resource_type list \<Rightarrow> condition_factory list \<Rightarrow> (unit, def_state) run" where
  "initializeResourceTypes resourceTypeList conditionFactoryList s =
     forEach (\<lambda>(typeName, resourceType) s'.
         rethrow_with [Txt '' - invalid resource type ['', Idx typeName, Txt '']: '',
                       Json (json_resource_type resourceType)]
           (addResourceType resourceType s'))
       (enumerate 0 resourceTypeList)
       (s\<lparr>m_conditionFactories := conditionFactoryList, m_resourceTypes := []\<rparr>)"

definition addResourceToDictionary :: "protected_resource \<Rightarrow> (unit, def_state) run" where
  "addResourceToDictionary protectedResource s =
     (if \<not> truthy_str (pr_name protectedResource)
      then (Inl (Err AssertionError [Txt ''Name is required'']), s)
      else
        (let s1 = logger Debug [Txt ''Add resource %b to dictionary'',
                                Txt (str_of (pr_name protectedResource))] s
         in if \<not> truthy_str (pr_type protectedResource)
            then (Inl (Err AssertionError [Txt ''type is required'']), s1)
            else if \<not> truthy_str (pr_locator protectedResource)
            then (Inl (Err AssertionError [Txt ''locator is required'']), s1)
            else if \<not> truthy_str (pr_defaultSetting protectedResource)
            then (Inl (Err AssertionError [Txt ''defaultSetting is required'']), s1)
            else case findResourceType s1 (pr_type protectedResource) of
                   Inl e \<Rightarrow> (Inl e, s1)
                 | Inr resourceType \<Rightarrow>
                     (case findSetting s1 (rt_name resourceType) (pr_defaultSetting protectedResource) of
                        Inl e \<Rightarrow> (Inl e, s1)
                      | Inr settingObj \<Rightarrow>
                          if settingObj = None
                          then (Inl (Err AssertionError
                                  [Txt ''defaultSetting ['', Txt (str_of (pr_defaultSetting protectedResource)),
                                   Txt ''] is unknown to type ['', Txt (str_of (pr_type protectedResource)),
                                   Txt '']'']), s1)
                          else if find_by pr_name (pr_name protectedResource) (m_dictionary s1) \<noteq> None
                          then (Inl (Err AssertionError
                                  [Txt ''Duplicated protected resource ['',
                                   Txt (str_of (pr_name protectedResource)), Txt '']'']), s1)
                          else (Inr (),
                                s1\<lparr>m_dictionary := m_dictionary s1
                                      @ [protectedResource\<lparr>pr_id := Some (uuids_drawn s1)\<rparr>],
                                   uuids_drawn := Suc (uuids_drawn s1)\<rparr>))))"

definition initializeDictionary :: "protected_resource list \<Rightarrow> (unit, def_state) run" where
  "initializeDictionary protectedResources s =
     forEach (\<lambda>protectedResource s'.
         rethrow_with [Txt '' - invalid protected resource in dictionary: '',
                       Json (json_protected_resource protectedResource)]
           (addResourceToDictionary protectedResource s'))
       protectedResources (s\<lparr>m_dictionary := []\<rparr>)"

definition checkPolicyProtectedResource :: "policy_resource \<Rightarrow> (unit, def_state) run" where
  "checkPolicyProtectedResource config s =
     (case findProtectedResourceByName s (g_resource config) of
        None \<Rightarrow> (Inl (Err AssertionError [Txt ''Resource ['', Txt (g_resource config),
                    Txt ''] is not defined in the dictionary'']), s)
      | Some protectedResource \<Rightarrow>
          if \<not> truthy_str (g_setting config)
          then (Inl (Err AssertionError [Txt ''Setting is required'']), s)
          else case findResourceType s (pr_type protectedResource) of
                 Inl e \<Rightarrow> (Inl e, s)
               | Inr resourceType \<Rightarrow>
                   (case findSetting s (pr_type protectedResource) (g_setting config) of
                      Inl e \<Rightarrow> (Inl e, s)
                    | Inr found \<Rightarrow>
                        if found = None
                        then (Inl (Err AssertionError
                                [Txt ''Resource ['', Txt (g_resource config),
                                 Txt ''] uses an undefined setting ['', Txt (str_of (g_setting config)),
                                 Txt '']. Allowed values by its type ['', Txt (str_of (rt_name resourceType)),
                                 Txt ''] are ['',
                                 Arr (map (\<lambda>so. case map_of so ''value'' of None \<Rightarrow> JUndefined | Some v \<Rightarrow> v)
                                        (rt_settings resourceType)),
                                 Txt '']'']), s)
                        else (Inr (), s)))"

text \<open>
  \<open>checkPolicySetting\<close> writes an empty grant list into a setting that has none; the
  setting as it is after the check is returned, since it is the object the policy keeps.
\<close>

definition checkPolicySetting :: "policy_setting \<Rightarrow> (policy_setting, def_state) run" where
  "checkPolicySetting config s =
     (if \<not> truthy_str (ps_setting config)
      then (Inl (Err AssertionError [Txt ''setting is required in policy settings'']), s)
      else case ps_protectedResources config of
             None \<Rightarrow> (Inr (config\<lparr>ps_protectedResources := Some []\<rparr>), s)
           | Some grants \<Rightarrow>
               (case forEach (\<lambda>g s'.
                        rethrow_with [Txt '' - invalid protected resource ['', Txt (g_resource g), Txt '']'']
                          (checkPolicyProtectedResource g s'))
                      grants s of
                  (Inl e, s') \<Rightarrow> (Inl e, s')
                | (Inr _, s') \<Rightarrow> (Inr config, s')))"

fun checkPolicySettings :: "policy_setting list \<Rightarrow> (policy_setting list, def_state) run" where
  "checkPolicySettings [] s = (Inr [], s)"
| "checkPolicySettings (config # rest) s =
     (case rethrow_with [Txt '' - invalid policy setting: '', Json (json_policy_setting config)]
             (checkPolicySetting config s) of
        (Inl e, s') \<Rightarrow> (Inl e, s')
      | (Inr config', s') \<Rightarrow>
          (case checkPolicySettings rest s' of
             (Inl e, s'') \<Rightarrow> (Inl e, s'')
           | (Inr rest', s'') \<Rightarrow> (Inr (config' # rest'), s'')))"

definition addPolicy :: "policy \<Rightarrow> (unit, def_state) run" where
  "addPolicy pol s =
     (if \<not> truthy_str (p_name pol)
      then (Inl (Err AssertionError [Txt ''Name is required'']), s)
      else
        (let s1 = logger Debug [Txt ''Add policy %b'', Txt (str_of (p_name pol))] s
         in case p_settings pol of
              None \<Rightarrow> (Inl (Err AssertionError [Txt ''Settings is required'']), s1)
            | Some settings \<Rightarrow>
                if find_by p_name (p_name pol) (m_policies s1) \<noteq> None
                then (Inl (Err AssertionError
                        [Txt ''Duplicated policy ['', Txt (str_of (p_name pol)), Txt '']'']), s1)
                else case checkPolicySettings settings s1 of
                       (Inl e, s2) \<Rightarrow> (Inl e, s2)
                     | (Inr settings', s2) \<Rightarrow>
                         if truthy_str (p_defaultSetting pol)
                            \<and> find_by ps_setting (p_defaultSetting pol) settings' = None
                         then (Inl (Err AssertionError
                                 [Txt ''defaultSetting ['', Txt (str_of (p_defaultSetting pol)),
                                  Txt ''] is incorrect'']), s2)
                         else (Inr (),
                               s2\<lparr>m_policies := m_policies s2 @ [pol\<lparr>p_settings := Some settings'\<rparr>]\<rparr>)))"

definition initializePolicies :: "policy list \<Rightarrow> (unit, def_state) run" where
  "initializePolicies policyList s =
     forEach (\<lambda>pol s'.
         rethrow_with [Txt '' - invalid policy ['', Txt (str_of (p_name pol)), Txt '']'']
           (addPolicy pol s'))
       policyList (s\<lparr>m_policies := []\<rparr>)"

text \<open>The configuration \<open>load\<close> is given, and the snapshot it returns.\<close>

record user =
  u_id :: "string option"
  u_display :: "string option"
  u_tenantId :: "string option"
  u_permissionRoleCode :: "string option"
  u_isTenantAdmin :: "js_error + bool"

datatype role_setting = RLabel string | RObject "string option" jsval

record role_policy =
  rp_name :: "string option"
  rp_settings :: "role_setting list"

record role =
  r_description :: "string option"
  r_policies :: "role_policy list"

record security_configuration =
  sc_defaultRole :: "string option"
  sc_findRoleByUser :: "user \<Rightarrow> js_error + role option"
  sc_findRole :: "string option \<Rightarrow> js_error + role option"
  sc_findUserByTenantIdAndId :: "string option \<Rightarrow> string option \<Rightarrow> js_error + user"
  sc_dictionary :: "protected_resource list"
  sc_resourceTypes :: "resource_type list"
  sc_policies :: "policy list"
  sc_conditionFactories :: "condition_factory list"

record snapshot =
  s_conditionFactories :: "condition_factory list"
  s_dictionary :: "protected_resource list"
  s_resourceTypes :: "resource_type list"
  s_policies :: "policy list"

text \<open>The three checks of \<open>load\<close>, in order: the body of its \<open>try\<close> up to the
  second log line.\<close>

definition validate :: "security_configuration \<Rightarrow> (unit, def_state) run" where
  "validate security s =
     (case initializeResourceTypes (sc_resourceTypes security) (sc_conditionFactories security) s of
        (Inl e, s1) \<Rightarrow> (Inl e, s1)
      | (Inr _, s1) \<Rightarrow>
          (case initializeDictionary (sc_dictionary security) s1 of
             (Inl e, s2) \<Rightarrow> (Inl e, s2)
           | (Inr _, s2) \<Rightarrow> initializePolicies (sc_policies security) s2))"

definition generic_failure :: js_error where
  "generic_failure = Err PlainError [Txt ''Invalid Application Security Configuration'']"

text \<open>
  \<open>load\<close> of security-definition.service.js, which security.service.js imports under
  the name \<open>initSecurity\<close>.
\<close>

definition initSecurity :: "security_configuration \<Rightarrow> (snapshot, def_state) run" where
  "initSecurity security s =
     (case validate security (logger Info [Txt ''Checking security policy data integrity...''] s) of
        (Inr _, s1) \<Rightarrow>
          (let s2 = logger Info [Txt ''Security policy data integrity PASSED.''] s1
           in (Inr \<lparr>s_conditionFactories = m_conditionFactories s2, s_dictionary = m_dictionary s2,
                     s_resourceTypes = m_resourceTypes s2, s_policies = m_policies s2\<rparr>, s2))
      | (Inl e, s1) \<Rightarrow>
          (let s2 = logger Fatal [Txt ''Security policy data integrity FAILED.''] s1;
               s3 = logger ErrorLevel (err_message e) s2
           in (Inl generic_failure, s3)))"

text \<open>Whether a message names a resource: the name occurs in one of its pieces.\<close>

fun mentions_val :: "string \<Rightarrow> jsval \<Rightarrow> bool" where
  "mentions_val n (JStr s) = contains_str s n"
| "mentions_val n (JArr vs) = list_ex (mentions_val n) vs"
| "mentions_val n (JObj kvs) = list_ex (\<lambda>kv. contains_str (fst kv) n \<or> mentions_val n (snd kv)) kvs"
| "mentions_val n v = False"

fun mentions_part :: "string \<Rightarrow> msg_part \<Rightarrow> bool" where
  "mentions_part n (Txt t) = contains_str t n"
| "mentions_part n (Idx i) = False"
| "mentions_part n (Json v) = mentions_val n v"
| "mentions_part n (Arr vs) = list_ex (mentions_val n) vs"

definition mentions :: "string \<Rightarrow> message \<Rightarrow> bool" where
  "mentions n m = list_ex (mentions_part n) m"

text \<open>
  A configuration cut off right before one grant: the policies before the grant's
  policy, then that policy with the settings before the grant's setting, then that
  setting with the grants before the grant. A default setting could name a later
  setting, so the cut policy declares none.
\<close>

definition upto_grant ::
  "security_configuration \<Rightarrow> policy list \<Rightarrow> policy \<Rightarrow> policy_setting list \<Rightarrow> policy_setting
     \<Rightarrow> policy_resource list \<Rightarrow> security_configuration" where
  "upto_grant security ps pol cs c gs =
     security\<lparr>sc_policies :=
       ps @ [pol\<lparr>p_settings := Some (cs @ [c\<lparr>ps_protectedResources := Some gs\<rparr>]),
                 p_defaultSetting := None\<rparr>]\<rparr>"

text \<open>
  What a successful load establishes on the registries: every resource type declares its
  environments; every dictionary entry has a type that resolves, and bears the name of
  an entry of the configuration; every grant of every policy names a dictionary entry.
\<close>

definition types_ok :: "def_state \<Rightarrow> bool" where
  "types_ok s = (\<forall>t \<in> set (m_resourceTypes s). rt_env t \<noteq> None)"

definition dict_ok :: "protected_resource list \<Rightarrow> def_state \<Rightarrow> bool" where
  "dict_ok ds s =
     ((\<forall>d \<in> set (m_dictionary s). \<exists>t. findResourceType s (pr_type d) = Inr t)
      \<and> pr_name ` set (m_dictionary s) \<subseteq> pr_name ` set ds)"

definition pol_ok :: "def_state \<Rightarrow> bool" where
  "pol_ok s = (\<forall>p \<in> set (m_policies s). \<forall>g \<in> set (grants_of_policy p).
                 findProtectedResourceByName s (g_resource g) \<noteq> None)"

section \<open>The security service (security.service.js)\<close>

text \<open>
  The module-level state of the service: the configuration that \<open>findRole\<close> and the
  exported \<open>findUserByTenantIdAndId\<close> were taken from at the last call of \<open>load\<close>
  (none before the first call), and \<open>systemSecurityData\<close>. The state of the
  definition loader and the clock read by \<open>Date.now()\<close> are carried along.
\<close>

record service_state =
  defs :: def_state
  configured :: "security_configuration option"
  systemSecurityData :: "snapshot option"
  now :: nat

definition load :: "security_configuration \<Rightarrow> (unit, service_state) run" where
  "load securityConfiguration st =
     (if \<not> truthy_str (sc_defaultRole securityConfiguration)
      then (Inl (Err PlainError [Txt ''No default role provided to initialize system security'']), st)
      else
        (let st1 = st\<lparr>configured := Some securityConfiguration\<rparr>
         in case initSecurity securityConfiguration (defs st1) of
              (Inl e, d) \<Rightarrow> (Inl e, st1\<lparr>defs := d\<rparr>)
            | (Inr data, d) \<Rightarrow> (Inr (), st1\<lparr>defs := d, systemSecurityData := Some data\<rparr>)))"

definition getSystemSecurityConfiguration :: "service_state \<Rightarrow> js_error + snapshot" where
  "getSystemSecurityConfiguration st =
     (case systemSecurityData st of
        None \<Rightarrow> Inl (Err PlainError [Txt ''System security not initialized''])
      | Some data \<Rightarrow> Inr data)"

definition initial_defs :: def_state where
  "initial_defs =
     \<lparr>m_dictionary = [], m_resourceTypes = [], m_policies = [], m_conditionFactories = [],
      logged = [], uuids_drawn = 0\<rparr>"

definition initial_state :: service_state where
  "initial_state = \<lparr>defs = initial_defs, configured = None, systemSecurityData = None, now = 0\<rparr>"

subsection \<open>Collecting the policies of a user\<close>

text \<open>\<open>userPolicies\<close> is an array of policies that also carries a \<open>description\<close>.\<close>

record user_policies =
  up_description :: "string option"
  up_list :: "policy list"

record security_data =
  sd_policies :: "policy list option"
  sd_dictionary :: "protected_resource list option"
  sd_resourceTypes :: "resource_type list option"
  sd_env :: string
  sd_user :: user
  sd_description :: "string option"

definition slog :: "level \<Rightarrow> message \<Rightarrow> service_state \<Rightarrow> service_state" where
  "slog l m st = st\<lparr>defs := logger l m (defs st)\<rparr>"

text \<open>The guard \<open>!user.permissionRoleCode || user.isTenantAdmin()\<close>: the method is
  called only when the user has a role code.\<close>

definition security_bypassed :: "user \<Rightarrow> js_error + bool" where
  "security_bypassed u =
     (if \<not> truthy_str (u_permissionRoleCode u) then Inr True else u_isTenantAdmin u)"

text \<open>Loops that build an array and may throw: \<open>_.filter\<close> with a predicate that
  throws, and a \<open>forEach\<close> that pushes some of its results.\<close>

fun filter_throwing :: "('a \<Rightarrow> js_error + bool) \<Rightarrow> 'a list \<Rightarrow> js_error + 'a list" where
  "filter_throwing p [] = Inr []"
| "filter_throwing p (x # xs) =
     (case p x of
        Inl e \<Rightarrow> Inl e
      | Inr keep \<Rightarrow>
          (case filter_throwing p xs of
             Inl e \<Rightarrow> Inl e
           | Inr ys \<Rightarrow> Inr (if keep then x # ys else ys)))"

fun collect :: "('a \<Rightarrow> js_error + 'b option) \<Rightarrow> 'a list \<Rightarrow> js_error + 'b list" where
  "collect f [] = Inr []"
| "collect f (x # xs) =
     (case f x of
        Inl e \<Rightarrow> Inl e
      | Inr y \<Rightarrow>
          (case collect f xs of
             Inl e \<Rightarrow> Inl e
           | Inr ys \<Rightarrow> Inr (case y of None \<Rightarrow> ys | Some v \<Rightarrow> v # ys)))"

text \<open>\<open>systemSecurityData.resourceTypes.find(type).env.indexOf(env) !== -1\<close>\<close>

definition type_in_env :: "service_state \<Rightarrow> string \<Rightarrow> string option \<Rightarrow> js_error + bool" where
  "type_in_env st env ty =
     (case systemSecurityData st of
        None \<Rightarrow> Inl (Err TypeError [Txt ''Cannot read property resourceTypes of undefined''])
      | Some data \<Rightarrow>
          (case findResourceType (defs st) ty of
             Inl e \<Rightarrow> Inl e
           | Inr t \<Rightarrow>
               (case rt_env t of
                  None \<Rightarrow> Inl (Err TypeError [Txt ''Cannot read property indexOf of undefined''])
                | Some e \<Rightarrow> Inr (env_includes e env))))"

definition grant_in_env :: "service_state \<Rightarrow> string \<Rightarrow> policy_resource \<Rightarrow> js_error + bool" where
  "grant_in_env st environment protectedResource =
     (case systemSecurityData st of
        None \<Rightarrow> Inl (Err TypeError [Txt ''Cannot read property dictionary of undefined''])
      | Some data \<Rightarrow>
          (case findProtectedResourceByName (defs st) (g_resource protectedResource) of
             None \<Rightarrow> Inl (Err TypeError [Txt ''Cannot read property type of undefined''])
           | Some resource \<Rightarrow> type_in_env st environment (pr_type resource)))"

definition filterPolicySetting ::
  "service_state \<Rightarrow> string \<Rightarrow> policy_setting \<Rightarrow> js_error + policy_setting option" where
  "filterPolicySetting st environment policySetting =
     (case filter_throwing (grant_in_env st environment) (grants_of_setting policySetting) of
        Inl e \<Rightarrow> Inl e
      | Inr filteredProtectedResources \<Rightarrow>
          Inr (if filteredProtectedResources \<noteq> []
               then Some (policySetting\<lparr>ps_protectedResources := Some filteredProtectedResources\<rparr>)
               else None))"

definition filterPolicy :: "service_state \<Rightarrow> string \<Rightarrow> policy \<Rightarrow> js_error + policy option" where
  "filterPolicy st environment pol =
     (case p_settings pol of
        None \<Rightarrow> Inl (Err TypeError [Txt ''Cannot read property forEach of undefined''])
      | Some settings \<Rightarrow>
          (case collect (filterPolicySetting st environment) settings of
             Inl e \<Rightarrow> Inl e
           | Inr filteredPolicySettings \<Rightarrow>
               Inr (if filteredPolicySettings \<noteq> []
                    then Some (pol\<lparr>p_settings := Some filteredPolicySettings\<rparr>)
                    else None)))"

definition filterPolicyContentByEnvironment ::
  "service_state \<Rightarrow> policy list \<Rightarrow> string \<Rightarrow> js_error + policy list" where
  "filterPolicyContentByEnvironment st userPolicies environment =
     collect (filterPolicy st environment) userPolicies"

definition generateUserSecurityDataByEnvironment ::
  "service_state \<Rightarrow> user \<Rightarrow> user_policies \<Rightarrow> string \<Rightarrow> js_error + security_data" where
  "generateUserSecurityDataByEnvironment st u userPolicies env =
     (case security_bypassed u of
        Inl e \<Rightarrow> Inl e
      | Inr True \<Rightarrow>
          Inr \<lparr>sd_policies = None, sd_dictionary = None, sd_resourceTypes = None,
               sd_env = env, sd_user = u, sd_description = Some ''Admin - Full access''\<rparr>
      | Inr False \<Rightarrow>
          (case filterPolicyContentByEnvironment st (up_list userPolicies) env of
             Inl e \<Rightarrow> Inl e
           | Inr filteredPolicies \<Rightarrow>
               (case systemSecurityData st of
                  None \<Rightarrow> Inl (Err TypeError [Txt ''Cannot read property dictionary of undefined''])
                | Some data \<Rightarrow>
                    (case filter_throwing (\<lambda>resource. type_in_env st env (pr_type resource))
                            (s_dictionary data) of
                       Inl e \<Rightarrow> Inl e
                     | Inr filteredDictionary \<Rightarrow>
                         (case filter_throwing
                                 (\<lambda>ty. case rt_env ty of
                                          None \<Rightarrow> Inl (Err TypeError
                                                    [Txt ''Cannot read property indexOf of undefined''])
                                        | Some e \<Rightarrow> Inr (env_includes e env))
                                 (s_resourceTypes data) of
                            Inl e \<Rightarrow> Inl e
                          | Inr filteredResourceTypes \<Rightarrow>
                              Inr \<lparr>sd_policies = Some filteredPolicies,
                                   sd_dictionary = Some filteredDictionary,
                                   sd_resourceTypes = Some filteredResourceTypes,
                                   sd_env = env, sd_user = u,
                                   sd_description = up_description userPolicies\<rparr>)))))"

definition json_policy :: "policy \<Rightarrow> jsval" where
  "json_policy pol =
     JObj (opt_field ''name'' JStr (p_name pol) @ opt_field ''description'' JStr (p_description pol)
           @ opt_field ''defaultSetting'' JStr (p_defaultSetting pol)
           @ opt_field ''settings'' (\<lambda>cs. JArr (map json_policy_setting cs)) (p_settings pol))"

definition to_upper :: "string \<Rightarrow> string" where
  "to_upper s =
     map (\<lambda>c. if 97 \<le> (of_char c :: nat) \<and> (of_char c :: nat) \<le> 122
               then char_of ((of_char c :: nat) - 32) else c) s"

definition formatUserSecurityData ::
  "security_data \<Rightarrow> service_state \<Rightarrow> user_security_data \<times> service_state" where
  "formatUserSecurityData securityData st =
     (let formated =
            \<lparr>usd_id = 1, usd_revision = now st, usd_timestamp = [], usd_userId = u_id (sd_user securityData),
             usd_display = u_display (sd_user securityData), usd_policies = sd_policies securityData,
             usd_dictionary = sd_dictionary securityData,
             usd_resourceTypes = sd_resourceTypes securityData\<rparr>;
          rule = [Txt ''--------------------------------------------------''];
          st1 = slog Debug rule st;
          st2 = slog Info
                  [Txt (str_of (u_display (sd_user securityData))),
                   Txt '': Server Security on %b: %b - id: %b'', Txt (to_upper (sd_env securityData)),
                   Txt (str_of (sd_description securityData)),
                   Txt (if truthy_str (u_permissionRoleCode (sd_user securityData))
                        then str_of (u_permissionRoleCode (sd_user securityData))
                        else ''Role has not been defined'')] st1;
          st3 = slog Debug
                  (case usd_policies formated of
                     None \<Rightarrow> [Txt ''No security enforced.'']
                   | Some ps \<Rightarrow> [Json (JArr (map json_policy ps))]) st2
      in (formated, slog Debug rule st3))"

text \<open>\<open>findRole\<close>, as \<open>load\<close> sets it: the role of the user, or the default role.\<close>

definition findRole :: "user \<Rightarrow> (role option, service_state) run" where
  "findRole u st =
     (case configured st of
        None \<Rightarrow> (Inl (Err TypeError [Txt ''findRole is not a function'']), st)
      | Some securityConfiguration \<Rightarrow>
          (case sc_findRoleByUser securityConfiguration u of
             Inl e \<Rightarrow> (Inl e, st)
           | Inr (Some policyRole) \<Rightarrow> (Inr (Some policyRole), st)
           | Inr None \<Rightarrow>
               (sc_findRole securityConfiguration (sc_defaultRole securityConfiguration),
                slog Info [Txt (str_of (u_display u)),
                           Txt '': No defined role. Using configured default role:'',
                           Txt (str_of (sc_defaultRole securityConfiguration))] st)))"

fun json_role_setting :: "role_setting \<Rightarrow> jsval" where
  "json_role_setting (RLabel l) = JStr l"
| "json_role_setting (RObject v params) =
     JObj (opt_field ''value'' JStr v @ (if params = JUndefined then [] else [(''params'', params)]))"

definition collectRolePolicySettingDefinition :: "policy \<Rightarrow> role_setting \<Rightarrow> js_error + policy_setting" where
  "collectRolePolicySettingDefinition policyDefinition setting =
     (let settings = (case p_settings policyDefinition of None \<Rightarrow> [] | Some cs \<Rightarrow> cs);
          policySettingConfiguration =
            (case setting of
               RObject v params \<Rightarrow> find_by ps_setting v settings
             | RLabel l \<Rightarrow> find_by ps_setting (Some l) settings)
      in case policySettingConfiguration of
           None \<Rightarrow> Inl (Err PlainError
                     [Txt ''Setting ['', Json (json_role_setting setting),
                      Txt ''] does NOT exist for policy ['', Txt (str_of (p_name policyDefinition)), Txt '']''])
         | Some c \<Rightarrow>
             (case setting of
                RObject v params \<Rightarrow> Inr (if truthy params then c\<lparr>ps_params := params\<rparr> else c)
              | RLabel l \<Rightarrow> Inr c))"

definition collectRolePolicySettingDefinitions ::
  "role_setting list \<Rightarrow> policy \<Rightarrow> js_error + policy_setting list" where
  "collectRolePolicySettingDefinitions rolePolicySettings policyDefinition =
     collect (\<lambda>setting. case collectRolePolicySettingDefinition policyDefinition setting of
                          Inl e \<Rightarrow> Inl e | Inr c \<Rightarrow> Inr (Some c))
       rolePolicySettings"

definition rolePolicyFor :: "role \<Rightarrow> policy \<Rightarrow> js_error + policy option" where
  "rolePolicyFor userRole policyDefinition =
     (let rolePolicy = find_by rp_name (p_name policyDefinition) (r_policies userRole);
          settings =
            (case rolePolicy of
               Some rp \<Rightarrow>
                 if rp_settings rp \<noteq> []
                 then map_sum id Some (collectRolePolicySettingDefinitions (rp_settings rp) policyDefinition)
                 else if truthy_str (p_defaultSetting policyDefinition)
                 then map_sum id Some (collectRolePolicySettingDefinitions
                        [RLabel (str_of (p_defaultSetting policyDefinition))] policyDefinition)
                 else Inr None
             | None \<Rightarrow>
                 if truthy_str (p_defaultSetting policyDefinition)
                 then map_sum id Some (collectRolePolicySettingDefinitions
                        [RLabel (str_of (p_defaultSetting policyDefinition))] policyDefinition)
                 else Inr None)
      in case settings of
           Inl e \<Rightarrow> Inl e
         | Inr None \<Rightarrow> Inr None
         | Inr (Some cs) \<Rightarrow>
             Inr (if cs \<noteq> []
                  then Some \<lparr>p_name = p_name policyDefinition, p_description = None,
                             p_defaultSetting = None, p_settings = Some cs\<rparr>
                  else None))"

definition generateRolePolicies :: "service_state \<Rightarrow> role option \<Rightarrow> js_error + user_policies" where
  "generateRolePolicies st userRole =
     (case userRole of
        None \<Rightarrow> Inl (Err TypeError [Txt ''Cannot read property description of undefined''])
      | Some r \<Rightarrow>
          (case systemSecurityData st of
             None \<Rightarrow> Inl (Err TypeError [Txt ''Cannot read property policies of undefined''])
           | Some data \<Rightarrow>
               (case collect (rolePolicyFor r) (s_policies data) of
                  Inl e \<Rightarrow> Inl e
                | Inr userPolicies \<Rightarrow>
                    Inr \<lparr>up_description = r_description r, up_list = userPolicies\<rparr>)))"

definition invalid_policy :: "user \<Rightarrow> js_error \<Rightarrow> (user_policies, service_state) run" where
  "invalid_policy u e st =
     (Inl (add_message [Txt ''- Invalid security policy for user '', Txt (str_of (u_display u))] e),
      slog ErrorLevel [Txt (str_of (u_display u)), Txt '': **** INVALID SECURITY POLICY ****''] st)"

definition findUserPolicyData :: "user \<Rightarrow> (user_policies, service_state) run" where
  "findUserPolicyData u st =
     (case security_bypassed u of
        Inl e \<Rightarrow> (Inl e, st)
      | Inr True \<Rightarrow>
          (Inr \<lparr>up_description = None, up_list = []\<rparr>,
           slog Warn [Txt ''Security deactivated for %b'', Txt (str_of (u_display u))] st)
      | Inr False \<Rightarrow>
          (case findRole u st of
             (Inl e, st1) \<Rightarrow> invalid_policy u e st1
           | (Inr userRole, st1) \<Rightarrow>
               (case generateRolePolicies st1 userRole of
                  Inl e \<Rightarrow> invalid_policy u e st1
                | Inr userPolicies \<Rightarrow> (Inr userPolicies, st1))))"

definition collectClientUserPolicy :: "user \<Rightarrow> (user_security_data, service_state) run" where
  "collectClientUserPolicy u st =
     (case findUserPolicyData u st of
        (Inl e, st1) \<Rightarrow> (Inl e, st1)
      | (Inr userPolicies, st1) \<Rightarrow>
          (case generateUserSecurityDataByEnvironment st1 u userPolicies ''client'' of
             Inl e \<Rightarrow> (Inl e, st1)
           | Inr securityData \<Rightarrow>
               (case formatUserSecurityData securityData st1 of
                  (formated, st2) \<Rightarrow> (Inr formated, st2))))"

definition getPolicyConditionFactory :: "service_state \<Rightarrow> string \<Rightarrow> js_error + condition_factory" where
  "getPolicyConditionFactory st factoryName =
     (case systemSecurityData st of
        None \<Rightarrow> Inl (Err TypeError [Txt ''Cannot read property conditionFactories of undefined''])
      | Some data \<Rightarrow> findConditionFactory (defs st) factoryName)"

definition getResourceTypeFactory :: "resource_type \<Rightarrow> js_error + implementation" where
  "getResourceTypeFactory resourceType =
     Inr \<lparr>impl_target = rt_name resourceType, impl_apply = rt_apply resourceType\<rparr>"

definition collectServerUserPolicy :: "user \<Rightarrow> (protected_resource_obj list, service_state) run" where
  "collectServerUserPolicy u st =
     (case findUserPolicyData u st of
        (Inl e, st1) \<Rightarrow> (Inl e, st1)
      | (Inr userPolicies, st1) \<Rightarrow>
          (case generateUserSecurityDataByEnvironment st1 u userPolicies ''server'' of
             Inl e \<Rightarrow> (Inl e, st1)
           | Inr securityData \<Rightarrow>
               (case formatUserSecurityData securityData st1 of
                  (formated, st2) \<Rightarrow>
                    (compileSecurityData (getPolicyConditionFactory st2) getResourceTypeFactory formated,
                     st2))))"

subsection \<open>Applying a policy to a server resource\<close>

text \<open>
  What the promise of \<open>applyResourcePolicy\<close> resolves to: the value the apply function
  gave and \<open>isSetting\<close>, a closure that reads the service when it is called. A
  rejected promise is an error result.
\<close>

record apply_result =
  ar_result :: jsval
  ar_isSetting :: "string \<Rightarrow> (bool, service_state) run"

text \<open>The \<open>isSetting\<close> of the guarded branch: it prints \<open>user.display\<close> and answers
  false; with no user at all, reading \<open>display\<close> throws.\<close>

definition isSetting_without_policy :: "user option \<Rightarrow> string \<Rightarrow> string \<Rightarrow> (bool, service_state) run" where
  "isSetting_without_policy u protectedResourceLocator settingName st =
     (case u of
        None \<Rightarrow> (Inl (Err TypeError [Txt ''Cannot read property display of undefined'']), st)
      | Some usr \<Rightarrow>
          (Inr False,
           slog ErrorLevel
             [Txt (str_of (u_display usr)),
              Txt '': isSetting() for resource %b is not supported when user is no under a policy'',
              Txt protectedResourceLocator] st))"

text \<open>The \<open>isSetting\<close> of the other branch. The protected resource object has neither a
  \<open>setting\<close> nor a \<open>type\<close> property, so the name is compared with undefined and the
  setting is looked up in an undefined type.\<close>

definition isSetting :: "string \<Rightarrow> (bool, service_state) run" where
  "isSetting settingName st =
     (case systemSecurityData st of
        None \<Rightarrow> (Inl (Err TypeError [Txt ''Cannot read property resourceTypes of undefined'']), st)
      | Some data \<Rightarrow>
          (case findSetting (defs st) None (Some settingName) of
             Inl e \<Rightarrow> (Inl e, st)
           | Inr None \<Rightarrow>
               (Inl (Err AssertionError
                      [Txt ''Inexisting setting ['', Txt settingName,
                       Txt ''] was passed to isSetting function  to check protected resource ['',
                       Txt ''undefined'', Txt '']'']), st)
           | Inr (Some found) \<Rightarrow> (Inr False, st)))"

definition resolved_without_policy :: "user option \<Rightarrow> string \<Rightarrow> apply_result" where
  "resolved_without_policy u protectedResourceLocator =
     \<lparr>ar_result = JBool True, ar_isSetting = isSetting_without_policy u protectedResourceLocator\<rparr>"

definition applyResourcePolicy ::
  "user option \<Rightarrow> string \<Rightarrow> jsval \<Rightarrow> (apply_result, service_state) run" where
  "applyResourcePolicy u protectedResourceLocator contextParams st =
     (case u of
        None \<Rightarrow> (Inr (resolved_without_policy u protectedResourceLocator), st)
      | Some usr \<Rightarrow>
          if \<not> truthy_str (u_permissionRoleCode usr)
          then (Inr (resolved_without_policy u protectedResourceLocator), st)
          else
            (case collectServerUserPolicy usr st of
               (Inl e, st1) \<Rightarrow> (Inl e, st1)
             | (Inr userPolicy, st1) \<Rightarrow>
                 (case getProtectedResourceByLocator userPolicy protectedResourceLocator of
                    Inl e \<Rightarrow> (Inl e, st1)
                  | Inr protectedResource \<Rightarrow>
                      (case calculateSetting protectedResource contextParams of
                         Inl e \<Rightarrow> (Inl e, st1)
                       | Inr setting \<Rightarrow>
                           (case pro_apply protectedResource of
                              None \<Rightarrow> (Inl (Err TypeError
                                         [Txt ''protectedResource.apply is not a function'']), st1)
                            | Some apply \<Rightarrow>
                                (case apply setting contextParams of
                                   Inl e \<Rightarrow> (Inl e, st1)
                                 | Inr valid \<Rightarrow>
                                     if \<not> truthy valid
                                     then (Inl (Rejection ''RESOURCE_DENIED''),
                                           slog Warn
                                             [Txt (str_of (u_display usr)),
                                              Txt '': Server protected resource %b is denied'',
                                              Txt ''undefined''] st1)
                                     else (Inr \<lparr>ar_result = valid, ar_isSetting = isSetting\<rparr>,
                                           st1)))))))"

text \<open>
  The environments a resource type name stands for in the registries, and whether they
  include a given tag; the same for the resource a grant names.
\<close>

definition declares :: "resource_type \<Rightarrow> string \<Rightarrow> bool" where
  "declares ty env = (case rt_env ty of None \<Rightarrow> False | Some e \<Rightarrow> env_includes e env)"

definition in_environment :: "def_state \<Rightarrow> string \<Rightarrow> string option \<Rightarrow> bool" where
  "in_environment s env ty =
     (case findResourceType s ty of Inl e \<Rightarrow> False | Inr t \<Rightarrow> declares t env)"

definition grant_in_environment :: "def_state \<Rightarrow> string \<Rightarrow> policy_resource \<Rightarrow> bool" where
  "grant_in_environment s env g =
     (case findProtectedResourceByName s (g_resource g) of
        None \<Rightarrow> False
      | Some resource \<Rightarrow> in_environment s env (pr_type resource))"

subsection \<open>The service between two loads\<close>

text \<open>
  The states the service goes through once a load has succeeded and as long as no other
  load is attempted: whatever the exported functions, the closures they return and their
  helpers leave behind, a line more in the log, a later reading of the clock. In all of
  them the registries of the definition loader are those of the snapshot
  (\<open>in_step\<close>); nothing but \<open>load\<close> writes to them (\<open>same_registries\<close>).
\<close>

definition same_registries :: "service_state \<Rightarrow> service_state \<Rightarrow> bool" where
  "same_registries st st' =
     (systemSecurityData st' = systemSecurityData st
      \<and> m_dictionary (defs st') = m_dictionary (defs st)
      \<and> m_resourceTypes (defs st') = m_resourceTypes (defs st)
      \<and> m_policies (defs st') = m_policies (defs st))"

definition in_step :: "service_state \<Rightarrow> bool" where
  "in_step st =
     (\<exists>data. systemSecurityData st = Some data
        \<and> s_dictionary data = m_dictionary (defs st)
        \<and> s_resourceTypes data = m_resourceTypes (defs st)
        \<and> s_policies data = m_policies (defs st)
        \<and> types_ok (defs st) \<and> dict_ok (m_dictionary (defs st)) (defs st) \<and> pol_ok (defs st))"

inductive loaded :: "service_state \<Rightarrow> bool" where
  loaded_load: "load securityConfiguration st0 = (Inr (), st) \<Longrightarrow> loaded st"
| loaded_log: "loaded st \<Longrightarrow> loaded (slog l m st)"
| loaded_clock: "loaded st \<Longrightarrow> loaded (st\<lparr>now := t\<rparr>)"
| loaded_findUserPolicyData: "loaded st \<Longrightarrow> loaded (snd (findUserPolicyData u st))"
| loaded_collectClientUserPolicy: "loaded st \<Longrightarrow> loaded (snd (collectClientUserPolicy u st))"
| loaded_collectServerUserPolicy: "loaded st \<Longrightarrow> loaded (snd (collectServerUserPolicy u st))"
| loaded_applyResourcePolicy:
    "loaded st \<Longrightarrow> loaded (snd (applyResourcePolicy user protectedResourceLocator contextParams st))"
| loaded_isSetting: "loaded st \<Longrightarrow> loaded (snd (isSetting settingName st))"
| loaded_isSetting_without_policy:
    "loaded st \<Longrightarrow> loaded (snd (isSetting_without_policy user protectedResourceLocator settingName st))"

code_pred loaded .

section \<open>Example data\<close>

text \<open>
  The resource type and the dictionary entry of the repository's tests and of the
  specification's scenarios: menu items are shown (priority 1) or hidden (priority 0),
  and the account menu is shown by default.
\<close>

definition ex_show :: js_object where
  "ex_show = [(''value'', JStr ''show''), (''priority'', JNum 1)]"

definition ex_hide :: js_object where
  "ex_hide = [(''value'', JStr ''hide''), (''priority'', JNum 0)]"

definition ex_AppMenuItem :: resource_type where
  "ex_AppMenuItem =
     \<lparr>rt_name = Some ''AppMenuItem'', rt_env = Some (EnvString ''client''),
      rt_settings = [ex_show, ex_hide], rt_apply = None\<rparr>"

definition ex_AccountMenu :: compiled_resource where
  "ex_AccountMenu =
     \<lparr>cr_name = Some ''Account menu'', cr_type = ex_AppMenuItem, cr_locator = Some ''accountOption'',
      cr_defaultSetting = ex_show, cr_params = None, cr_id = Some 0\<rparr>"

definition ex_policy :: policy where
  "ex_policy =
     \<lparr>p_name = Some ''Account Policy'', p_description = Some ''Account Security Policy'',
      p_defaultSetting = None, p_settings = Some []\<rparr>"

definition ex_policySetting :: "(jsval \<Rightarrow> js_error + jsval) \<Rightarrow> compiled_policy_setting" where
  "ex_policySetting checkIfEnabled =
     \<lparr>cps_setting = Some ''read'', cps_notes = None, cps_condition = None, cps_params = JUndefined,
      cps_protectedResources = Some [], cps_checkIfEnabled = checkIfEnabled, cps_policy = ex_policy\<rparr>"

definition ex_entry :: "js_object \<Rightarrow> (jsval \<Rightarrow> js_error + jsval) \<Rightarrow> resource_config" where
  "ex_entry setting checkIfEnabled =
     \<lparr>rc_resource = ex_AccountMenu, rc_setting = setting, rc_params = None,
      rc_policySetting = ex_policySetting checkIfEnabled\<rparr>"

definition ex_protected :: "resource_config list \<Rightarrow> protected_resource_obj" where
  "ex_protected entries =
     \<lparr>pro_resource = ex_AccountMenu, pro_settings = entries, pro_apply = None,
      pro_target = Some ''AppMenuItem''\<rparr>"

definition ex_always :: "jsval \<Rightarrow> js_error + jsval" where
  "ex_always contextParams = Inr (JBool True)"

definition ex_never :: "jsval \<Rightarrow> js_error + jsval" where
  "ex_never contextParams = Inr (JBool False)"

text \<open>Four contributed entries: shown, hidden but disabled, hidden, hidden with a note.\<close>

definition ex_four :: protected_resource_obj where
  "ex_four = ex_protected
     [ex_entry ex_show ex_always, ex_entry ex_hide ex_never, ex_entry ex_hide ex_always,
      ex_entry ((''note'', JStr ''late'') # ex_hide) ex_always]"

text \<open>A condition factory with one predicate, true for the owner only.\<close>

definition ex_isOwner :: condition_fn where
  "ex_isOwner params contextParams = Inr (JBool (contextParams = JStr ''owner''))"

definition ex_factory :: condition_factory where
  "ex_factory = [(''factory'', Val (JStr ''account'')), (''isOwner'', Fn ex_isOwner)]"

definition ex_getFactory :: "string \<Rightarrow> js_error + condition_factory" where
  "ex_getFactory factoryName =
     (if factoryName = ''account'' then Inr ex_factory
      else Inl (Err PlainError [Txt ''Undefined condition factory ['', Txt factoryName,
                  Txt '']. Check your security config.'']))"

definition ex_unconditional :: policy_setting where
  "ex_unconditional =
     \<lparr>ps_setting = Some ''read'', ps_notes = None, ps_condition = None, ps_params = JUndefined,
      ps_protectedResources = Some []\<rparr>"

definition ex_conditional :: policy_setting where
  "ex_conditional =
     \<lparr>ps_setting = Some ''Update'', ps_notes = None, ps_condition = Some ''account.isOwner'',
      ps_params = JUndefined, ps_protectedResources = Some []\<rparr>"

definition ex_grant :: policy_resource where
  "ex_grant =
     \<lparr>g_resource = ''Account menu'', g_setting = Some ''hide'',
      g_params = Some [(''priority'', JNum 9), (''reason'', JStr ''audit'')]\<rparr>"

text \<open>
  The configurations of the repository's tests (spec/security.service.spec.js): two
  resource types, two dictionary entries and the account policy; the second test loads
  the policy against an empty dictionary. \<open>_.noop\<close> stands in for the role and user
  lookups there, so calling them fails.
\<close>

definition ex_screenForm :: resource_type where
  "ex_screenForm =
     \<lparr>rt_name = Some ''screenForm'', rt_env = Some (EnvString ''client''),
      rt_settings = [[(''value'', JStr ''readOnly''), (''priority'', JNum 1)],
                     [(''value'', JStr ''edit''), (''priority'', JNum 0)],
                     [(''value'', JStr ''create''), (''priority'', JNum 0)]],
      rt_apply = None\<rparr>"

definition ex_dictionary :: "protected_resource list" where
  "ex_dictionary =
     [\<lparr>pr_name = Some ''Account menu'', pr_type = Some ''AppMenuItem'', pr_locator = Some ''accountOption'',
       pr_defaultSetting = Some ''show'', pr_params = None, pr_id = None\<rparr>,
      \<lparr>pr_name = Some ''Account Screen Form'', pr_type = Some ''screenForm'', pr_locator = Some ''account'',
       pr_defaultSetting = Some ''readOnly'', pr_params = None, pr_id = None\<rparr>]"

definition ex_grants :: "string \<Rightarrow> string \<Rightarrow> policy_resource list" where
  "ex_grants menu form =
     [\<lparr>g_resource = ''Account menu'', g_setting = Some menu, g_params = None\<rparr>,
      \<lparr>g_resource = ''Account Screen Form'', g_setting = Some form, g_params = None\<rparr>]"

definition ex_read :: policy_setting where
  "ex_read =
     \<lparr>ps_setting = Some ''read'', ps_notes = Some ''This provides user access to review accounts.'',
      ps_condition = None, ps_params = JUndefined,
      ps_protectedResources = Some (ex_grants ''show'' ''readOnly'')\<rparr>"

definition ex_update :: policy_setting where
  "ex_update =
     \<lparr>ps_setting = Some ''Update'', ps_notes = Some ''This provides user access to review/edit accounts.'',
      ps_condition = None, ps_params = JUndefined,
      ps_protectedResources = Some (ex_grants ''show'' ''edit'')\<rparr>"

definition ex_create :: policy_setting where
  "ex_create =
     \<lparr>ps_setting = Some ''create'',
      ps_notes = Some ''This provides user access to create,edit,review accounts.'',
      ps_condition = None, ps_params = JUndefined,
      ps_protectedResources = Some (ex_grants ''show'' ''create'')\<rparr>"

definition ex_account_policy :: policy where
  "ex_account_policy =
     \<lparr>p_name = Some ''Account Policy'', p_description = Some ''Account Security Policy'',
      p_defaultSetting = None, p_settings = Some [ex_read, ex_update, ex_create]\<rparr>"

definition ex_noop :: js_error where
  "ex_noop = Err TypeError [Txt ''Cannot read property then of undefined'']"

definition ex_valid_configuration :: security_configuration where
  "ex_valid_configuration =
     \<lparr>sc_defaultRole = Some ''admin'', sc_findRoleByUser = (\<lambda>u. Inl ex_noop),
      sc_findRole = (\<lambda>r. Inl ex_noop), sc_findUserByTenantIdAndId = (\<lambda>t i. Inl ex_noop),
      sc_dictionary = ex_dictionary, sc_resourceTypes = [ex_AppMenuItem, ex_screenForm],
      sc_policies = [ex_account_policy], sc_conditionFactories = []\<rparr>"

definition ex_failing_configuration :: security_configuration where
  "ex_failing_configuration =
     \<lparr>sc_defaultRole = Some ''admin'', sc_findRoleByUser = (\<lambda>u. Inl ex_noop),
      sc_findRole = (\<lambda>r. Inl ex_noop), sc_findUserByTenantIdAndId = (\<lambda>t i. Inl ex_noop),
      sc_dictionary = [], sc_resourceTypes = [],
      sc_policies = [ex_account_policy], sc_conditionFactories = []\<rparr>"

text \<open>A policy granting a resource \<open>Ghost\<close> that no dictionary declares, in a
  configuration whose only resource type has no name.\<close>

definition ex_ghost_policy :: policy where
  "ex_ghost_policy =
     \<lparr>p_name = Some ''Ghost Policy'', p_description = None, p_defaultSetting = None,
      p_settings = Some [\<lparr>ps_setting = Some ''read'', ps_notes = None, ps_condition = None,
                          ps_params = JUndefined,
                          ps_protectedResources =
                            Some [\<lparr>g_resource = ''Ghost'', g_setting = Some ''show'', g_params = None\<rparr>]\<rparr>]\<rparr>"

definition ex_ghost_configuration :: security_configuration where
  "ex_ghost_configuration =
     \<lparr>sc_defaultRole = Some ''admin'', sc_findRoleByUser = (\<lambda>u. Inl ex_noop),
      sc_findRole = (\<lambda>r. Inl ex_noop), sc_findUserByTenantIdAndId = (\<lambda>t i. Inl ex_noop),
      sc_dictionary = [],
      sc_resourceTypes = [\<lparr>rt_name = None, rt_env = None, rt_settings = [], rt_apply = None\<rparr>],
      sc_policies = [ex_ghost_policy], sc_conditionFactories = []\<rparr>"

text \<open>
  A configuration with a client type, a server type and a type declared for both, one
  resource of each, and a policy whose default setting grants a setting on all three.
\<close>

definition ex_apply :: apply_fn where
  "ex_apply setting contextParams =
     Inr (JBool (map_of setting ''value'' \<noteq> Some (JStr ''deny'')))"

definition ex_ApiCall :: resource_type where
  "ex_ApiCall =
     \<lparr>rt_name = Some ''ApiCall'', rt_env = Some (EnvArray [''server'']),
      rt_settings = [[(''value'', JStr ''allow''), (''priority'', JNum 1)],
                     [(''value'', JStr ''deny''), (''priority'', JNum 0)]],
      rt_apply = Some ex_apply\<rparr>"

definition ex_Shared :: resource_type where
  "ex_Shared =
     \<lparr>rt_name = Some ''Shared'', rt_env = Some (EnvArray [''client'', ''server'']),
      rt_settings = [[(''value'', JStr ''on''), (''priority'', JNum 1)],
                     [(''value'', JStr ''off''), (''priority'', JNum 0)]],
      rt_apply = Some ex_apply\<rparr>"

definition ex_entry_of :: "string \<Rightarrow> string \<Rightarrow> string \<Rightarrow> string \<Rightarrow> nat option \<Rightarrow> protected_resource" where
  "ex_entry_of name ty locator setting ident =
     \<lparr>pr_name = Some name, pr_type = Some ty, pr_locator = Some locator,
      pr_defaultSetting = Some setting, pr_params = None, pr_id = ident\<rparr>"

definition ex_env_dictionary :: "protected_resource list" where
  "ex_env_dictionary =
     [ex_entry_of ''Account menu'' ''AppMenuItem'' ''accountOption'' ''show'' None,
      ex_entry_of ''Update account'' ''ApiCall'' ''api.account.updateOne'' ''allow'' None,
      ex_entry_of ''Audit trail'' ''Shared'' ''audit'' ''on'' None]"

definition ex_registered_dictionary :: "protected_resource list" where
  "ex_registered_dictionary =
     [ex_entry_of ''Account menu'' ''AppMenuItem'' ''accountOption'' ''show'' (Some 0),
      ex_entry_of ''Update account'' ''ApiCall'' ''api.account.updateOne'' ''allow'' (Some 1),
      ex_entry_of ''Audit trail'' ''Shared'' ''audit'' ''on'' (Some 2)]"

definition ex_grant_of :: "string \<Rightarrow> string \<Rightarrow> policy_resource" where
  "ex_grant_of name setting = \<lparr>g_resource = name, g_setting = Some setting, g_params = None\<rparr>"

definition ex_manage :: policy_setting where
  "ex_manage =
     \<lparr>ps_setting = Some ''manage'', ps_notes = None, ps_condition = None, ps_params = JUndefined,
      ps_protectedResources =
        Some [ex_grant_of ''Account menu'' ''hide'', ex_grant_of ''Update account'' ''deny'',
              ex_grant_of ''Audit trail'' ''off'']\<rparr>"

definition ex_env_policy :: policy where
  "ex_env_policy =
     \<lparr>p_name = Some ''Account Policy'', p_description = Some ''Account Security Policy'',
      p_defaultSetting = Some ''manage'', p_settings = Some [ex_manage]\<rparr>"

definition ex_clerk_role :: role where
  "ex_clerk_role = \<lparr>r_description = Some ''Clerk'', r_policies = []\<rparr>"

definition ex_env_configuration :: security_configuration where
  "ex_env_configuration =
     \<lparr>sc_defaultRole = Some ''clerk'', sc_findRoleByUser = (\<lambda>u. Inr None),
      sc_findRole = (\<lambda>r. Inr (Some ex_clerk_role)), sc_findUserByTenantIdAndId = (\<lambda>t i. Inl ex_noop),
      sc_dictionary = ex_env_dictionary, sc_resourceTypes = [ex_AppMenuItem, ex_ApiCall, ex_Shared],
      sc_policies = [ex_env_policy], sc_conditionFactories = []\<rparr>"

text \<open>The service once that configuration is loaded, and after a failed reload with
  the second test's configuration.\<close>

definition ex_snapshot :: snapshot where
  "ex_snapshot =
     \<lparr>s_conditionFactories = [], s_dictionary = ex_registered_dictionary,
      s_resourceTypes = [ex_AppMenuItem, ex_ApiCall, ex_Shared], s_policies = [ex_env_policy]\<rparr>"

definition ex_loaded :: service_state where
  "ex_loaded =
     \<lparr>defs =
        \<lparr>m_dictionary = ex_registered_dictionary,
         m_resourceTypes = [ex_AppMenuItem, ex_ApiCall, ex_Shared],
         m_policies = [ex_env_policy], m_conditionFactories = [],
         logged =
           [(Info, [Txt ''Checking security policy data integrity...'']),
            (Debug, [Txt ''Add resource type %b'', Txt ''AppMenuItem'']),
            (Debug, [Txt ''Add resource type %b'', Txt ''ApiCall'']),
            (Debug, [Txt ''Add resource type %b'', Txt ''Shared'']),
            (Debug, [Txt ''Add resource %b to dictionary'', Txt ''Account menu'']),
            (Debug, [Txt ''Add resource %b to dictionary'', Txt ''Update account'']),
            (Debug, [Txt ''Add resource %b to dictionary'', Txt ''Audit trail'']),
            (Debug, [Txt ''Add policy %b'', Txt ''Account Policy'']),
            (Info, [Txt ''Security policy data integrity PASSED.''])],
         uuids_drawn = 3\<rparr>,
      configured = Some ex_env_configuration, systemSecurityData = Some ex_snapshot, now = 0\<rparr>"

definition ex_reloaded :: service_state where
  "ex_reloaded = snd (load ex_failing_configuration ex_loaded)"

definition ex_clerk :: user where
  "ex_clerk =
     \<lparr>u_id = Some ''u1'', u_display = Some ''Clerk One'', u_tenantId = Some ''t1'',
      u_permissionRoleCode = Some ''clerk'', u_isTenantAdmin = Inr False\<rparr>"

definition ex_admin :: user where
  "ex_admin =
     \<lparr>u_id = Some ''u2'', u_display = Some ''Admin Two'', u_tenantId = Some ''t1'',
      u_permissionRoleCode = Some ''clerk'', u_isTenantAdmin = Inr True\<rparr>"

text \<open>What \<open>generateRolePolicies\<close> collects for the clerk's role: the default setting of
  the account policy.\<close>

definition ex_clerk_policies :: user_policies where
  "ex_clerk_policies =
     \<lparr>up_description = Some ''Clerk'',
      up_list = [\<lparr>p_name = Some ''Account Policy'', p_description = None, p_defaultSetting = None,
                  p_settings = Some [ex_manage]\<rparr>]\<rparr>"

text \<open>What the server view of the clerk's policy is: the policy cut down to the grants on
  server resources, its one unconditional setting compiled, and the protected resource
  object the compilation builds for one dictionary entry with one grant.\<close>

definition ex_server_manage :: policy_setting where
  "ex_server_manage =
     ex_manage\<lparr>ps_protectedResources :=
                  Some [ex_grant_of ''Update account'' ''deny'', ex_grant_of ''Audit trail'' ''off'']\<rparr>"

definition ex_server_policy :: policy where
  "ex_server_policy =
     \<lparr>p_name = Some ''Account Policy'', p_description = None, p_defaultSetting = None,
      p_settings = Some [ex_server_manage]\<rparr>"

definition ex_always_setting :: compiled_policy_setting where
  "ex_always_setting =
     \<lparr>cps_setting = Some ''manage'', cps_notes = None, cps_condition = None, cps_params = JUndefined,
      cps_protectedResources =
        Some [ex_grant_of ''Update account'' ''deny'', ex_grant_of ''Audit trail'' ''off''],
      cps_checkIfEnabled = (\<lambda>contextParams. Inr (JBool True)), cps_policy = ex_server_policy\<rparr>"

definition ex_compiled_of ::
  "string \<Rightarrow> resource_type \<Rightarrow> string \<Rightarrow> js_object \<Rightarrow> nat \<Rightarrow> js_object \<Rightarrow> protected_resource_obj" where
  "ex_compiled_of name ty locator dflt ident granted =
     (let resource = \<lparr>cr_name = Some name, cr_type = ty, cr_locator = Some locator,
                       cr_defaultSetting = dflt, cr_params = None, cr_id = Some ident\<rparr>
      in \<lparr>pro_resource = resource,
           pro_settings = [\<lparr>rc_resource = resource, rc_setting = granted, rc_params = None,
                             rc_policySetting = ex_always_setting\<rparr>],
           pro_apply = rt_apply ty, pro_target = rt_name ty\<rparr>)"

text \<open>
  The account menu under a policy with two settings: one without condition that shows
  it, one for the owner of the account that hides it; and what compiling that policy
  gives.
\<close>

definition ex_gate_read :: policy_setting where
  "ex_gate_read = ex_unconditional\<lparr>ps_protectedResources := Some [ex_grant_of ''Account menu'' ''show'']\<rparr>"

definition ex_gate_update :: policy_setting where
  "ex_gate_update = ex_conditional\<lparr>ps_protectedResources := Some [ex_grant_of ''Account menu'' ''hide'']\<rparr>"

definition ex_gate_policy :: policy where
  "ex_gate_policy = ex_policy\<lparr>p_settings := Some [ex_gate_read, ex_gate_update]\<rparr>"

definition ex_gate_data :: user_security_data where
  "ex_gate_data =
     \<lparr>usd_id = 1, usd_revision = 0, usd_timestamp = [], usd_userId = Some ''u1'',
      usd_display = Some ''Clerk One'', usd_policies = Some [ex_gate_policy],
      usd_dictionary = Some [ex_entry_of ''Account menu'' ''AppMenuItem'' ''accountOption'' ''show'' (Some 0)],
      usd_resourceTypes = Some [ex_AppMenuItem]\<rparr>"

definition ex_gate_owner :: "jsval \<Rightarrow> js_error + jsval" where
  "ex_gate_owner contextParams = call_condition (Some (Fn ex_isOwner)) JUndefined contextParams"

definition ex_gate_entry ::
  "js_object \<Rightarrow> policy_setting \<Rightarrow> (jsval \<Rightarrow> js_error + jsval) \<Rightarrow> resource_config" where
  "ex_gate_entry setting policySettingConfig checkIfEnabled =
     \<lparr>rc_resource = ex_AccountMenu, rc_setting = setting, rc_params = None,
      rc_policySetting =
        \<lparr>cps_setting = ps_setting policySettingConfig, cps_notes = ps_notes policySettingConfig,
         cps_condition = ps_condition policySettingConfig, cps_params = ps_params policySettingConfig,
         cps_protectedResources = ps_protectedResources policySettingConfig,
         cps_checkIfEnabled = checkIfEnabled, cps_policy = ex_gate_policy\<rparr>\<rparr>"

definition ex_gate_compiled :: protected_resource_obj where
  "ex_gate_compiled =
     \<lparr>pro_resource = ex_AccountMenu,
      pro_settings = [ex_gate_entry ex_show ex_gate_read ex_always,
                      ex_gate_entry ex_hide ex_gate_update ex_gate_owner],
      pro_apply = None, pro_target = Some ''AppMenuItem''\<rparr>"

text \<open>
  The loaded service after it has looked up the clerk's policies; and a reload that
  fails, with \<open>ApiCall\<close> declared for both environments and one more policy,
  which grants a resource no dictionary declares.
\<close>

definition ex_asked :: service_state where
  "ex_asked =
     slog Info [Txt ''Clerk One'', Txt '': No defined role. Using configured default role:'', Txt ''clerk'']
       ex_loaded"

definition ex_ApiCall_both :: resource_type where
  "ex_ApiCall_both = ex_ApiCall\<lparr>rt_env := Some (EnvArray [''client'', ''server''])\<rparr>"

definition ex_redeclared_configuration :: security_configuration where
  "ex_redeclared_configuration =
     ex_env_configuration
       \<lparr>sc_resourceTypes := [ex_AppMenuItem, ex_ApiCall_both, ex_Shared],
        sc_policies := [ex_env_policy, ex_ghost_policy]\<rparr>"

definition ex_redeclared :: service_state where
  "ex_redeclared = snd (load ex_redeclared_configuration ex_loaded)"

section \<open>Properties\<close>

subsection \<open>Loops and lookups\<close>

lemma forEach_append:
  "forEach f (xs @ ys) s =
     (case forEach f xs s of (Inl e, s') \<Rightarrow> (Inl e, s') | (Inr u, s') \<Rightarrow> forEach f ys s')"
  by (induction xs arbitrary: s) (auto split: prod.splits sum.splits)

lemma forEach_invariant:
  assumes "forEach f xs s = (r, s')" and "I s"
      and "\<forall>x \<in> set xs. \<forall>a r b. f x a = (r, b) \<longrightarrow> I a \<longrightarrow> I b"
  shows "I s'"
  using assms
proof (induction xs arbitrary: s)
  case Nil
  then show ?case by simp
next
  case (Cons x xs)
  obtain r1 s1 where 1: "f x s = (r1, s1)" by (cases "f x s")
  have i1: "I s1" using Cons.prems(3) 1 Cons.prems(2) by auto
  have step: "\<forall>x \<in> set xs. \<forall>a r b. f x a = (r, b) \<longrightarrow> I a \<longrightarrow> I b"
    using Cons.prems(3) by simp
  show ?case
  proof (cases r1)
    case (Inl e)
    then show ?thesis using Cons.prems(1) 1 i1 by simp
  next
    case (Inr u)
    then have "forEach f xs s1 = (r, s')" using Cons.prems(1) 1 by simp
    then show ?thesis using Cons.IH[OF _ i1 step] by simp
  qed
qed

lemma forEach_each_ok:
  assumes "forEach f xs s = (Inr u, s')" and "I s"
      and "\<forall>x \<in> set xs. \<forall>a r b. f x a = (r, b) \<longrightarrow> I a \<longrightarrow> I b"
      and "x \<in> set xs"
  shows "\<exists>a b. I a \<and> f x a = (Inr (), b)"
  using assms
proof (induction xs arbitrary: s)
  case Nil
  then show ?case by simp
next
  case (Cons y ys)
  from Cons.prems(1) obtain s1 where 1: "f y s = (Inr (), s1)" and 2: "forEach f ys s1 = (Inr u, s')"
    by (auto split: prod.splits sum.splits)
  have i1: "I s1" using Cons.prems(3) 1 Cons.prems(2) by auto
  have step: "\<forall>x \<in> set ys. \<forall>a r b. f x a = (r, b) \<longrightarrow> I a \<longrightarrow> I b"
    using Cons.prems(3) by simp
  show ?case
  proof (cases "x = y")
    case True
    then show ?thesis using 1 Cons.prems(2) by blast
  next
    case False
    then have "x \<in> set ys" using Cons.prems(4) by simp
    then show ?thesis using Cons.IH[OF 2 i1 step] by simp
  qed
qed

lemma rethrow_with_Inr [simp]: "rethrow_with m p = (Inr a, s) \<longleftrightarrow> p = (Inr a, s)"
  by (auto simp: rethrow_with_def split: prod.splits sum.splits)

lemma rethrow_with_snd [simp]: "snd (rethrow_with m p) = snd p"
  by (auto simp: rethrow_with_def split: prod.splits sum.splits)

lemma rethrow_with_Inl: "rethrow_with m p = (Inl e, s) \<longleftrightarrow> (\<exists>e0. p = (Inl e0, s) \<and> e = add_message m e0)"
  by (auto simp: rethrow_with_def split: prod.splits sum.splits)

lemma find_by_Some: "find_by fld n xs = Some x \<Longrightarrow> x \<in> set xs \<and> fld x = n"
  by (auto simp: find_by_def find_Some_iff)

lemma find_by_None: "find_by fld (Some n) xs = None \<longleftrightarrow> Some n \<notin> fld ` set xs"
  by (force simp: find_by_def find_None_iff)

subsection \<open>Compilation of a user policy\<close>

lemma set_set_prop: "set (set_prop k v m) \<subseteq> insert (k, v) (set m)"
  by (induction m) (auto split: if_splits)

lemma set_js_values: "set (js_values m) = snd ` set m"
  by (auto simp: js_values_def)

lemma buildProtectedResource_invariant:
  assumes "buildProtectedResource gt types d m = (r, m')" and "d \<in> set dict"
      and "\<forall>(k, pr) \<in> set m. compiled_from types dict (pro_resource pr) \<and> pro_settings pr = []"
  shows "\<forall>(k, pr) \<in> set m'. compiled_from types dict (pro_resource pr) \<and> pro_settings pr = []"
proof (cases "find_by rt_name (pr_type d) types")
  case None
  then show ?thesis using assms by (auto simp: buildProtectedResource_def)
next
  case (Some ty)
  show ?thesis
  proof (cases "getResourceImplementation gt ty")
    case (Inl e)
    then show ?thesis using assms Some by (auto simp: buildProtectedResource_def Let_def)
  next
    case (Inr impl)
    let ?res = "\<lparr>cr_name = pr_name d, cr_type = ty, cr_locator = pr_locator d,
                 cr_defaultSetting = assign (pr_params d) (find_setting (rt_settings ty) (pr_defaultSetting d)),
                 cr_params = pr_params d, cr_id = pr_id d\<rparr>"
    have m': "m' = set_prop (str_of (pr_name d)) (buildProtectedResourceObject impl ?res) m"
      using assms(1) Some Inr by (simp add: buildProtectedResource_def Let_def buildResourceSettingObject_def)
    have new: "compiled_from types dict (pro_resource (buildProtectedResourceObject impl ?res))
               \<and> pro_settings (buildProtectedResourceObject impl ?res) = []"
      using assms(2) Some by (auto simp: compiled_from_def buildProtectedResourceObject_def)
    have sub: "set m' \<subseteq> insert (str_of (pr_name d), buildProtectedResourceObject impl ?res) (set m)"
      unfolding m' by (rule set_set_prop)
    show ?thesis
    proof (rule ballI)
      fix x assume "x \<in> set m'"
      then consider "x = (str_of (pr_name d), buildProtectedResourceObject impl ?res)" | "x \<in> set m"
        using sub by auto
      then show "case x of (k, pr) \<Rightarrow> compiled_from types dict (pro_resource pr) \<and> pro_settings pr = []"
      proof cases
        case 1
        then show ?thesis using new by simp
      next
        case 2
        then show ?thesis using assms(3) by auto
      qed
    qed
  qed
qed

lemma buildProtectedResources_invariant:
  assumes "buildProtectedResources gt dict types = (r, m)"
  shows "\<forall>(k, pr) \<in> set m. compiled_from types dict (pro_resource pr) \<and> pro_settings pr = []"
proof -
  let ?I = "\<lambda>m. \<forall>(k, pr) \<in> set m. compiled_from types dict (pro_resource pr) \<and> pro_settings pr = []"
  have 0: "?I []" by simp
  show ?thesis
    using assms unfolding buildProtectedResources_def
  proof (rule forEach_invariant[where I = ?I, OF _ 0])
    show "\<forall>x\<in>set dict. \<forall>a r b. buildProtectedResource gt types x a = (r, b) \<longrightarrow> ?I a \<longrightarrow> ?I b"
      using buildProtectedResource_invariant by blast
  qed
qed

lemma addGrant_invariant:
  assumes "addGrant ps g m = (r, m')" and "pol \<in> set pols" and "g \<in> set (grants_of_policy pol)"
      and "cps_policy ps = pol" and "compiled_ok types dict pols m"
  shows "compiled_ok types dict pols m'"
proof (cases "map_of m (g_resource g)")
  case None
  then show ?thesis using assms
    by (auto simp: addGrant_def addPolicyResourceSettingToProtectedResource_def)
next
  case (Some pr)
  then have mem: "(g_resource g, pr) \<in> set m" by (rule map_of_SomeD)
  let ?rc = "\<lparr>rc_resource = pro_resource pr,
              rc_setting = assign (g_params g) (find_setting (rt_settings (cr_type (pro_resource pr))) (g_setting g)),
              rc_params = g_params g, rc_policySetting = ps\<rparr>"
  let ?pr = "pr\<lparr>pro_settings := pro_settings pr @ [?rc]\<rparr>"
  have m': "m' = set_prop (g_resource g) ?pr m"
    using assms(1) Some
    by (simp add: addGrant_def addPolicyResourceSettingToProtectedResource_def Let_def
          buildResourceSettingObject_def)
  have old: "compiled_from types dict (pro_resource pr)"
    "\<forall>rc \<in> set (pro_settings pr). contributed_by pols pr rc"
    using assms(5) mem by (auto simp: compiled_ok_def)
  have c: "contributed_by pols ?pr ?rc"
    using assms(2,3,4) by (auto simp: contributed_by_def)
  have same: "\<And>rc. contributed_by pols ?pr rc = contributed_by pols pr rc"
    by (simp add: contributed_by_def)
  have new: "compiled_from types dict (pro_resource ?pr)
       \<and> (\<forall>rc \<in> set (pro_settings ?pr). contributed_by pols ?pr rc)"
    using old c same by auto
  have sub: "set m' \<subseteq> insert (g_resource g, ?pr) (set m)"
    unfolding m' by (rule set_set_prop)
  show ?thesis unfolding compiled_ok_def
  proof (rule ballI)
    fix x assume "x \<in> set m'"
    then consider "x = (g_resource g, ?pr)" | "x \<in> set m" using sub by auto
    then show "case x of (k, pr) \<Rightarrow> compiled_from types dict (pro_resource pr)
         \<and> (\<forall>rc \<in> set (pro_settings pr). contributed_by pols pr rc)"
    proof cases
      case 1
      then show ?thesis using new by simp
    next
      case 2
      then show ?thesis using assms(5) by (auto simp: compiled_ok_def)
    qed
  qed
qed

lemma addPolicySetting_invariant:
  assumes "addPolicySetting gc pol c m = (r, m')" and "pol \<in> set pols"
      and "set (grants_of_setting c) \<subseteq> set (grants_of_policy pol)"
      and "compiled_ok types dict pols m"
  shows "compiled_ok types dict pols m'"
proof (cases "getPolicyConditionImplementation gc c")
  case (Inl e)
  then show ?thesis using assms by (simp add: addPolicySetting_def)
next
  case (Inr chk)
  let ?ps = "\<lparr>cps_setting = ps_setting c, cps_notes = ps_notes c, cps_condition = ps_condition c,
              cps_params = ps_params c, cps_protectedResources = ps_protectedResources c,
              cps_checkIfEnabled = chk, cps_policy = pol\<rparr>"
  show ?thesis
  proof (cases "ps_protectedResources c")
    case None
    then show ?thesis using assms Inr by (simp add: addPolicySetting_def Let_def)
  next
    case (Some grants)
    have run: "forEach (addGrant ?ps) grants m = (r, m')"
      using assms(1) Inr Some by (simp add: addPolicySetting_def Let_def)
    have sub: "set grants \<subseteq> set (grants_of_policy pol)"
      using assms(3) Some by (simp add: grants_of_setting_def)
    show ?thesis
    proof (rule forEach_invariant[where I = "compiled_ok types dict pols", OF run assms(4)])
      show "\<forall>x\<in>set grants. \<forall>a r b. addGrant ?ps x a = (r, b) \<longrightarrow>
              compiled_ok types dict pols a \<longrightarrow> compiled_ok types dict pols b"
      proof (intro ballI allI impI)
        fix x a r b
        assume x: "x \<in> set grants" and a: "addGrant ?ps x a = (r, b)" and i: "compiled_ok types dict pols a"
        have "x \<in> set (grants_of_policy pol)" using x sub by auto
        from addGrant_invariant[OF a assms(2) this _ i] show "compiled_ok types dict pols b" by simp
      qed
    qed
  qed
qed

lemma addProtectedResourcePreferences_invariant:
  assumes "addProtectedResourcePreferences gc pols m = (r, m')"
      and "compiled_ok types dict pols m"
  shows "compiled_ok types dict pols m'"
  using assms(1) unfolding addProtectedResourcePreferences_def
proof (rule forEach_invariant[where I = "compiled_ok types dict pols", OF _ assms(2)])
  show "\<forall>x\<in>set pols. \<forall>a r b.
          (case p_settings x of
             None \<Rightarrow> (Inl (Err TypeError [Txt ''Cannot read property forEach of undefined'']), a)
           | Some settings \<Rightarrow> forEach (addPolicySetting gc x) settings a) = (r, b) \<longrightarrow>
          compiled_ok types dict pols a \<longrightarrow> compiled_ok types dict pols b"
  proof (intro ballI allI impI)
    fix pol a r b
    assume pol: "pol \<in> set pols"
      and run: "(case p_settings pol of
             None \<Rightarrow> (Inl (Err TypeError [Txt ''Cannot read property forEach of undefined'']), a)
           | Some settings \<Rightarrow> forEach (addPolicySetting gc pol) settings a) = (r, b)"
      and i: "compiled_ok types dict pols a"
    show "compiled_ok types dict pols b"
    proof (cases "p_settings pol")
      case None
      then show ?thesis using run i by simp
    next
      case (Some cs)
      then have run': "forEach (addPolicySetting gc pol) cs a = (r, b)" using run by simp
      show ?thesis
      proof (rule forEach_invariant[where I = "compiled_ok types dict pols", OF run' i])
        show "\<forall>x\<in>set cs. \<forall>a r b. addPolicySetting gc pol x a = (r, b) \<longrightarrow>
                compiled_ok types dict pols a \<longrightarrow> compiled_ok types dict pols b"
        proof (intro ballI allI impI)
          fix c a' r' b'
          assume c: "c \<in> set cs" and a: "addPolicySetting gc pol c a' = (r', b')"
            and i': "compiled_ok types dict pols a'"
          have "set (grants_of_setting c) \<subseteq> set (grants_of_policy pol)"
            using c Some by (auto simp: grants_of_policy_def)
          from addPolicySetting_invariant[OF a pol this i'] show "compiled_ok types dict pols b'" .
        qed
      qed
    qed
  qed
qed

lemma compileSecurityData_compiled:
  assumes "compileSecurityData gc gt securityData = Inr prs" and "pr \<in> set prs"
  shows "compiled_from (case usd_resourceTypes securityData of None \<Rightarrow> [] | Some t \<Rightarrow> t)
           (case usd_dictionary securityData of None \<Rightarrow> [] | Some d \<Rightarrow> d) (pro_resource pr)
       \<and> (\<forall>rc \<in> set (pro_settings pr).
             contributed_by (case usd_policies securityData of None \<Rightarrow> [] | Some p \<Rightarrow> p) pr rc)"
proof -
  let ?types = "case usd_resourceTypes securityData of None \<Rightarrow> [] | Some t \<Rightarrow> t"
  let ?dict = "case usd_dictionary securityData of None \<Rightarrow> [] | Some d \<Rightarrow> d"
  let ?pols = "case usd_policies securityData of None \<Rightarrow> [] | Some p \<Rightarrow> p"
  from assms(1) obtain m m' where
    1: "buildProtectedResources gt ?dict ?types = (Inr (), m)"
    and 2: "addProtectedResourcePreferences gc ?pols m = (Inr (), m')"
    and 3: "prs = js_values m'"
    by (auto simp: compileSecurityData_def split: prod.splits sum.splits)
  have "compiled_ok ?types ?dict ?pols m"
    using buildProtectedResources_invariant[OF 1] by (auto simp: compiled_ok_def)
  from addProtectedResourcePreferences_invariant[OF 2 this]
  have ok: "compiled_ok ?types ?dict ?pols m'" .
  from assms(2) 3 obtain k where "(k, pr) \<in> set m'" by (auto simp: set_js_values)
  then show ?thesis using ok by (auto simp: compiled_ok_def)
qed

lemma addGrant_gated:
  assumes "addGrant ps g m = (r, m')"
      and "\<And>res. gated_by gc pols
             \<lparr>rc_resource = res,
              rc_setting = assign (g_params g) (find_setting (rt_settings (cr_type res)) (g_setting g)),
              rc_params = g_params g, rc_policySetting = ps\<rparr>"
      and "gated_ok gc pols m"
  shows "gated_ok gc pols m'"
proof (cases "map_of m (g_resource g)")
  case None
  then show ?thesis using assms(1,3)
    by (auto simp: addGrant_def addPolicyResourceSettingToProtectedResource_def)
next
  case (Some pr)
  then have mem: "(g_resource g, pr) \<in> set m" by (rule map_of_SomeD)
  let ?rc = "\<lparr>rc_resource = pro_resource pr,
              rc_setting = assign (g_params g) (find_setting (rt_settings (cr_type (pro_resource pr))) (g_setting g)),
              rc_params = g_params g, rc_policySetting = ps\<rparr>"
  let ?pr = "pr\<lparr>pro_settings := pro_settings pr @ [?rc]\<rparr>"
  have m': "m' = set_prop (g_resource g) ?pr m"
    using assms(1) Some
    by (simp add: addGrant_def addPolicyResourceSettingToProtectedResource_def Let_def
          buildResourceSettingObject_def)
  have old: "\<forall>rc \<in> set (pro_settings pr). gated_by gc pols rc"
    using assms(3) mem by (auto simp: gated_ok_def)
  have new: "\<forall>rc \<in> set (pro_settings ?pr). gated_by gc pols rc"
    using old assms(2)[of "pro_resource pr"] by auto
  have sub: "set m' \<subseteq> insert (g_resource g, ?pr) (set m)"
    unfolding m' by (rule set_set_prop)
  show ?thesis unfolding gated_ok_def
  proof (rule ballI)
    fix x assume "x \<in> set m'"
    then consider "x = (g_resource g, ?pr)" | "x \<in> set m" using sub by auto
    then show "case x of (k, pr) \<Rightarrow> \<forall>rc \<in> set (pro_settings pr). gated_by gc pols rc"
    proof cases
      case 1
      then show ?thesis using new by simp
    next
      case 2
      then show ?thesis using assms(3) by (auto simp: gated_ok_def)
    qed
  qed
qed

lemma addPolicySetting_gated:
  assumes "addPolicySetting gc pol c m = (r, m')" and "pol \<in> set pols"
      and "c \<in> set (case p_settings pol of None \<Rightarrow> [] | Some cs \<Rightarrow> cs)"
      and "gated_ok gc pols m"
  shows "gated_ok gc pols m'"
proof (cases "getPolicyConditionImplementation gc c")
  case (Inl e)
  then show ?thesis using assms by (simp add: addPolicySetting_def)
next
  case (Inr chk)
  let ?ps = "\<lparr>cps_setting = ps_setting c, cps_notes = ps_notes c, cps_condition = ps_condition c,
              cps_params = ps_params c, cps_protectedResources = ps_protectedResources c,
              cps_checkIfEnabled = chk, cps_policy = pol\<rparr>"
  show ?thesis
  proof (cases "ps_protectedResources c")
    case None
    then show ?thesis using assms Inr by (simp add: addPolicySetting_def Let_def)
  next
    case (Some grants)
    have run: "forEach (addGrant ?ps) grants m = (r, m')"
      using assms(1) Inr Some by (simp add: addPolicySetting_def Let_def)
    have grants: "grants_of_setting c = grants" using Some by (simp add: grants_of_setting_def)
    show ?thesis
    proof (rule forEach_invariant[where I = "gated_ok gc pols", OF run assms(4)])
      show "\<forall>x\<in>set grants. \<forall>a r b. addGrant ?ps x a = (r, b) \<longrightarrow>
              gated_ok gc pols a \<longrightarrow> gated_ok gc pols b"
      proof (intro ballI allI impI)
        fix x a r b
        assume x: "x \<in> set grants" and a: "addGrant ?ps x a = (r, b)" and i: "gated_ok gc pols a"
        have g: "gated_by gc pols
             \<lparr>rc_resource = res,
              rc_setting = assign (g_params x) (find_setting (rt_settings (cr_type res)) (g_setting x)),
              rc_params = g_params x, rc_policySetting = ?ps\<rparr>" for res
          unfolding gated_by_def
          by (rule bexI[OF _ assms(2)], rule bexI[OF _ assms(3)], rule bexI[of _ x])
             (use x grants Inr in simp_all)
        from addGrant_gated[OF a g i] show "gated_ok gc pols b" .
      qed
    qed
  qed
qed

lemma addProtectedResourcePreferences_gated:
  assumes "addProtectedResourcePreferences gc pols m = (r, m')"
      and "gated_ok gc pols m"
  shows "gated_ok gc pols m'"
  using assms(1) unfolding addProtectedResourcePreferences_def
proof (rule forEach_invariant[where I = "gated_ok gc pols", OF _ assms(2)])
  show "\<forall>x\<in>set pols. \<forall>a r b.
          (case p_settings x of
             None \<Rightarrow> (Inl (Err TypeError [Txt ''Cannot read property forEach of undefined'']), a)
           | Some settings \<Rightarrow> forEach (addPolicySetting gc x) settings a) = (r, b) \<longrightarrow>
          gated_ok gc pols a \<longrightarrow> gated_ok gc pols b"
  proof (intro ballI allI impI)
    fix pol a r b
    assume pol: "pol \<in> set pols"
      and run: "(case p_settings pol of
             None \<Rightarrow> (Inl (Err TypeError [Txt ''Cannot read property forEach of undefined'']), a)
           | Some settings \<Rightarrow> forEach (addPolicySetting gc pol) settings a) = (r, b)"
      and i: "gated_ok gc pols a"
    show "gated_ok gc pols b"
    proof (cases "p_settings pol")
      case None
      then show ?thesis using run i by simp
    next
      case (Some cs)
      then have run': "forEach (addPolicySetting gc pol) cs a = (r, b)" using run by simp
      show ?thesis
      proof (rule forEach_invariant[where I = "gated_ok gc pols", OF run' i])
        show "\<forall>x\<in>set cs. \<forall>a r b. addPolicySetting gc pol x a = (r, b) \<longrightarrow>
                gated_ok gc pols a \<longrightarrow> gated_ok gc pols b"
        proof (intro ballI allI impI)
          fix c a' r' b'
          assume c: "c \<in> set cs" and a: "addPolicySetting gc pol c a' = (r', b')"
            and i': "gated_ok gc pols a'"
          have "c \<in> set (case p_settings pol of None \<Rightarrow> [] | Some cs \<Rightarrow> cs)"
            using c Some by simp
          from addPolicySetting_gated[OF a pol this i'] show "gated_ok gc pols b'" .
        qed
      qed
    qed
  qed
qed

lemma compileSecurityData_gated:
  assumes "compileSecurityData gc gt securityData = Inr prs" and "pr \<in> set prs"
      and "rc \<in> set (pro_settings pr)"
  shows "gated_by gc (case usd_policies securityData of None \<Rightarrow> [] | Some p \<Rightarrow> p) rc"
proof -
  let ?types = "case usd_resourceTypes securityData of None \<Rightarrow> [] | Some t \<Rightarrow> t"
  let ?dict = "case usd_dictionary securityData of None \<Rightarrow> [] | Some d \<Rightarrow> d"
  let ?pols = "case usd_policies securityData of None \<Rightarrow> [] | Some p \<Rightarrow> p"
  from assms(1) obtain m m' where
    1: "buildProtectedResources gt ?dict ?types = (Inr (), m)"
    and 2: "addProtectedResourcePreferences gc ?pols m = (Inr (), m')"
    and 3: "prs = js_values m'"
    by (auto simp: compileSecurityData_def split: prod.splits sum.splits)
  have "gated_ok gc ?pols m"
    using buildProtectedResources_invariant[OF 1] by (auto simp: gated_ok_def)
  from addProtectedResourcePreferences_gated[OF 2 this]
  have ok: "gated_ok gc ?pols m'" .
  from assms(2) 3 obtain k where "(k, pr) \<in> set m'" by (auto simp: set_js_values)
  then show ?thesis using ok assms(3) by (auto simp: gated_ok_def)
qed

subsection \<open>Resolution\<close>

lemma selectSetting_from:
  assumes "\<forall>rc \<in> set rcs. evaluates ctx rc"
      and "\<forall>rc \<in> set rcs. is_enabled ctx rc \<longrightarrow> (\<exists>m. priority_of (rc_setting rc) = Some m)"
      and "priority_of f = Some nf"
  shows "(selectSetting ctx (Some f) rcs = Inr (Some f)
            \<and> (\<forall>rc \<in> set rcs. is_enabled ctx rc \<longrightarrow> (\<exists>m. priority_of (rc_setting rc) = Some m \<and> nf \<le> m)))
       \<or> (\<exists>pre e post n. filter (is_enabled ctx) rcs = pre @ e # post
            \<and> selectSetting ctx (Some f) rcs = Inr (Some (rc_setting e))
            \<and> priority_of (rc_setting e) = Some n \<and> n < nf
            \<and> (\<forall>x \<in> set pre. \<exists>m. priority_of (rc_setting x) = Some m \<and> n < m)
            \<and> (\<forall>x \<in> set post. \<exists>m. priority_of (rc_setting x) = Some m \<and> n \<le> m))"
  using assms
proof (induction rcs arbitrary: f nf)
  case Nil
  then show ?case by simp
next
  case (Cons rc rcs)
  from Cons.prems(1) obtain v where v: "cps_checkIfEnabled (rc_policySetting rc) ctx = Inr v"
    by (auto simp: evaluates_def split: sum.splits)
  have ev: "\<forall>rc \<in> set rcs. evaluates ctx rc" using Cons.prems(1) by simp
  have num: "\<forall>rc \<in> set rcs. is_enabled ctx rc \<longrightarrow> (\<exists>m. priority_of (rc_setting rc) = Some m)"
    using Cons.prems(2) by simp
  show ?case
  proof (cases "truthy v")
    case False
    then have dis: "\<not> is_enabled ctx rc" by (simp add: is_enabled_def v)
    have step: "selectSetting ctx (Some f) (rc # rcs) = selectSetting ctx (Some f) rcs"
      using False by (simp add: v)
    from Cons.IH[OF ev num Cons.prems(3)] show ?thesis
      unfolding step using dis by auto
  next
    case True
    then have en: "is_enabled ctx rc" by (simp add: is_enabled_def v)
    then obtain ns where ns: "priority_of (rc_setting rc) = Some ns" using Cons.prems(2) by auto
    show ?thesis
    proof (cases "nf > ns")
      case gt: True
      have step: "selectSetting ctx (Some f) (rc # rcs) = selectSetting ctx (Some (rc_setting rc)) rcs"
        using True gt by (simp add: v ns Cons.prems(3))
      from Cons.IH[OF ev num ns] show ?thesis
      proof
        assume a: "selectSetting ctx (Some (rc_setting rc)) rcs = Inr (Some (rc_setting rc))
            \<and> (\<forall>rc' \<in> set rcs. is_enabled ctx rc' \<longrightarrow> (\<exists>m. priority_of (rc_setting rc') = Some m \<and> ns \<le> m))"
        have "filter (is_enabled ctx) (rc # rcs) = [] @ rc # filter (is_enabled ctx) rcs"
          using en by simp
        moreover have "\<forall>x \<in> set (filter (is_enabled ctx) rcs). \<exists>m. priority_of (rc_setting x) = Some m \<and> ns \<le> m"
          using a by auto
        ultimately show ?thesis unfolding step using a ns gt
          by (intro disjI2 exI[of _ "[]"] exI[of _ rc] exI[of _ "filter (is_enabled ctx) rcs"] exI[of _ ns]) simp
      next
        assume "\<exists>pre e post n. filter (is_enabled ctx) rcs = pre @ e # post
            \<and> selectSetting ctx (Some (rc_setting rc)) rcs = Inr (Some (rc_setting e))
            \<and> priority_of (rc_setting e) = Some n \<and> n < ns
            \<and> (\<forall>x \<in> set pre. \<exists>m. priority_of (rc_setting x) = Some m \<and> n < m)
            \<and> (\<forall>x \<in> set post. \<exists>m. priority_of (rc_setting x) = Some m \<and> n \<le> m)"
        then obtain pre e post n where b: "filter (is_enabled ctx) rcs = pre @ e # post"
            "selectSetting ctx (Some (rc_setting rc)) rcs = Inr (Some (rc_setting e))"
            "priority_of (rc_setting e) = Some n" "n < ns"
            "\<forall>x \<in> set pre. \<exists>m. priority_of (rc_setting x) = Some m \<and> n < m"
            "\<forall>x \<in> set post. \<exists>m. priority_of (rc_setting x) = Some m \<and> n \<le> m"
          by blast
        have "filter (is_enabled ctx) (rc # rcs) = (rc # pre) @ e # post" using en b(1) by simp
        moreover have "\<forall>x \<in> set (rc # pre). \<exists>m. priority_of (rc_setting x) = Some m \<and> n < m"
          using b(4,5) ns by simp
        moreover have "n < nf" using b(4) gt by simp
        ultimately show ?thesis unfolding step using b(2,3,6)
          by (intro disjI2 exI[of _ "rc # pre"] exI[of _ e] exI[of _ post] exI[of _ n]) simp
      qed
    next
      case le: False
      have step: "selectSetting ctx (Some f) (rc # rcs) = selectSetting ctx (Some f) rcs"
        using True le by (simp add: v ns Cons.prems(3))
      from Cons.IH[OF ev num Cons.prems(3)] show ?thesis
      proof
        assume a: "selectSetting ctx (Some f) rcs = Inr (Some f)
            \<and> (\<forall>rc' \<in> set rcs. is_enabled ctx rc' \<longrightarrow> (\<exists>m. priority_of (rc_setting rc') = Some m \<and> nf \<le> m))"
        then show ?thesis unfolding step using ns le by auto
      next
        assume "\<exists>pre e post n. filter (is_enabled ctx) rcs = pre @ e # post
            \<and> selectSetting ctx (Some f) rcs = Inr (Some (rc_setting e))
            \<and> priority_of (rc_setting e) = Some n \<and> n < nf
            \<and> (\<forall>x \<in> set pre. \<exists>m. priority_of (rc_setting x) = Some m \<and> n < m)
            \<and> (\<forall>x \<in> set post. \<exists>m. priority_of (rc_setting x) = Some m \<and> n \<le> m)"
        then obtain pre e post n where b: "filter (is_enabled ctx) rcs = pre @ e # post"
            "selectSetting ctx (Some f) rcs = Inr (Some (rc_setting e))"
            "priority_of (rc_setting e) = Some n" "n < nf"
            "\<forall>x \<in> set pre. \<exists>m. priority_of (rc_setting x) = Some m \<and> n < m"
            "\<forall>x \<in> set post. \<exists>m. priority_of (rc_setting x) = Some m \<and> n \<le> m"
          by blast
        have "filter (is_enabled ctx) (rc # rcs) = (rc # pre) @ e # post" using en b(1) by simp
        moreover have "\<forall>x \<in> set (rc # pre). \<exists>m. priority_of (rc_setting x) = Some m \<and> n < m"
          using b(4,5) ns le by simp
        ultimately show ?thesis unfolding step using b(2,3,4,6)
          by (intro disjI2 exI[of _ "rc # pre"] exI[of _ e] exI[of _ post] exI[of _ n]) simp
      qed
    qed
  qed
qed


lemma selectSetting_first:
  assumes "\<forall>rc \<in> set rcs. evaluates ctx rc"
      and "\<forall>rc \<in> set rcs. is_enabled ctx rc \<longrightarrow> (\<exists>m. priority_of (rc_setting rc) = Some m)"
      and "filter (is_enabled ctx) rcs \<noteq> []"
  shows "\<exists>pre e post n. filter (is_enabled ctx) rcs = pre @ e # post
            \<and> selectSetting ctx None rcs = Inr (Some (rc_setting e))
            \<and> priority_of (rc_setting e) = Some n
            \<and> (\<forall>x \<in> set pre. \<exists>m. priority_of (rc_setting x) = Some m \<and> n < m)
            \<and> (\<forall>x \<in> set post. \<exists>m. priority_of (rc_setting x) = Some m \<and> n \<le> m)"
  using assms
proof (induction rcs)
  case Nil
  then show ?case by simp
next
  case (Cons rc rcs)
  from Cons.prems(1) obtain v where v: "cps_checkIfEnabled (rc_policySetting rc) ctx = Inr v"
    by (auto simp: evaluates_def split: sum.splits)
  have ev: "\<forall>rc \<in> set rcs. evaluates ctx rc" using Cons.prems(1) by simp
  have num: "\<forall>rc \<in> set rcs. is_enabled ctx rc \<longrightarrow> (\<exists>m. priority_of (rc_setting rc) = Some m)"
    using Cons.prems(2) by simp
  show ?case
  proof (cases "truthy v")
    case False
    then have dis: "\<not> is_enabled ctx rc" by (simp add: is_enabled_def v)
    have step: "selectSetting ctx None (rc # rcs) = selectSetting ctx None rcs"
      using False by (simp add: v)
    have "filter (is_enabled ctx) rcs \<noteq> []" using Cons.prems(3) dis by simp
    from Cons.IH[OF ev num this] show ?thesis unfolding step using dis by simp
  next
    case True
    then have en: "is_enabled ctx rc" by (simp add: is_enabled_def v)
    then obtain ns where ns: "priority_of (rc_setting rc) = Some ns" using Cons.prems(2) by auto
    have step: "selectSetting ctx None (rc # rcs) = selectSetting ctx (Some (rc_setting rc)) rcs"
      using True by (simp add: v)
    from selectSetting_from[OF ev num ns] show ?thesis
    proof
      assume a: "selectSetting ctx (Some (rc_setting rc)) rcs = Inr (Some (rc_setting rc))
          \<and> (\<forall>rc' \<in> set rcs. is_enabled ctx rc' \<longrightarrow> (\<exists>m. priority_of (rc_setting rc') = Some m \<and> ns \<le> m))"
      have "filter (is_enabled ctx) (rc # rcs) = [] @ rc # filter (is_enabled ctx) rcs"
        using en by simp
      moreover have "\<forall>x \<in> set (filter (is_enabled ctx) rcs). \<exists>m. priority_of (rc_setting x) = Some m \<and> ns \<le> m"
        using a by auto
      ultimately show ?thesis unfolding step using a ns
        by (intro exI[of _ "[]"] exI[of _ rc] exI[of _ "filter (is_enabled ctx) rcs"] exI[of _ ns]) simp
    next
      assume "\<exists>pre e post n. filter (is_enabled ctx) rcs = pre @ e # post
          \<and> selectSetting ctx (Some (rc_setting rc)) rcs = Inr (Some (rc_setting e))
          \<and> priority_of (rc_setting e) = Some n \<and> n < ns
          \<and> (\<forall>x \<in> set pre. \<exists>m. priority_of (rc_setting x) = Some m \<and> n < m)
          \<and> (\<forall>x \<in> set post. \<exists>m. priority_of (rc_setting x) = Some m \<and> n \<le> m)"
      then obtain pre e post n where b: "filter (is_enabled ctx) rcs = pre @ e # post"
          "selectSetting ctx (Some (rc_setting rc)) rcs = Inr (Some (rc_setting e))"
          "priority_of (rc_setting e) = Some n" "n < ns"
          "\<forall>x \<in> set pre. \<exists>m. priority_of (rc_setting x) = Some m \<and> n < m"
          "\<forall>x \<in> set post. \<exists>m. priority_of (rc_setting x) = Some m \<and> n \<le> m"
        by blast
      have "filter (is_enabled ctx) (rc # rcs) = (rc # pre) @ e # post" using en b(1) by simp
      moreover have "\<forall>x \<in> set (rc # pre). \<exists>m. priority_of (rc_setting x) = Some m \<and> n < m"
        using b(4,5) ns by simp
      ultimately show ?thesis unfolding step using b(2,3,6)
        by (intro exI[of _ "rc # pre"] exI[of _ e] exI[of _ post] exI[of _ n]) simp
    qed
  qed
qed

text \<open>
  Claim C1. Take a protected resource and context params on which every contributed
  entry's condition returns, every enabled entry's setting carries a numeric priority,
  and at least one entry is enabled. Then resolution (\<open>calculateSetting\<close>, that is
  \<open>computeResourceSetting\<close>) returns the setting of an enabled entry \<open>e\<close> of lowest
  priority, and \<open>e\<close> is the first such entry in contributed-entry order: every enabled
  entry before it has a strictly higher priority, every enabled entry after it a
  priority at least as high. The result is a function of the entries and the context
  params alone.
\<close>

theorem computeResourceSetting_lowest_priority_first:
  assumes "\<forall>rc \<in> set (pro_settings pr). evaluates ctx rc"
      and "\<forall>rc \<in> set (pro_settings pr). is_enabled ctx rc \<longrightarrow> (\<exists>m. priority_of (rc_setting rc) = Some m)"
      and "filter (is_enabled ctx) (pro_settings pr) \<noteq> []"
  shows "\<exists>pre e post n. filter (is_enabled ctx) (pro_settings pr) = pre @ e # post
            \<and> calculateSetting pr ctx = Inr (rc_setting e)
            \<and> computeResourceSetting pr ctx = Inr (rc_setting e)
            \<and> priority_of (rc_setting e) = Some n
            \<and> (\<forall>x \<in> set pre. \<exists>m. priority_of (rc_setting x) = Some m \<and> n < m)
            \<and> (\<forall>x \<in> set post. \<exists>m. priority_of (rc_setting x) = Some m \<and> n \<le> m)"
proof -
  from selectSetting_first[OF assms] obtain pre e post n where
    b: "filter (is_enabled ctx) (pro_settings pr) = pre @ e # post"
       "selectSetting ctx None (pro_settings pr) = Inr (Some (rc_setting e))"
       "priority_of (rc_setting e) = Some n"
       "\<forall>x \<in> set pre. \<exists>m. priority_of (rc_setting x) = Some m \<and> n < m"
       "\<forall>x \<in> set post. \<exists>m. priority_of (rc_setting x) = Some m \<and> n \<le> m"
    by blast
  have "computeResourceSetting pr ctx = Inr (rc_setting e)"
    by (simp add: computeResourceSetting_def b(2))
  then show ?thesis using b(1,3,4,5)
    by (intro exI[of _ pre] exI[of _ e] exI[of _ post] exI[of _ n]) (simp add: calculateSetting_def)
qed

theorem computeResourceSetting_lowest_priority_first_witness:
  "list_all (evaluates (JStr ''guest'')) (pro_settings ex_four)
   \<and> list_all (\<lambda>rc. \<exists>m. priority_of (rc_setting rc) = Some m)
        (filter (is_enabled (JStr ''guest'')) (pro_settings ex_four))
   \<and> filter (is_enabled (JStr ''guest'')) (pro_settings ex_four) \<noteq> []
   \<and> (\<exists>pre e post n. filter (is_enabled (JStr ''guest'')) (pro_settings ex_four) = pre @ e # post
         \<and> calculateSetting ex_four (JStr ''guest'') = Inr (rc_setting e)
         \<and> computeResourceSetting ex_four (JStr ''guest'') = Inr (rc_setting e)
         \<and> priority_of (rc_setting e) = Some n
         \<and> (\<forall>x \<in> set pre. \<exists>m. priority_of (rc_setting x) = Some m \<and> n < m)
         \<and> (\<forall>x \<in> set post. \<exists>m. priority_of (rc_setting x) = Some m \<and> n \<le> m))
   \<and> computeResourceSetting ex_four (JStr ''guest'') = Inr ex_hide"
proof -
  have h1: "\<forall>rc \<in> set (pro_settings ex_four). evaluates (JStr ''guest'') rc"
    by (simp add: ex_four_def ex_protected_def ex_entry_def ex_policySetting_def evaluates_def
          ex_always_def ex_never_def)
  have h2: "\<forall>rc \<in> set (pro_settings ex_four). is_enabled (JStr ''guest'') rc
         \<longrightarrow> (\<exists>m. priority_of (rc_setting rc) = Some m)"
    by (simp add: ex_four_def ex_protected_def ex_entry_def priority_of_def ex_show_def ex_hide_def)
  have h3: "filter (is_enabled (JStr ''guest'')) (pro_settings ex_four) \<noteq> []"
    by (simp add: ex_four_def ex_protected_def ex_entry_def ex_policySetting_def is_enabled_def
          ex_always_def)
  have r: "computeResourceSetting ex_four (JStr ''guest'') = Inr ex_hide"
    by (simp add: computeResourceSetting_def ex_four_def ex_protected_def ex_entry_def
          ex_policySetting_def ex_always_def ex_never_def priority_of_def ex_show_def ex_hide_def)
  have l1: "list_all (evaluates (JStr ''guest'')) (pro_settings ex_four)"
    using h1 by (simp add: list_all_iff)
  have l2: "list_all (\<lambda>rc. \<exists>m. priority_of (rc_setting rc) = Some m)
        (filter (is_enabled (JStr ''guest'')) (pro_settings ex_four))"
    using h2 by (simp add: list_all_iff)
  show ?thesis
    using l1 l2 h3 r computeResourceSetting_lowest_priority_first[OF h1 h2 h3] by blast
qed

lemma selectSetting_all_disabled:
  "\<forall>rc \<in> set rcs. is_disabled ctx rc \<Longrightarrow> selectSetting ctx acc rcs = Inr acc"
  by (induction rcs arbitrary: acc) (auto simp: is_disabled_def split: sum.splits)

text \<open>
  Claim C2. When a protected resource has no contributed entry, or every contributed
  entry's condition returns a falsy value for the context params, resolution returns
  the resource's default setting object, whatever the context params are. For a
  resource of a compiled user policy that object is the one built from the dictionary
  entry: the setting definition the entry's \<open>defaultSetting\<close> names in its resource
  type, merged over the entry's params.
\<close>

theorem computeResourceSetting_default:
  assumes "pro_settings pr = [] \<or> (\<forall>rc \<in> set (pro_settings pr). is_disabled ctx rc)"
  shows "computeResourceSetting pr ctx = Inr (cr_defaultSetting (pro_resource pr))
       \<and> calculateSetting pr ctx = Inr (cr_defaultSetting (pro_resource pr))
       \<and> (compileSecurityData gc gt securityData = Inr prs \<and> pr \<in> set prs \<longrightarrow>
            (\<exists>d ty. d \<in> set (case usd_dictionary securityData of None \<Rightarrow> [] | Some ds \<Rightarrow> ds)
               \<and> find_by rt_name (pr_type d)
                    (case usd_resourceTypes securityData of None \<Rightarrow> [] | Some ts \<Rightarrow> ts) = Some ty
               \<and> cr_name (pro_resource pr) = pr_name d
               \<and> calculateSetting pr ctx
                   = Inr (assign (pr_params d) (find_setting (rt_settings ty) (pr_defaultSetting d)))))"
proof -
  have "\<forall>rc \<in> set (pro_settings pr). is_disabled ctx rc" using assms by auto
  then have r: "computeResourceSetting pr ctx = Inr (cr_defaultSetting (pro_resource pr))"
    by (simp add: computeResourceSetting_def selectSetting_all_disabled)
  have "\<exists>d ty. d \<in> set (case usd_dictionary securityData of None \<Rightarrow> [] | Some ds \<Rightarrow> ds)
               \<and> find_by rt_name (pr_type d)
                    (case usd_resourceTypes securityData of None \<Rightarrow> [] | Some ts \<Rightarrow> ts) = Some ty
               \<and> cr_name (pro_resource pr) = pr_name d
               \<and> calculateSetting pr ctx
                   = Inr (assign (pr_params d) (find_setting (rt_settings ty) (pr_defaultSetting d)))"
    if c: "compileSecurityData gc gt securityData = Inr prs" "pr \<in> set prs"
  proof -
    from compileSecurityData_compiled[OF c]
    have "compiled_from (case usd_resourceTypes securityData of None \<Rightarrow> [] | Some t \<Rightarrow> t)
           (case usd_dictionary securityData of None \<Rightarrow> [] | Some d \<Rightarrow> d) (pro_resource pr)"
      by simp
    then obtain d ty where
      d: "d \<in> set (case usd_dictionary securityData of None \<Rightarrow> [] | Some ds \<Rightarrow> ds)"
         "find_by rt_name (pr_type d)
            (case usd_resourceTypes securityData of None \<Rightarrow> [] | Some ts \<Rightarrow> ts) = Some ty"
         "pro_resource pr = \<lparr>cr_name = pr_name d, cr_type = ty, cr_locator = pr_locator d,
                    cr_defaultSetting = assign (pr_params d) (find_setting (rt_settings ty) (pr_defaultSetting d)),
                    cr_params = pr_params d, cr_id = pr_id d\<rparr>"
      unfolding compiled_from_def by blast
    have "cr_defaultSetting (pro_resource pr)
            = assign (pr_params d) (find_setting (rt_settings ty) (pr_defaultSetting d))"
      "cr_name (pro_resource pr) = pr_name d"
      by (simp_all add: d(3))
    then show ?thesis using d(1,2) r by (auto simp: calculateSetting_def)
  qed
  then show ?thesis using r by (simp add: calculateSetting_def)
qed

theorem computeResourceSetting_default_witness:
  "(pro_settings (ex_protected [ex_entry ex_hide ex_never]) = []
      \<or> (\<forall>rc \<in> set (pro_settings (ex_protected [ex_entry ex_hide ex_never])). is_disabled (JStr ''guest'') rc))
   \<and> computeResourceSetting (ex_protected [ex_entry ex_hide ex_never]) (JStr ''guest'') = Inr ex_show
   \<and> calculateSetting (ex_protected [ex_entry ex_hide ex_never]) (JStr ''guest'') = Inr ex_show"
proof -
  have h: "pro_settings (ex_protected [ex_entry ex_hide ex_never]) = []
      \<or> (\<forall>rc \<in> set (pro_settings (ex_protected [ex_entry ex_hide ex_never])). is_disabled (JStr ''guest'') rc)"
    by (simp add: ex_protected_def ex_entry_def ex_policySetting_def is_disabled_def ex_never_def)
  have d: "cr_defaultSetting (pro_resource (ex_protected [ex_entry ex_hide ex_never])) = ex_show"
    by (simp add: ex_protected_def ex_AccountMenu_def)
  show ?thesis
    using h computeResourceSetting_default[OF h] d by simp
qed

lemma selectSetting_append:
  "selectSetting ctx acc (xs @ ys) =
     (case selectSetting ctx acc xs of Inl e \<Rightarrow> Inl e | Inr acc' \<Rightarrow> selectSetting ctx acc' ys)"
  by (induction xs arbitrary: acc) (auto split: sum.splits option.splits)

lemma selectSetting_skip_disabled:
  "is_disabled ctx rc \<Longrightarrow> selectSetting ctx acc (pre @ rc # post) = selectSetting ctx acc (pre @ post)"
  by (auto simp: selectSetting_append is_disabled_def split: sum.splits)


lemma split_at_period:
  "CHR ''.'' \<notin> set a \<Longrightarrow>
     takeWhile (\<lambda>c. c \<noteq> CHR ''.'') (a @ CHR ''.'' # b) = a
   \<and> dropWhile (\<lambda>c. c \<noteq> CHR ''.'') (a @ CHR ''.'' # b) = CHR ''.'' # b"
  by (induction a) auto

lemma ex_gate_compiles:
  "compileSecurityData ex_getFactory getResourceTypeFactory ex_gate_data = Inr [ex_gate_compiled]"
  by (simp add: compileSecurityData_def buildProtectedResources_def buildProtectedResource_def
        getResourceImplementation_def getResourceTypeFactory_def buildProtectedResourceObject_def
        buildResourceSettingObject_def find_setting_def has_value_def find_by_def
        assign_def assign_from_def addProtectedResourcePreferences_def addPolicySetting_def
        getPolicyConditionImplementation_def addGrant_def addPolicyResourceSettingToProtectedResource_def
        js_values_def is_index_key_def is_digit_def str_of_def Let_def
        ex_gate_data_def ex_gate_policy_def ex_gate_read_def ex_gate_update_def ex_policy_def
        ex_unconditional_def ex_conditional_def ex_grant_of_def ex_entry_of_def ex_AppMenuItem_def
        ex_show_def ex_hide_def ex_gate_compiled_def ex_gate_entry_def ex_AccountMenu_def
        ex_getFactory_def ex_factory_def fun_eq_iff ex_always_def ex_gate_owner_def)

text \<open>
  Claim C3. A policy setting without a condition compiles to a closure that returns
  true for every context params. A policy setting whose condition \<open>factory.name\<close>
  names a predicate that returns false (or any falsy value) for the context params
  compiles to a closure that returns the same there, and a contributed entry carrying
  that closure is left out of the selection: resolution gives what it gives on the
  entries without it. And that closure is the one compilation attaches: every
  contributed entry of a compiled user policy carries a copy of a setting of one of the
  policies together with the closure compiled from that setting, so that an entry whose
  setting has no condition is enabled for every context params, and an entry whose
  setting names a predicate that returns a falsy value there is left out of the
  resolution of its resource.
\<close>

theorem condition_gating:
  "(ps_condition ps0 = None \<longrightarrow>
      (\<exists>chk. getPolicyConditionImplementation gf0 ps0 = Inr chk \<and> (\<forall>ctx0. chk ctx0 = Inr (JBool True))))
   \<and> (ps_condition ps = Some (factoryName @ CHR ''.'' # conditionName) \<and> CHR ''.'' \<notin> set factoryName
        \<and> gf factoryName = Inr conditionGroup \<and> map_of conditionGroup conditionName = Some (Fn f)
        \<and> f (ps_params ps) ctx = Inr v \<and> \<not> truthy v \<longrightarrow>
      (\<exists>chk. getPolicyConditionImplementation gf ps = Inr chk \<and> chk ctx = Inr v
         \<and> (\<forall>pr pre rc post.
               pro_settings pr = pre @ rc # post \<and> cps_checkIfEnabled (rc_policySetting rc) = chk \<longrightarrow>
               computeResourceSetting pr ctx = computeResourceSetting (pr\<lparr>pro_settings := pre @ post\<rparr>) ctx)))
   \<and> (compileSecurityData gc gt securityData = Inr prs \<and> cpr \<in> set prs
        \<and> pro_settings cpr = cpre @ crc # cpost \<longrightarrow>
      gated_by gc (case usd_policies securityData of None \<Rightarrow> [] | Some p \<Rightarrow> p) crc
      \<and> (cps_condition (rc_policySetting crc) = None \<longrightarrow>
            (\<forall>ctx0. cps_checkIfEnabled (rc_policySetting crc) ctx0 = Inr (JBool True)))
      \<and> (cps_condition (rc_policySetting crc) = Some (cfactoryName @ CHR ''.'' # cconditionName)
            \<and> CHR ''.'' \<notin> set cfactoryName \<and> gc cfactoryName = Inr cconditionGroup
            \<and> map_of cconditionGroup cconditionName = Some (Fn cf)
            \<and> cf (cps_params (rc_policySetting crc)) cctx = Inr cv \<and> \<not> truthy cv \<longrightarrow>
          cps_checkIfEnabled (rc_policySetting crc) cctx = Inr cv
          \<and> computeResourceSetting cpr cctx
              = computeResourceSetting (cpr\<lparr>pro_settings := cpre @ cpost\<rparr>) cctx))"
proof (intro conjI impI)
  assume "ps_condition ps0 = None"
  then show "\<exists>chk. getPolicyConditionImplementation gf0 ps0 = Inr chk \<and> (\<forall>ctx0. chk ctx0 = Inr (JBool True))"
    by (simp add: getPolicyConditionImplementation_def)
next
  assume a: "ps_condition ps = Some (factoryName @ CHR ''.'' # conditionName) \<and> CHR ''.'' \<notin> set factoryName
        \<and> gf factoryName = Inr conditionGroup \<and> map_of conditionGroup conditionName = Some (Fn f)
        \<and> f (ps_params ps) ctx = Inr v \<and> \<not> truthy v"
  let ?cond = "factoryName @ CHR ''.'' # conditionName"
  have tw: "takeWhile (\<lambda>c. c \<noteq> CHR ''.'') ?cond = factoryName"
    using a split_at_period by blast
  have dw: "dropWhile (\<lambda>c. c \<noteq> CHR ''.'') ?cond = CHR ''.'' # conditionName"
    using a split_at_period by blast
  let ?chk = "\<lambda>contextParams. call_condition (Some (Fn f)) (ps_params ps) contextParams"
  have impl: "getPolicyConditionImplementation gf ps = Inr ?chk"
    using a by (simp add: getPolicyConditionImplementation_def tw dw Let_def)
  have res: "?chk ctx = Inr v" using a by (simp add: call_condition_def)
  have excl: "\<forall>(pr :: protected_resource_obj) pre rc post.
               pro_settings pr = pre @ rc # post \<and> cps_checkIfEnabled (rc_policySetting rc) = ?chk \<longrightarrow>
               computeResourceSetting pr ctx = computeResourceSetting (pr\<lparr>pro_settings := pre @ post\<rparr>) ctx"
  proof (intro allI impI)
    fix pr :: protected_resource_obj and pre rc post
    assume h: "pro_settings pr = pre @ rc # post \<and> cps_checkIfEnabled (rc_policySetting rc) = ?chk"
    then have "is_disabled ctx rc" using res a by (simp add: is_disabled_def)
    then show "computeResourceSetting pr ctx = computeResourceSetting (pr\<lparr>pro_settings := pre @ post\<rparr>) ctx"
      using h by (simp add: computeResourceSetting_def selectSetting_skip_disabled split: sum.splits option.splits)
  qed
  show "\<exists>chk. getPolicyConditionImplementation gf ps = Inr chk \<and> chk ctx = Inr v
         \<and> (\<forall>pr pre rc post.
               pro_settings pr = pre @ rc # post \<and> cps_checkIfEnabled (rc_policySetting rc) = chk \<longrightarrow>
               computeResourceSetting pr ctx = computeResourceSetting (pr\<lparr>pro_settings := pre @ post\<rparr>) ctx)"
    using impl res excl by blast
next
  assume c: "compileSecurityData gc gt securityData = Inr prs \<and> cpr \<in> set prs
        \<and> pro_settings cpr = cpre @ crc # cpost"
  then have "crc \<in> set (pro_settings cpr)" by simp
  with c show "gated_by gc (case usd_policies securityData of None \<Rightarrow> [] | Some p \<Rightarrow> p) crc"
    using compileSecurityData_gated by blast
next
  assume c: "compileSecurityData gc gt securityData = Inr prs \<and> cpr \<in> set prs
        \<and> pro_settings cpr = cpre @ crc # cpost"
    and n: "cps_condition (rc_policySetting crc) = None"
  from c have "crc \<in> set (pro_settings cpr)" by simp
  with c have "gated_by gc (case usd_policies securityData of None \<Rightarrow> [] | Some p \<Rightarrow> p) crc"
    using compileSecurityData_gated by blast
  then obtain c0 where c0: "cps_condition (rc_policySetting crc) = ps_condition c0"
    "getPolicyConditionImplementation gc c0 = Inr (cps_checkIfEnabled (rc_policySetting crc))"
    by (auto simp: gated_by_def)
  then have "cps_checkIfEnabled (rc_policySetting crc) = (\<lambda>contextParams. Inr (JBool True))"
    using n by (simp add: getPolicyConditionImplementation_def)
  then show "\<forall>ctx0. cps_checkIfEnabled (rc_policySetting crc) ctx0 = Inr (JBool True)" by simp
next
  assume c: "compileSecurityData gc gt securityData = Inr prs \<and> cpr \<in> set prs
        \<and> pro_settings cpr = cpre @ crc # cpost"
    and a: "cps_condition (rc_policySetting crc) = Some (cfactoryName @ CHR ''.'' # cconditionName)
            \<and> CHR ''.'' \<notin> set cfactoryName \<and> gc cfactoryName = Inr cconditionGroup
            \<and> map_of cconditionGroup cconditionName = Some (Fn cf)
            \<and> cf (cps_params (rc_policySetting crc)) cctx = Inr cv \<and> \<not> truthy cv"
  from c have "crc \<in> set (pro_settings cpr)" by simp
  with c have "gated_by gc (case usd_policies securityData of None \<Rightarrow> [] | Some p \<Rightarrow> p) crc"
    using compileSecurityData_gated by blast
  then obtain c0 where c0: "cps_condition (rc_policySetting crc) = ps_condition c0"
    "cps_params (rc_policySetting crc) = ps_params c0"
    "getPolicyConditionImplementation gc c0 = Inr (cps_checkIfEnabled (rc_policySetting crc))"
    by (auto simp: gated_by_def)
  let ?cond = "cfactoryName @ CHR ''.'' # cconditionName"
  have tw: "takeWhile (\<lambda>c. c \<noteq> CHR ''.'') ?cond = cfactoryName"
    using a split_at_period by blast
  have dw: "dropWhile (\<lambda>c. c \<noteq> CHR ''.'') ?cond = CHR ''.'' # cconditionName"
    using a split_at_period by blast
  have "getPolicyConditionImplementation gc c0
          = Inr (\<lambda>contextParams. call_condition (Some (Fn cf)) (ps_params c0) contextParams)"
    using a c0(1) by (simp add: getPolicyConditionImplementation_def tw dw Let_def)
  then have chk: "cps_checkIfEnabled (rc_policySetting crc)
          = (\<lambda>contextParams. call_condition (Some (Fn cf)) (ps_params c0) contextParams)"
    using c0(3) by simp
  have res: "cps_checkIfEnabled (rc_policySetting crc) cctx = Inr cv"
    using a c0(2) by (simp add: chk call_condition_def)
  then have "is_disabled cctx crc" using a by (simp add: is_disabled_def)
  then have skip: "computeResourceSetting cpr cctx
              = computeResourceSetting (cpr\<lparr>pro_settings := cpre @ cpost\<rparr>) cctx"
    using c by (simp add: computeResourceSetting_def selectSetting_skip_disabled split: sum.splits option.splits)
  from res show "cps_checkIfEnabled (rc_policySetting crc) cctx = Inr cv" .
  from skip show "computeResourceSetting cpr cctx
              = computeResourceSetting (cpr\<lparr>pro_settings := cpre @ cpost\<rparr>) cctx" .
qed

theorem condition_gating_witness:
  "ps_condition ex_unconditional = None
   \<and> (\<exists>chk. getPolicyConditionImplementation ex_getFactory ex_unconditional = Inr chk
         \<and> (\<forall>ctx0. chk ctx0 = Inr (JBool True)))
   \<and> ps_condition ex_conditional = Some (''account'' @ CHR ''.'' # ''isOwner'')
   \<and> CHR ''.'' \<notin> set ''account''
   \<and> ex_getFactory ''account'' = Inr ex_factory \<and> map_of ex_factory ''isOwner'' = Some (Fn ex_isOwner)
   \<and> ex_isOwner (ps_params ex_conditional) (JStr ''guest'') = Inr (JBool False)
   \<and> \<not> truthy (JBool False)
   \<and> (\<exists>chk. getPolicyConditionImplementation ex_getFactory ex_conditional = Inr chk
         \<and> chk (JStr ''guest'') = Inr (JBool False)
         \<and> computeResourceSetting (ex_protected [ex_entry ex_show ex_always, ex_entry ex_hide chk]) (JStr ''guest'')
             = computeResourceSetting (ex_protected [ex_entry ex_show ex_always]) (JStr ''guest''))
   \<and> compileSecurityData ex_getFactory getResourceTypeFactory ex_gate_data = Inr [ex_gate_compiled]
   \<and> pro_settings ex_gate_compiled = [ex_gate_entry ex_show ex_gate_read ex_always] @ ex_gate_entry ex_hide ex_gate_update ex_gate_owner # []
   \<and> cps_condition (rc_policySetting (ex_gate_entry ex_show ex_gate_read ex_always)) = None
   \<and> (\<forall>ctx0. cps_checkIfEnabled (rc_policySetting (ex_gate_entry ex_show ex_gate_read ex_always)) ctx0 = Inr (JBool True))
   \<and> cps_condition (rc_policySetting (ex_gate_entry ex_hide ex_gate_update ex_gate_owner)) = Some (''account'' @ CHR ''.'' # ''isOwner'')
   \<and> ex_isOwner (cps_params (rc_policySetting (ex_gate_entry ex_hide ex_gate_update ex_gate_owner))) (JStr ''guest'') = Inr (JBool False)
   \<and> gated_by ex_getFactory [ex_gate_policy] (ex_gate_entry ex_hide ex_gate_update ex_gate_owner)
   \<and> cps_checkIfEnabled (rc_policySetting (ex_gate_entry ex_hide ex_gate_update ex_gate_owner)) (JStr ''guest'') = Inr (JBool False)
   \<and> computeResourceSetting ex_gate_compiled (JStr ''guest'')
       = computeResourceSetting (ex_gate_compiled\<lparr>pro_settings := [ex_gate_entry ex_show ex_gate_read ex_always]\<rparr>) (JStr ''guest'')
   \<and> computeResourceSetting ex_gate_compiled (JStr ''guest'') = Inr ex_show
   \<and> computeResourceSetting ex_gate_compiled (JStr ''owner'') = Inr ex_hide"
proof -
  have h0: "ps_condition ex_unconditional = None" by (simp add: ex_unconditional_def)
  have h1: "ps_condition ex_conditional = Some (''account'' @ CHR ''.'' # ''isOwner'')
     \<and> CHR ''.'' \<notin> set ''account''
     \<and> ex_getFactory ''account'' = Inr ex_factory \<and> map_of ex_factory ''isOwner'' = Some (Fn ex_isOwner)
     \<and> ex_isOwner (ps_params ex_conditional) (JStr ''guest'') = Inr (JBool False)
     \<and> \<not> truthy (JBool False)"
    by (simp add: ex_conditional_def ex_getFactory_def ex_factory_def ex_isOwner_def)
  have h2: "compileSecurityData ex_getFactory getResourceTypeFactory ex_gate_data = Inr [ex_gate_compiled]
     \<and> ex_gate_compiled \<in> set [ex_gate_compiled]
     \<and> pro_settings ex_gate_compiled = [ex_gate_entry ex_show ex_gate_read ex_always] @ ex_gate_entry ex_hide ex_gate_update ex_gate_owner # []"
    by (simp add: ex_gate_compiles) (simp add: ex_gate_compiled_def)
  have h3: "compileSecurityData ex_getFactory getResourceTypeFactory ex_gate_data = Inr [ex_gate_compiled]
     \<and> ex_gate_compiled \<in> set [ex_gate_compiled]
     \<and> pro_settings ex_gate_compiled = [] @ ex_gate_entry ex_show ex_gate_read ex_always # [ex_gate_entry ex_hide ex_gate_update ex_gate_owner]"
    by (simp add: ex_gate_compiles) (simp add: ex_gate_compiled_def)
  have h4: "cps_condition (rc_policySetting (ex_gate_entry ex_show ex_gate_read ex_always)) = None"
    by (simp add: ex_gate_entry_def ex_gate_read_def ex_unconditional_def)
  have h5: "cps_condition (rc_policySetting (ex_gate_entry ex_hide ex_gate_update ex_gate_owner)) = Some (''account'' @ CHR ''.'' # ''isOwner'')
     \<and> CHR ''.'' \<notin> set ''account''
     \<and> ex_getFactory ''account'' = Inr ex_factory \<and> map_of ex_factory ''isOwner'' = Some (Fn ex_isOwner)
     \<and> ex_isOwner (cps_params (rc_policySetting (ex_gate_entry ex_hide ex_gate_update ex_gate_owner))) (JStr ''guest'') = Inr (JBool False)
     \<and> \<not> truthy (JBool False)"
    by (simp add: ex_gate_entry_def ex_gate_update_def ex_conditional_def ex_getFactory_def
          ex_factory_def ex_isOwner_def)
  note t = condition_gating[where ?ps0.0 = ex_unconditional and ?gf0.0 = ex_getFactory
      and ps = ex_conditional and factoryName = "''account''" and conditionName = "''isOwner''"
      and gf = ex_getFactory and conditionGroup = ex_factory and f = ex_isOwner
      and ctx = "JStr ''guest''" and v = "JBool False"
      and gc = ex_getFactory and gt = getResourceTypeFactory and securityData = ex_gate_data
      and prs = "[ex_gate_compiled]" and cpr = ex_gate_compiled
      and cfactoryName = "''account''" and cconditionName = "''isOwner''"
      and cconditionGroup = ex_factory and cf = ex_isOwner
      and cctx = "JStr ''guest''" and cv = "JBool False"]
  note t2 = t[where cpre = "[ex_gate_entry ex_show ex_gate_read ex_always]" and crc = "ex_gate_entry ex_hide ex_gate_update ex_gate_owner" and cpost = "[]"]
  note t1 = t[where cpre = "[]" and crc = "ex_gate_entry ex_show ex_gate_read ex_always" and cpost = "[ex_gate_entry ex_hide ex_gate_update ex_gate_owner]"]
  from t2 h0 h1
  obtain chk0 chk where
    c0: "getPolicyConditionImplementation ex_getFactory ex_unconditional = Inr chk0"
        "\<forall>ctx0. chk0 ctx0 = Inr (JBool True)"
    and c1: "getPolicyConditionImplementation ex_getFactory ex_conditional = Inr chk"
        "chk (JStr ''guest'') = Inr (JBool False)"
        "\<forall>(pr :: protected_resource_obj) pre rc post.
               pro_settings pr = pre @ rc # post \<and> cps_checkIfEnabled (rc_policySetting rc) = chk \<longrightarrow>
               computeResourceSetting pr (JStr ''guest'')
                 = computeResourceSetting (pr\<lparr>pro_settings := pre @ post\<rparr>) (JStr ''guest'')"
    by blast
  have "computeResourceSetting (ex_protected [ex_entry ex_show ex_always, ex_entry ex_hide chk]) (JStr ''guest'')
      = computeResourceSetting
          ((ex_protected [ex_entry ex_show ex_always, ex_entry ex_hide chk])
             \<lparr>pro_settings := [ex_entry ex_show ex_always] @ []\<rparr>) (JStr ''guest'')"
    using c1(3)[rule_format, of "ex_protected [ex_entry ex_show ex_always, ex_entry ex_hide chk]"
        "[ex_entry ex_show ex_always]" "ex_entry ex_hide chk" "[]"]
    by (simp add: ex_protected_def ex_entry_def ex_policySetting_def)
  then have e: "computeResourceSetting (ex_protected [ex_entry ex_show ex_always, ex_entry ex_hide chk]) (JStr ''guest'')
      = computeResourceSetting (ex_protected [ex_entry ex_show ex_always]) (JStr ''guest'')"
    by (simp add: ex_protected_def)
  have old: "\<exists>chk. getPolicyConditionImplementation ex_getFactory ex_conditional = Inr chk
         \<and> chk (JStr ''guest'') = Inr (JBool False)
         \<and> computeResourceSetting (ex_protected [ex_entry ex_show ex_always, ex_entry ex_hide chk]) (JStr ''guest'')
             = computeResourceSetting (ex_protected [ex_entry ex_show ex_always]) (JStr ''guest'')"
    using c1(1,2) e by blast
  from t1 h3 h4 have g1: "\<forall>ctx0. cps_checkIfEnabled (rc_policySetting (ex_gate_entry ex_show ex_gate_read ex_always)) ctx0 = Inr (JBool True)"
    by blast
  from t2 h2 h5 have g2: "gated_by ex_getFactory (case usd_policies ex_gate_data of None \<Rightarrow> [] | Some p \<Rightarrow> p) (ex_gate_entry ex_hide ex_gate_update ex_gate_owner)"
    "cps_checkIfEnabled (rc_policySetting (ex_gate_entry ex_hide ex_gate_update ex_gate_owner)) (JStr ''guest'') = Inr (JBool False)"
    "computeResourceSetting ex_gate_compiled (JStr ''guest'')
       = computeResourceSetting (ex_gate_compiled\<lparr>pro_settings := [ex_gate_entry ex_show ex_gate_read ex_always] @ []\<rparr>) (JStr ''guest'')"
    by blast+
  have g2': "gated_by ex_getFactory [ex_gate_policy] (ex_gate_entry ex_hide ex_gate_update ex_gate_owner)"
    using g2(1) by (simp add: ex_gate_data_def)
  have g3: "computeResourceSetting ex_gate_compiled (JStr ''guest'')
       = computeResourceSetting (ex_gate_compiled\<lparr>pro_settings := [ex_gate_entry ex_show ex_gate_read ex_always]\<rparr>) (JStr ''guest'')"
    using g2(3) by simp
  have v: "computeResourceSetting ex_gate_compiled (JStr ''guest'') = Inr ex_show"
    "computeResourceSetting ex_gate_compiled (JStr ''owner'') = Inr ex_hide"
    by (simp_all add: computeResourceSetting_def ex_gate_compiled_def ex_gate_entry_def ex_always_def
          ex_gate_owner_def call_condition_def ex_isOwner_def ex_show_def ex_hide_def priority_of_def)
  show ?thesis
    using h0 c0 h1 old h2 h4 g1 h5 g2' g2(2) g3 v by blast
qed

lemma map_of_set_prop: "map_of (set_prop k v kvs) = (map_of kvs)(k \<mapsto> v)"
  by (induction kvs) (auto simp: fun_eq_iff)

lemma map_of_fold_set_prop_static:
  "distinct (map fst kvs) \<Longrightarrow>
   map_of (fold (\<lambda>(k, v). set_prop k v) kvs tgt) k
     = (case map_of kvs k of Some v \<Rightarrow> Some v | None \<Rightarrow> map_of tgt k)"
proof (induction kvs arbitrary: tgt)
  case Nil
  then show ?case by simp
next
  case (Cons kv kvs)
  obtain k' v' where kv: "kv = (k', v')" by (cases kv)
  have d: "distinct (map fst kvs)" and notin: "k' \<notin> fst ` set kvs" using Cons.prems kv by auto
  have none: "map_of kvs k' = None" using notin by (simp add: map_of_eq_None_iff)
  show ?case using Cons.IH[OF d, of "set_prop k' v' tgt"] none
    by (auto simp: kv map_of_set_prop split: option.splits)
qed

lemma map_of_assign_static:
  "distinct (map fst sd) \<Longrightarrow>
   map_of (assign params (Some sd)) k
     = (case map_of sd k of Some v \<Rightarrow> Some v | None \<Rightarrow> map_of (assign params None) k)"
  by (simp add: assign_def assign_from_def map_of_fold_set_prop_static split: option.splits)

text \<open>
  Claim C7. Compiling a grant onto its protected resource appends one entry to the
  resource's contributed entries; the entry's setting object is
  \<open>_.assign({}, params, settingObject)\<close> for the grant's params and the setting
  definition of the resource's type. Every field of the setting definition, \<open>value\<close>
  and \<open>priority\<close> among them, is in the merged object with the definition's value; the
  other fields are those of the params. Every contributed entry of a compiled user
  policy is such a merge for a grant of one of its policies.
\<close>

theorem grant_setting_is_merge:
  "(\<exists>rc. addPolicyResourceSettingToProtectedResource g (Some pr) policySetting
           = Inr (pr\<lparr>pro_settings := pro_settings pr @ [rc]\<rparr>)
     \<and> rc_policySetting rc = policySetting
     \<and> rc_setting rc = assign (g_params g) (find_setting (rt_settings (cr_type (pro_resource pr))) (g_setting g))
     \<and> (\<forall>sd. find_setting (rt_settings (cr_type (pro_resource pr))) (g_setting g) = Some sd
              \<and> distinct (map fst sd) \<longrightarrow>
            (\<forall>k v. map_of sd k = Some v \<longrightarrow> map_of (rc_setting rc) k = Some v)
          \<and> (\<forall>k. map_of sd k = None \<longrightarrow> map_of (rc_setting rc) k = map_of (assign (g_params g) None) k)
          \<and> map_of (rc_setting rc) ''value'' = map_option JStr (g_setting g)))
   \<and> (compileSecurityData gc gt securityData = Inr prs \<and> compiled \<in> set prs
         \<and> entry \<in> set (pro_settings compiled) \<longrightarrow>
       (\<exists>pol g'. pol \<in> set (case usd_policies securityData of None \<Rightarrow> [] | Some ps \<Rightarrow> ps)
          \<and> g' \<in> set (grants_of_policy pol)
          \<and> rc_setting entry
              = assign (g_params g')
                  (find_setting (rt_settings (cr_type (pro_resource compiled))) (g_setting g'))))"
proof -
  let ?static = "find_setting (rt_settings (cr_type (pro_resource pr))) (g_setting g)"
  let ?rc = "\<lparr>rc_resource = pro_resource pr, rc_setting = assign (g_params g) ?static,
              rc_params = g_params g, rc_policySetting = policySetting\<rparr>"
  have r: "addPolicyResourceSettingToProtectedResource g (Some pr) policySetting
             = Inr (pr\<lparr>pro_settings := pro_settings pr @ [?rc]\<rparr>)"
    by (simp add: addPolicyResourceSettingToProtectedResource_def buildResourceSettingObject_def Let_def)
  have m: "\<forall>sd. ?static = Some sd \<and> distinct (map fst sd) \<longrightarrow>
            (\<forall>k v. map_of sd k = Some v \<longrightarrow> map_of (rc_setting ?rc) k = Some v)
          \<and> (\<forall>k. map_of sd k = None \<longrightarrow> map_of (rc_setting ?rc) k = map_of (assign (g_params g) None) k)
          \<and> map_of (rc_setting ?rc) ''value'' = map_option JStr (g_setting g)"
  proof (intro allI impI)
    fix sd
    assume h: "?static = Some sd \<and> distinct (map fst sd)"
    then have hv: "has_value (g_setting g) sd"
      by (auto simp: find_setting_def find_Some_iff)
    then have v: "map_of sd ''value'' = map_option JStr (g_setting g)"
      by (auto simp: has_value_def split: option.splits)
    have nn: "g_setting g \<noteq> None" using hv by (auto simp: has_value_def split: option.splits)
    show "(\<forall>k v. map_of sd k = Some v \<longrightarrow> map_of (rc_setting ?rc) k = Some v)
          \<and> (\<forall>k. map_of sd k = None \<longrightarrow> map_of (rc_setting ?rc) k = map_of (assign (g_params g) None) k)
          \<and> map_of (rc_setting ?rc) ''value'' = map_option JStr (g_setting g)"
      using h v nn by (auto simp: map_of_assign_static)
  qed
  have one: "\<exists>rc. addPolicyResourceSettingToProtectedResource g (Some pr) policySetting
           = Inr (pr\<lparr>pro_settings := pro_settings pr @ [rc]\<rparr>)
     \<and> rc_policySetting rc = policySetting
     \<and> rc_setting rc = assign (g_params g) ?static
     \<and> (\<forall>sd. ?static = Some sd \<and> distinct (map fst sd) \<longrightarrow>
            (\<forall>k v. map_of sd k = Some v \<longrightarrow> map_of (rc_setting rc) k = Some v)
          \<and> (\<forall>k. map_of sd k = None \<longrightarrow> map_of (rc_setting rc) k = map_of (assign (g_params g) None) k)
          \<and> map_of (rc_setting rc) ''value'' = map_option JStr (g_setting g))"
    using r m by (intro exI[of _ ?rc]) simp
  have all: "\<exists>pol g'. pol \<in> set (case usd_policies securityData of None \<Rightarrow> [] | Some ps \<Rightarrow> ps)
          \<and> g' \<in> set (grants_of_policy pol)
          \<and> rc_setting entry
              = assign (g_params g')
                  (find_setting (rt_settings (cr_type (pro_resource compiled))) (g_setting g'))"
    if c: "compileSecurityData gc gt securityData = Inr prs" "compiled \<in> set prs"
      and e: "entry \<in> set (pro_settings compiled)"
  proof -
    from compileSecurityData_compiled[OF c] e
    have "contributed_by (case usd_policies securityData of None \<Rightarrow> [] | Some p \<Rightarrow> p) compiled entry"
      by simp
    then show ?thesis unfolding contributed_by_def by blast
  qed
  show ?thesis using one all by blast
qed

theorem grant_setting_is_merge_witness:
  "find_setting (rt_settings (cr_type (pro_resource (ex_protected [])))) (g_setting ex_grant) = Some ex_hide
   \<and> distinct (map fst ex_hide)
   \<and> (\<exists>rc. addPolicyResourceSettingToProtectedResource ex_grant (Some (ex_protected [])) (ex_policySetting ex_always)
              = Inr ((ex_protected [])\<lparr>pro_settings := pro_settings (ex_protected []) @ [rc]\<rparr>)
         \<and> map_of (rc_setting rc) ''priority'' = Some (JNum 0)
         \<and> map_of (rc_setting rc) ''value'' = Some (JStr ''hide'')
         \<and> map_of (rc_setting rc) ''reason'' = Some (JStr ''audit''))"
proof -
  have h: "find_setting (rt_settings (cr_type (pro_resource (ex_protected [])))) (g_setting ex_grant) = Some ex_hide
      \<and> distinct (map fst ex_hide)"
    by (simp add: ex_protected_def ex_AccountMenu_def ex_AppMenuItem_def ex_grant_def find_setting_def
          has_value_def ex_show_def ex_hide_def)
  from grant_setting_is_merge[of ex_grant "ex_protected []" "ex_policySetting ex_always", THEN conjunct1]
  obtain rc where
    r: "addPolicyResourceSettingToProtectedResource ex_grant (Some (ex_protected [])) (ex_policySetting ex_always)
          = Inr ((ex_protected [])\<lparr>pro_settings := pro_settings (ex_protected []) @ [rc]\<rparr>)"
    and m: "\<forall>sd. find_setting (rt_settings (cr_type (pro_resource (ex_protected [])))) (g_setting ex_grant) = Some sd
              \<and> distinct (map fst sd) \<longrightarrow>
            (\<forall>k v. map_of sd k = Some v \<longrightarrow> map_of (rc_setting rc) k = Some v)
          \<and> (\<forall>k. map_of sd k = None \<longrightarrow> map_of (rc_setting rc) k = map_of (assign (g_params ex_grant) None) k)
          \<and> map_of (rc_setting rc) ''value'' = map_option JStr (g_setting ex_grant)"
    by blast
  from m h have m1: "\<forall>k v. map_of ex_hide k = Some v \<longrightarrow> map_of (rc_setting rc) k = Some v"
    and m2: "\<forall>k. map_of ex_hide k = None \<longrightarrow> map_of (rc_setting rc) k = map_of (assign (g_params ex_grant) None) k"
    by blast+
  have p: "map_of (rc_setting rc) ''priority'' = Some (JNum 0)"
    using m1[rule_format, of "''priority''" "JNum 0"] by (simp add: ex_hide_def)
  have v: "map_of (rc_setting rc) ''value'' = Some (JStr ''hide'')"
    using m1[rule_format, of "''value''" "JStr ''hide''"] by (simp add: ex_hide_def)
  have q: "map_of (rc_setting rc) ''reason'' = Some (JStr ''audit'')"
    using m2[rule_format, of "''reason''"]
    by (simp add: ex_hide_def ex_grant_def assign_def assign_from_def)
  show ?thesis using h r p v q by blast
qed

subsection \<open>The loader: resource types\<close>

lemma addResourceType_effect:
  assumes "addResourceType rt s = (r, s')"
  shows "m_dictionary s' = m_dictionary s \<and> m_policies s' = m_policies s
       \<and> m_conditionFactories s' = m_conditionFactories s
       \<and> (case r of Inl e \<Rightarrow> m_resourceTypes s' = m_resourceTypes s
            | Inr u \<Rightarrow> m_resourceTypes s' = m_resourceTypes s @ [rt] \<and> rt_env rt \<noteq> None)"
  using assms
  by (auto simp: addResourceType_def logger_def Let_def split: if_splits option.splits)

lemma addResourceType_types_ok:
  "addResourceType rt s = (r, s') \<Longrightarrow> types_ok s \<Longrightarrow> types_ok s'"
  using addResourceType_effect[of rt s r s'] by (cases r) (auto simp: types_ok_def)

lemma initializeResourceTypes_types_ok:
  assumes "initializeResourceTypes ts cfs s = (r, s')"
  shows "types_ok s'"
proof -
  let ?s0 = "s\<lparr>m_conditionFactories := cfs, m_resourceTypes := []\<rparr>"
  have 0: "types_ok ?s0" by (simp add: types_ok_def)
  show ?thesis
    using assms unfolding initializeResourceTypes_def
  proof (rule forEach_invariant[where I = types_ok, OF _ 0])
    show "\<forall>x\<in>set (enumerate 0 ts). \<forall>a r b.
       (case x of (typeName, resourceType) \<Rightarrow> \<lambda>s'.
          rethrow_with [Txt '' - invalid resource type ['', Idx typeName, Txt '']: '',
                        Json (json_resource_type resourceType)]
            (addResourceType resourceType s')) a = (r, b) \<longrightarrow> types_ok a \<longrightarrow> types_ok b"
      by (auto simp: rethrow_with_def split: prod.splits sum.splits dest: addResourceType_types_ok)
  qed
qed


lemma logger_fields [simp]:
  "m_dictionary (logger l m s) = m_dictionary s"
  "m_resourceTypes (logger l m s) = m_resourceTypes s"
  "m_policies (logger l m s) = m_policies s"
  "m_conditionFactories (logger l m s) = m_conditionFactories s"
  "uuids_drawn (logger l m s) = uuids_drawn s"
  "logged (logger l m s) = logged s @ [(l, m)]"
  by (simp_all add: logger_def)

lemma findResourceType_cong:
  "m_resourceTypes a = m_resourceTypes b \<Longrightarrow> findResourceType a ty = findResourceType b ty"
  by (simp add: findResourceType_def)

lemma findSetting_cong:
  "m_resourceTypes a = m_resourceTypes b \<Longrightarrow> findSetting a ty v = findSetting b ty v"
  by (simp add: findSetting_def findResourceType_def)

lemma findProtectedResourceByName_cong:
  "m_dictionary a = m_dictionary b \<Longrightarrow> findProtectedResourceByName a n = findProtectedResourceByName b n"
  by (simp add: findProtectedResourceByName_def)

lemma findResourceType_logger [simp]: "findResourceType (logger l m s) ty = findResourceType s ty"
  by (simp add: findResourceType_def)

lemma findSetting_logger [simp]: "findSetting (logger l m s) ty v = findSetting s ty v"
  by (simp add: findSetting_def)

subsection \<open>The loader: dictionary\<close>

lemma addResourceToDictionary_effect:
  assumes "addResourceToDictionary d s = (r, s')"
  shows "m_resourceTypes s' = m_resourceTypes s \<and> m_policies s' = m_policies s
       \<and> m_conditionFactories s' = m_conditionFactories s
       \<and> (case r of Inl e \<Rightarrow> m_dictionary s' = m_dictionary s
            | Inr u \<Rightarrow> m_dictionary s' = m_dictionary s @ [d\<lparr>pr_id := Some (uuids_drawn s)\<rparr>]
                       \<and> (\<exists>t. findResourceType s (pr_type d) = Inr t))"
  using assms
  by (auto simp: addResourceToDictionary_def Let_def split: if_splits sum.splits)

lemma addResourceToDictionary_dict_ok:
  assumes "addResourceToDictionary d s = (r, s')" and "d \<in> set ds"
      and "dict_ok ds s \<and> m_resourceTypes s = T"
  shows "dict_ok ds s' \<and> m_resourceTypes s' = T"
proof -
  from addResourceToDictionary_effect[OF assms(1)]
  have t: "m_resourceTypes s' = m_resourceTypes s"
    and c: "(case r of Inl e \<Rightarrow> m_dictionary s' = m_dictionary s
            | Inr u \<Rightarrow> m_dictionary s' = m_dictionary s @ [d\<lparr>pr_id := Some (uuids_drawn s)\<rparr>]
                       \<and> (\<exists>t. findResourceType s (pr_type d) = Inr t))"
    by simp_all
  have f: "\<And>ty. findResourceType s' ty = findResourceType s ty"
    using t by (rule findResourceType_cong)
  show ?thesis
  proof (cases r)
    case (Inl e)
    then show ?thesis using c t f assms(3) by (simp add: dict_ok_def)
  next
    case (Inr u)
    then show ?thesis using c t f assms(2,3) by (auto simp: dict_ok_def)
  qed
qed

lemma initializeDictionary_ok:
  assumes "initializeDictionary ds s = (r, s')"
  shows "dict_ok ds s' \<and> m_resourceTypes s' = m_resourceTypes s"
proof -
  let ?s0 = "s\<lparr>m_dictionary := []\<rparr>"
  let ?I = "\<lambda>a. dict_ok ds a \<and> m_resourceTypes a = m_resourceTypes s"
  have 0: "?I ?s0" by (simp add: dict_ok_def)
  show ?thesis
    using assms unfolding initializeDictionary_def
  proof (rule forEach_invariant[where I = ?I, OF _ 0])
    show "\<forall>x\<in>set ds. \<forall>a r b.
       rethrow_with [Txt '' - invalid protected resource in dictionary: '', Json (json_protected_resource x)]
         (addResourceToDictionary x a) = (r, b) \<longrightarrow> ?I a \<longrightarrow> ?I b"
    proof (intro ballI allI impI)
      fix x a r b
      assume x: "x \<in> set ds"
        and run: "rethrow_with [Txt '' - invalid protected resource in dictionary: '', Json (json_protected_resource x)]
         (addResourceToDictionary x a) = (r, b)"
        and i: "?I a"
      obtain r0 where "addResourceToDictionary x a = (r0, b)"
        using run by (cases "addResourceToDictionary x a") (auto simp: rethrow_with_def split: sum.splits)
      from addResourceToDictionary_dict_ok[OF this x i] show "?I b" .
    qed
  qed
qed

subsection \<open>The loader: policies\<close>

lemma checkPolicyProtectedResource_effect:
  assumes "checkPolicyProtectedResource g s = (r, s')"
  shows "s' = s \<and> (r = Inr () \<longrightarrow> findProtectedResourceByName s (g_resource g) \<noteq> None)"
  using assms
  by (auto simp: checkPolicyProtectedResource_def split: option.splits if_splits sum.splits)

lemma check_grants_effect:
  assumes "forEach (\<lambda>g s'. rethrow_with (M g) (checkPolicyProtectedResource g s')) gs s = (r, s')"
  shows "s' = s \<and> (\<forall>u. r = Inr u \<longrightarrow> (\<forall>g \<in> set gs. findProtectedResourceByName s (g_resource g) \<noteq> None))"
  using assms
proof (induction gs arbitrary: r)
  case Nil
  then show ?case by simp
next
  case (Cons g gs)
  obtain r1 s1 where 1: "checkPolicyProtectedResource g s = (r1, s1)"
    by (cases "checkPolicyProtectedResource g s")
  from checkPolicyProtectedResource_effect[OF 1]
  have e: "s1 = s" "r1 = Inr () \<longrightarrow> findProtectedResourceByName s (g_resource g) \<noteq> None" by simp_all
  show ?case
  proof (cases r1)
    case (Inl e0)
    then show ?thesis using Cons.prems 1 e by (auto simp: rethrow_with_def)
  next
    case (Inr u)
    then have "forEach (\<lambda>g s'. rethrow_with (M g) (checkPolicyProtectedResource g s')) gs s = (r, s')"
      using Cons.prems 1 e by (simp add: rethrow_with_def)
    from Cons.IH[OF this] show ?thesis using e Inr by auto
  qed
qed

lemma checkPolicySetting_effect:
  assumes "checkPolicySetting c s = (r, s')"
  shows "s' = s \<and> (\<forall>c'. r = Inr c' \<longrightarrow>
           grants_of_setting c' = grants_of_setting c \<and> ps_setting c' = ps_setting c
         \<and> ps_protectedResources c' \<noteq> None
         \<and> (\<forall>g \<in> set (grants_of_setting c). findProtectedResourceByName s (g_resource g) \<noteq> None))"
proof (cases "ps_protectedResources c")
  case None
  then show ?thesis using assms
    by (auto simp: checkPolicySetting_def grants_of_setting_def split: if_splits)
next
  case (Some gs)
  show ?thesis
  proof (cases "truthy_str (ps_setting c)")
    case False
    then show ?thesis using assms by (auto simp: checkPolicySetting_def)
  next
    case True
    obtain r1 s1 where 1: "forEach (\<lambda>g s'.
                        rethrow_with [Txt '' - invalid protected resource ['', Txt (g_resource g), Txt '']'']
                          (checkPolicyProtectedResource g s')) gs s = (r1, s1)"
      by (cases "forEach (\<lambda>g s'.
                        rethrow_with [Txt '' - invalid protected resource ['', Txt (g_resource g), Txt '']'']
                          (checkPolicyProtectedResource g s')) gs s")
    from check_grants_effect[OF 1]
    have e: "s1 = s" "\<forall>u. r1 = Inr u \<longrightarrow> (\<forall>g \<in> set gs. findProtectedResourceByName s (g_resource g) \<noteq> None)"
      by simp_all
    show ?thesis using assms True Some 1 e
      by (cases r1) (auto simp: checkPolicySetting_def grants_of_setting_def)
  qed
qed

lemma checkPolicySettings_effect:
  assumes "checkPolicySettings cs s = (r, s')"
  shows "s' = s \<and> (\<forall>cs'. r = Inr cs' \<longrightarrow>
           map grants_of_setting cs' = map grants_of_setting cs \<and> map ps_setting cs' = map ps_setting cs
         \<and> (\<forall>c' \<in> set cs'. ps_protectedResources c' \<noteq> None)
         \<and> (\<forall>c \<in> set cs. \<forall>g \<in> set (grants_of_setting c). findProtectedResourceByName s (g_resource g) \<noteq> None))"
  using assms
proof (induction cs arbitrary: r s')
  case Nil
  then show ?case by auto
next
  case (Cons c cs)
  obtain r1 s1 where 1: "checkPolicySetting c s = (r1, s1)" by (cases "checkPolicySetting c s")
  note e = checkPolicySetting_effect[OF 1]
  show ?case
  proof (cases r1)
    case (Inl e0)
    then show ?thesis using Cons.prems 1 e by (auto simp: rethrow_with_def)
  next
    case (Inr c')
    obtain r2 s2 where 2: "checkPolicySettings cs s = (r2, s2)" by (cases "checkPolicySettings cs s")
    note ih = Cons.IH[OF 2]
    show ?thesis using Cons.prems 1 2 e ih Inr
      by (cases r2) (auto simp: rethrow_with_def)
  qed
qed


lemma findProtectedResourceByName_logger [simp]:
  "findProtectedResourceByName (logger l m s) n = findProtectedResourceByName s n"
  by (simp add: findProtectedResourceByName_def)

lemma grants_of_policy_settings:
  "map grants_of_setting cs' = map grants_of_setting cs \<Longrightarrow>
   grants_of_policy (pol\<lparr>p_settings := Some cs'\<rparr>) = concat (map grants_of_setting cs)"
  by (simp add: grants_of_policy_def)

lemma addPolicy_effect:
  assumes "addPolicy pol s = (r, s')"
  shows "m_dictionary s' = m_dictionary s \<and> m_resourceTypes s' = m_resourceTypes s
       \<and> m_conditionFactories s' = m_conditionFactories s
       \<and> (case r of Inl e \<Rightarrow> m_policies s' = m_policies s
            | Inr u \<Rightarrow>
                (\<exists>pol'. m_policies s' = m_policies s @ [pol']
                   \<and> grants_of_policy pol' = grants_of_policy pol \<and> p_name pol' = p_name pol)
              \<and> (\<forall>g \<in> set (grants_of_policy pol). findProtectedResourceByName s (g_resource g) \<noteq> None))"
proof (cases "truthy_str (p_name pol)")
  case False
  then show ?thesis using assms by (auto simp: addPolicy_def)
next
  case True
  let ?s1 = "logger Debug [Txt ''Add policy %b'', Txt (str_of (p_name pol))] s"
  show ?thesis
  proof (cases "p_settings pol")
    case None
    then show ?thesis using assms True by (auto simp: addPolicy_def Let_def)
  next
    case (Some cs)
    show ?thesis
    proof (cases "find_by p_name (p_name pol) (m_policies s) \<noteq> None")
      case dup: True
      then show ?thesis using assms True Some by (auto simp: addPolicy_def Let_def)
    next
      case nodup: False
      obtain r1 s2 where 1: "checkPolicySettings cs ?s1 = (r1, s2)"
        by (cases "checkPolicySettings cs ?s1")
      note e = checkPolicySettings_effect[OF 1]
      show ?thesis
      proof (cases r1)
        case (Inl e0)
        then show ?thesis using assms True Some nodup 1 e by (auto simp: addPolicy_def Let_def)
      next
        case (Inr cs')
        have g: "grants_of_policy (pol\<lparr>p_settings := Some cs'\<rparr>) = grants_of_policy pol"
          using e Inr Some by (simp add: grants_of_policy_def)
        have f: "\<forall>g \<in> set (grants_of_policy pol). findProtectedResourceByName s (g_resource g) \<noteq> None"
          using e Inr Some by (auto simp: grants_of_policy_def)
        show ?thesis using assms True Some nodup 1 e Inr g f
          by (auto simp: addPolicy_def Let_def split: if_splits)
      qed
    qed
  qed
qed

lemma addPolicy_invariant:
  assumes "addPolicy pol s = (r, s')"
      and "pol_ok s \<and> m_dictionary s = D \<and> m_resourceTypes s = T"
  shows "pol_ok s' \<and> m_dictionary s' = D \<and> m_resourceTypes s' = T"
proof -
  note e = addPolicy_effect[OF assms(1)]
  have d: "m_dictionary s' = m_dictionary s" using e by simp
  have f: "\<And>n. findProtectedResourceByName s' n = findProtectedResourceByName s n"
    using d by (rule findProtectedResourceByName_cong)
  show ?thesis
  proof (cases r)
    case (Inl e0)
    then show ?thesis using e assms(2) f by (simp add: pol_ok_def)
  next
    case (Inr u)
    then show ?thesis using e assms(2) f by (auto simp: pol_ok_def)
  qed
qed

lemma initializePolicies_ok:
  assumes "initializePolicies ps s = (r, s')"
  shows "pol_ok s' \<and> m_dictionary s' = m_dictionary s \<and> m_resourceTypes s' = m_resourceTypes s"
proof -
  let ?s0 = "s\<lparr>m_policies := []\<rparr>"
  let ?I = "\<lambda>a. pol_ok a \<and> m_dictionary a = m_dictionary s \<and> m_resourceTypes a = m_resourceTypes s"
  have 0: "?I ?s0" by (simp add: pol_ok_def)
  show ?thesis
    using assms unfolding initializePolicies_def
  proof (rule forEach_invariant[where I = ?I, OF _ 0])
    show "\<forall>x\<in>set ps. \<forall>a r b.
       rethrow_with [Txt '' - invalid policy ['', Txt (str_of (p_name x)), Txt '']''] (addPolicy x a) = (r, b)
         \<longrightarrow> ?I a \<longrightarrow> ?I b"
    proof (intro ballI allI impI)
      fix x a r b
      assume run: "rethrow_with [Txt '' - invalid policy ['', Txt (str_of (p_name x)), Txt '']''] (addPolicy x a) = (r, b)"
        and i: "?I a"
      obtain r0 where "addPolicy x a = (r0, b)"
        using run by (cases "addPolicy x a") (auto simp: rethrow_with_def split: sum.splits)
      from addPolicy_invariant[OF this i] show "?I b" .
    qed
  qed
qed

lemma initializePolicies_grants_found:
  assumes "initializePolicies ps s = (Inr u, s')" and "pol \<in> set ps" and "g \<in> set (grants_of_policy pol)"
  shows "findProtectedResourceByName s (g_resource g) \<noteq> None"
proof -
  let ?s0 = "s\<lparr>m_policies := []\<rparr>"
  let ?I = "\<lambda>a. m_dictionary a = m_dictionary s"
  let ?f = "\<lambda>pol s'. rethrow_with [Txt '' - invalid policy ['', Txt (str_of (p_name pol)), Txt '']''] (addPolicy pol s')"
  have 0: "?I ?s0" by simp
  have step: "\<forall>x\<in>set ps. \<forall>a r b. ?f x a = (r, b) \<longrightarrow> ?I a \<longrightarrow> ?I b"
  proof (intro ballI allI impI)
    fix x a r b
    assume run: "?f x a = (r, b)" and i: "?I a"
    obtain r0 where "addPolicy x a = (r0, b)"
      using run by (cases "addPolicy x a") (auto simp: rethrow_with_def split: sum.splits)
    from addPolicy_effect[OF this] i show "?I b" by simp
  qed
  have run: "forEach ?f ps ?s0 = (Inr u, s')" using assms(1) by (simp add: initializePolicies_def)
  from forEach_each_ok[where I = ?I, OF run 0 step assms(2)]
  obtain a b where a: "m_dictionary a = m_dictionary s" and ok: "?f pol a = (Inr (), b)" by blast
  then have "addPolicy pol a = (Inr (), b)" by simp
  from addPolicy_effect[OF this] assms(3)
  have "findProtectedResourceByName a (g_resource g) \<noteq> None" by simp
  then show ?thesis using findProtectedResourceByName_cong[OF a] by simp
qed

lemma types_ok_cong: "m_resourceTypes a = m_resourceTypes b \<Longrightarrow> types_ok a = types_ok b"
  by (simp add: types_ok_def)

lemma dict_ok_cong:
  "m_resourceTypes a = m_resourceTypes b \<Longrightarrow> m_dictionary a = m_dictionary b \<Longrightarrow> dict_ok ds a = dict_ok ds b"
  by (simp add: dict_ok_def findResourceType_def)

lemma validate_ok:
  assumes "validate security s = (Inr u, s')"
  shows "types_ok s' \<and> dict_ok (sc_dictionary security) s' \<and> pol_ok s'
       \<and> (\<forall>pol \<in> set (sc_policies security). \<forall>g \<in> set (grants_of_policy pol).
             findProtectedResourceByName s' (g_resource g) \<noteq> None)"
proof -
  from assms obtain s1 s2 where
    1: "initializeResourceTypes (sc_resourceTypes security) (sc_conditionFactories security) s = (Inr (), s1)"
    and 2: "initializeDictionary (sc_dictionary security) s1 = (Inr (), s2)"
    and 3: "initializePolicies (sc_policies security) s2 = (Inr u, s')"
    by (auto simp: validate_def split: prod.splits sum.splits)
  note a = initializeResourceTypes_types_ok[OF 1]
  note b = initializeDictionary_ok[OF 2]
  note c = initializePolicies_ok[OF 3]
  have t: "types_ok s'" using a b c types_ok_cong[of s' s1] by simp
  have d: "dict_ok (sc_dictionary security) s'"
    using b c dict_ok_cong[of s' s2] by simp
  have g: "\<forall>pol \<in> set (sc_policies security). \<forall>g \<in> set (grants_of_policy pol).
             findProtectedResourceByName s' (g_resource g) \<noteq> None"
    using initializePolicies_grants_found[OF 3] c findProtectedResourceByName_cong[of s' s2] by simp
  show ?thesis using t d c g by simp
qed

lemma ghost_fails_validation:
  assumes "pol \<in> set (sc_policies security)" and "g \<in> set (grants_of_policy pol)"
      and "Some (g_resource g) \<notin> pr_name ` set (sc_dictionary security)"
  shows "\<exists>cause. fst (validate security s) = Inl cause"
proof (cases "fst (validate security s)")
  case (Inl e)
  then show ?thesis by simp
next
  case (Inr u)
  then have "validate security s = (Inr u, snd (validate security s))" by (simp add: prod_eq_iff)
  from validate_ok[OF this] assms(1,2)
  have d: "dict_ok (sc_dictionary security) (snd (validate security s))"
    and f: "findProtectedResourceByName (snd (validate security s)) (g_resource g) \<noteq> None"
    by auto
  from f obtain d0 where "find_by pr_name (Some (g_resource g)) (m_dictionary (snd (validate security s))) = Some d0"
    by (auto simp: findProtectedResourceByName_def)
  from find_by_Some[OF this] have "Some (g_resource g) \<in> pr_name ` set (m_dictionary (snd (validate security s)))"
    by force
  then have "Some (g_resource g) \<in> pr_name ` set (sc_dictionary security)"
    using d by (auto simp: dict_ok_def)
  then show ?thesis using assms(3) by simp
qed

subsection \<open>The first failing check\<close>

lemma checkPolicySettings_append:
  "checkPolicySettings (xs @ ys) s =
     (case checkPolicySettings xs s of
        (Inl e, s') \<Rightarrow> (Inl e, s')
      | (Inr xs', s') \<Rightarrow>
          (case checkPolicySettings ys s' of
             (Inl e, s'') \<Rightarrow> (Inl e, s'')
           | (Inr ys', s'') \<Rightarrow> (Inr (xs' @ ys'), s'')))"
  by (induction xs arbitrary: s) (auto split: prod.splits sum.splits)

lemma first_failure_cause:
  assumes 1: "initializeResourceTypes (sc_resourceTypes security) (sc_conditionFactories security) s0 = (Inr (), s1)"
      and 2: "initializeDictionary (sc_dictionary security) s1 = (Inr (), s2)"
      and 3: "sc_policies security = ps @ pol # rest"
      and 4: "initializePolicies ps s2 = (Inr (), s3)"
      and 5: "truthy_str (p_name pol)"
      and 6: "find_by p_name (p_name pol) (m_policies s3) = None"
      and 7: "p_settings pol = Some (cs @ c # crest)"
      and 8: "checkPolicySettings cs (logger Debug [Txt ''Add policy %b'', Txt (str_of (p_name pol))] s3)
                = (Inr cs', s4)"
      and 9: "truthy_str (ps_setting c)"
      and 10: "ps_protectedResources c = Some (gs @ g # grest)"
      and 11: "forEach (\<lambda>g s'.
                  rethrow_with [Txt '' - invalid protected resource ['', Txt (g_resource g), Txt '']'']
                    (checkPolicyProtectedResource g s')) gs s4 = (Inr (), s5)"
      and 12: "Some (g_resource g) \<notin> pr_name ` set (sc_dictionary security)"
  shows "validate security s0 =
           (Inl (Err AssertionError
                  [Txt ''Resource ['', Txt (g_resource g), Txt ''] is not defined in the dictionary'',
                   Txt '' - invalid protected resource ['', Txt (g_resource g), Txt '']'',
                   Txt '' - invalid policy setting: '', Json (json_policy_setting c),
                   Txt '' - invalid policy ['', Txt (str_of (p_name pol)), Txt '']'']), s4)"
proof -
  let ?F = "\<lambda>g s'. rethrow_with [Txt '' - invalid protected resource ['', Txt (g_resource g), Txt '']'']
                    (checkPolicyProtectedResource g s')"
  let ?P = "\<lambda>pol s'. rethrow_with [Txt '' - invalid policy ['', Txt (str_of (p_name pol)), Txt '']'']
                    (addPolicy pol s')"
  let ?sl = "logger Debug [Txt ''Add policy %b'', Txt (str_of (p_name pol))] s3"
  have s4: "s4 = ?sl" using checkPolicySettings_effect[OF 8] by simp
  have s5: "s5 = s4" using check_grants_effect[OF 11] by simp
  have d3: "m_dictionary s3 = m_dictionary s2" using initializePolicies_ok[OF 4] by simp
  have d4: "m_dictionary s4 = m_dictionary s2" using s4 d3 by simp
  have "dict_ok (sc_dictionary security) s2" using initializeDictionary_ok[OF 2] by simp
  then have "pr_name ` set (m_dictionary s4) \<subseteq> pr_name ` set (sc_dictionary security)"
    using d4 by (simp add: dict_ok_def)
  then have "Some (g_resource g) \<notin> pr_name ` set (m_dictionary s4)" using 12 by auto
  then have nf: "findProtectedResourceByName s4 (g_resource g) = None"
    by (simp add: findProtectedResourceByName_def find_by_None)
  have g: "checkPolicyProtectedResource g s4 =
             (Inl (Err AssertionError [Txt ''Resource ['', Txt (g_resource g),
                    Txt ''] is not defined in the dictionary'']), s4)"
    by (simp add: checkPolicyProtectedResource_def nf)
  have loop: "forEach ?F (gs @ g # grest) s4 =
             (Inl (Err AssertionError [Txt ''Resource ['', Txt (g_resource g),
                    Txt ''] is not defined in the dictionary'',
                    Txt '' - invalid protected resource ['', Txt (g_resource g), Txt '']'']), s4)"
    using 11 s5 g by (simp add: forEach_append rethrow_with_def)
  have c: "checkPolicySetting c s4 =
             (Inl (Err AssertionError [Txt ''Resource ['', Txt (g_resource g),
                    Txt ''] is not defined in the dictionary'',
                    Txt '' - invalid protected resource ['', Txt (g_resource g), Txt '']'']), s4)"
    using 9 10 loop by (simp add: checkPolicySetting_def)
  have cs: "checkPolicySettings (cs @ c # crest) ?sl =
             (Inl (Err AssertionError [Txt ''Resource ['', Txt (g_resource g),
                    Txt ''] is not defined in the dictionary'',
                    Txt '' - invalid protected resource ['', Txt (g_resource g), Txt '']'',
                    Txt '' - invalid policy setting: '', Json (json_policy_setting c)]), s4)"
    using 8 c by (simp add: checkPolicySettings_append rethrow_with_def)
  have a: "addPolicy pol s3 =
             (Inl (Err AssertionError [Txt ''Resource ['', Txt (g_resource g),
                    Txt ''] is not defined in the dictionary'',
                    Txt '' - invalid protected resource ['', Txt (g_resource g), Txt '']'',
                    Txt '' - invalid policy setting: '', Json (json_policy_setting c)]), s4)"
    using 5 6 7 cs by (simp add: addPolicy_def Let_def)
  have pre: "forEach ?P ps (s2\<lparr>m_policies := []\<rparr>) = (Inr (), s3)"
    using 4 by (simp add: initializePolicies_def)
  have "initializePolicies (sc_policies security) s2 =
             (Inl (Err AssertionError [Txt ''Resource ['', Txt (g_resource g),
                    Txt ''] is not defined in the dictionary'',
                    Txt '' - invalid protected resource ['', Txt (g_resource g), Txt '']'',
                    Txt '' - invalid policy setting: '', Json (json_policy_setting c),
                    Txt '' - invalid policy ['', Txt (str_of (p_name pol)), Txt '']'']), s4)"
    unfolding initializePolicies_def 3 using pre a
    by (simp add: forEach_append rethrow_with_def)
  then show ?thesis using 1 2 by (simp add: validate_def)
qed

lemma upto_grant_runs:
  assumes "validate (upto_grant security ps pol cs c gs) s0 = (Inr u, sx)"
  shows "\<exists>s1 s2 s3 cs' s4 s5.
           initializeResourceTypes (sc_resourceTypes security) (sc_conditionFactories security) s0 = (Inr (), s1)
         \<and> initializeDictionary (sc_dictionary security) s1 = (Inr (), s2)
         \<and> initializePolicies ps s2 = (Inr (), s3)
         \<and> truthy_str (p_name pol) \<and> find_by p_name (p_name pol) (m_policies s3) = None
         \<and> checkPolicySettings cs (logger Debug [Txt ''Add policy %b'', Txt (str_of (p_name pol))] s3)
              = (Inr cs', s4)
         \<and> truthy_str (ps_setting c)
         \<and> forEach (\<lambda>g s'.
                  rethrow_with [Txt '' - invalid protected resource ['', Txt (g_resource g), Txt '']'']
                    (checkPolicyProtectedResource g s')) gs s4 = (Inr (), s5)"
proof -
  let ?P = "\<lambda>pol s'. rethrow_with [Txt '' - invalid policy ['', Txt (str_of (p_name pol)), Txt '']'']
                    (addPolicy pol s')"
  let ?pol = "pol\<lparr>p_settings := Some (cs @ [c\<lparr>ps_protectedResources := Some gs\<rparr>]), p_defaultSetting := None\<rparr>"
  let ?sl = "\<lambda>s3. logger Debug [Txt ''Add policy %b'', Txt (str_of (p_name pol))] s3"
  from assms obtain s1 s2 where
    1: "initializeResourceTypes (sc_resourceTypes security) (sc_conditionFactories security) s0 = (Inr (), s1)"
    and 2: "initializeDictionary (sc_dictionary security) s1 = (Inr (), s2)"
    and 3: "initializePolicies (ps @ [?pol]) s2 = (Inr u, sx)"
    by (auto simp: validate_def upto_grant_def split: prod.splits sum.splits)
  from 3 obtain s3 where
    4: "forEach ?P ps (s2\<lparr>m_policies := []\<rparr>) = (Inr (), s3)"
    and 5: "addPolicy ?pol s3 = (Inr (), sx)"
    by (auto simp: initializePolicies_def forEach_append split: prod.splits sum.splits)
  have p4: "initializePolicies ps s2 = (Inr (), s3)" using 4 by (simp add: initializePolicies_def)
  from 5 have n: "truthy_str (p_name pol)" and nd: "find_by p_name (p_name pol) (m_policies s3) = None"
    by (auto simp: addPolicy_def Let_def split: if_splits)
  from 5 n nd obtain csx s6 where
    6: "checkPolicySettings (cs @ [c\<lparr>ps_protectedResources := Some gs\<rparr>]) (?sl s3) = (Inr csx, s6)"
    by (auto simp: addPolicy_def Let_def split: if_splits prod.splits sum.splits)
  from 6 obtain cs' s4 c' s7 where
    7: "checkPolicySettings cs (?sl s3) = (Inr cs', s4)"
    and 8: "checkPolicySetting (c\<lparr>ps_protectedResources := Some gs\<rparr>) s4 = (Inr c', s7)"
    by (auto simp: checkPolicySettings_append rethrow_with_def split: prod.splits sum.splits)
  from 8 have t: "truthy_str (ps_setting c)"
    by (auto simp: checkPolicySetting_def split: if_splits)
  from 8 t obtain s5 where
    9: "forEach (\<lambda>g s'.
                  rethrow_with [Txt '' - invalid protected resource ['', Txt (g_resource g), Txt '']'']
                    (checkPolicyProtectedResource g s')) gs s4 = (Inr (), s5)"
    by (auto simp: checkPolicySetting_def split: if_splits prod.splits sum.splits)
  show ?thesis using 1 2 p4 n nd 7 t 9 by blast
qed


subsection \<open>The example configurations, evaluated\<close>

lemmas ex_configurations = ex_valid_configuration_def ex_failing_configuration_def ex_account_policy_def
  ex_read_def ex_update_def ex_create_def ex_grants_def ex_dictionary_def ex_screenForm_def
  ex_AppMenuItem_def ex_show_def ex_hide_def ex_ghost_configuration_def ex_ghost_policy_def
  initial_state_def initial_defs_def ex_env_configuration_def ex_env_policy_def ex_manage_def
  ex_grant_of_def ex_env_dictionary_def ex_registered_dictionary_def ex_entry_of_def
  ex_Shared_def ex_ApiCall_def ex_snapshot_def

lemmas loader_defs = load_def initSecurity_def validate_def initializeResourceTypes_def
  initializeDictionary_def initializePolicies_def addResourceType_def addResourceToDictionary_def
  addPolicy_def checkPolicySetting_def checkPolicyProtectedResource_def findResourceType_def
  findSetting_def findProtectedResourceByName_def find_by_def find_setting_def has_value_def
  logger_def rethrow_with_def truthy_str_def str_of_def generic_failure_def enumerate_eq_zip Let_def
  json_policy_setting_def json_policy_resource_def json_resource_type_def json_protected_resource_def
  opt_field_def

text \<open>The two tests of the repository: the first configuration loads, the second does
  not.\<close>

lemma ex_valid_loads: "fst (load ex_valid_configuration initial_state) = Inr ()"
  by (simp add: ex_configurations loader_defs)

lemma ex_failing_fails: "fst (load ex_failing_configuration initial_state) = Inl generic_failure"
  by (simp add: ex_configurations loader_defs)

lemma ex_env_loads: "load ex_env_configuration initial_state = (Inr (), ex_loaded)"
  by (simp add: ex_loaded_def ex_configurations loader_defs)

lemma ex_reload_fails:
  "load ex_failing_configuration ex_loaded = (Inl generic_failure, ex_reloaded)"
  by (simp add: ex_reloaded_def prod_eq_iff ex_loaded_def ex_failing_configuration_def ex_account_policy_def
       ex_read_def ex_grants_def loader_defs)

lemma ex_reloaded_fields:
  "systemSecurityData ex_reloaded = Some ex_snapshot"
  "m_resourceTypes (defs ex_reloaded) = []"
  "m_dictionary (defs ex_reloaded) = []"
  by (simp_all add: ex_reloaded_def ex_loaded_def ex_failing_configuration_def ex_account_policy_def
       ex_read_def ex_grants_def loader_defs)

subsection \<open>Failures of the loader\<close>

text \<open>
  Claim C4. Whenever one of the three checks of the loader fails, \<open>load\<close> of the
  definition service throws an error whose message is exactly
  \<open>Invalid Application Security Configuration\<close>, whatever the cause; the cause's
  message, with the context added while unwinding, is written to the log at error level,
  after the fatal line. The service's \<open>load\<close>, given a default role, passes the same
  error on.
\<close>

theorem load_failure_is_generic:
  assumes "fst (validate security (logger Info [Txt ''Checking security policy data integrity...''] s))
             = Inl cause"
  shows "fst (initSecurity security s) = Inl (Err PlainError [Txt ''Invalid Application Security Configuration''])
       \<and> logged (snd (initSecurity security s))
           = logged (snd (validate security (logger Info [Txt ''Checking security policy data integrity...''] s)))
             @ [(Fatal, [Txt ''Security policy data integrity FAILED.'']), (ErrorLevel, err_message cause)]
       \<and> (truthy_str (sc_defaultRole security) \<longrightarrow>
            fst (load security (st\<lparr>defs := s\<rparr>))
              = Inl (Err PlainError [Txt ''Invalid Application Security Configuration'']))"
proof -
  obtain s1 where v: "validate security (logger Info [Txt ''Checking security policy data integrity...''] s)
                        = (Inl cause, s1)"
    using assms by (cases "validate security (logger Info [Txt ''Checking security policy data integrity...''] s)") simp
  have i: "initSecurity security s =
             (Inl (Err PlainError [Txt ''Invalid Application Security Configuration'']),
              logger ErrorLevel (err_message cause)
                (logger Fatal [Txt ''Security policy data integrity FAILED.''] s1))"
    by (simp add: initSecurity_def v generic_failure_def)
  show ?thesis using i v by (simp add: load_def)
qed

theorem load_failure_is_generic_witness:
  "fst (validate ex_failing_configuration
          (logger Info [Txt ''Checking security policy data integrity...''] initial_defs))
     = Inl (Err AssertionError
             [Txt ''Resource ['', Txt ''Account menu'', Txt ''] is not defined in the dictionary'',
              Txt '' - invalid protected resource ['', Txt ''Account menu'', Txt '']'',
              Txt '' - invalid policy setting: '', Json (json_policy_setting ex_read),
              Txt '' - invalid policy ['', Txt ''Account Policy'', Txt '']''])
   \<and> fst (initSecurity ex_failing_configuration initial_defs)
       = Inl (Err PlainError [Txt ''Invalid Application Security Configuration''])
   \<and> fst (load ex_failing_configuration initial_state)
       = Inl (Err PlainError [Txt ''Invalid Application Security Configuration''])"
proof -
  have h: "fst (validate ex_failing_configuration
          (logger Info [Txt ''Checking security policy data integrity...''] initial_defs))
     = Inl (Err AssertionError
             [Txt ''Resource ['', Txt ''Account menu'', Txt ''] is not defined in the dictionary'',
              Txt '' - invalid protected resource ['', Txt ''Account menu'', Txt '']'',
              Txt '' - invalid policy setting: '', Json (json_policy_setting ex_read),
              Txt '' - invalid policy ['', Txt ''Account Policy'', Txt '']''])"
    by (simp add: ex_configurations loader_defs)
  have r: "truthy_str (sc_defaultRole ex_failing_configuration)"
    by (simp add: ex_failing_configuration_def truthy_str_def)
  have st: "initial_state\<lparr>defs := initial_defs\<rparr> = initial_state" by (simp add: initial_state_def)
  show ?thesis
    using h r load_failure_is_generic[OF h, of initial_state] by (simp add: st)
qed

lemma contains_str_refl: "contains_str n n"
  by (cases n) simp_all

text \<open>
  Claim C6, amended. When a grant of a policy names a resource that is not in the
  dictionary, \<open>load\<close> throws the generic configuration error. When moreover every check
  made before that grant passes (the configuration cut off right before the grant is
  valid), the cause written to the log is that of the grant and names the resource.
\<close>

theorem missing_resource_fails_load:
  assumes "sc_policies security = ps @ pol # rest"
      and "p_settings pol = Some (cs @ c # crest)"
      and "ps_protectedResources c = Some (gs @ g # grest)"
      and "Some (g_resource g) \<notin> pr_name ` set (sc_dictionary security)"
  shows "fst (initSecurity security s) = Inl (Err PlainError [Txt ''Invalid Application Security Configuration''])
       \<and> (fst (validate (upto_grant security ps pol cs c gs)
                  (logger Info [Txt ''Checking security policy data integrity...''] s)) = Inr () \<longrightarrow>
            last (logged (snd (initSecurity security s)))
              = (ErrorLevel,
                 [Txt ''Resource ['', Txt (g_resource g), Txt ''] is not defined in the dictionary'',
                  Txt '' - invalid protected resource ['', Txt (g_resource g), Txt '']'',
                  Txt '' - invalid policy setting: '', Json (json_policy_setting c),
                  Txt '' - invalid policy ['', Txt (str_of (p_name pol)), Txt '']''])
          \<and> mentions (g_resource g) (snd (last (logged (snd (initSecurity security s))))))"
proof -
  let ?s0 = "logger Info [Txt ''Checking security policy data integrity...''] s"
  let ?msg = "[Txt ''Resource ['', Txt (g_resource g), Txt ''] is not defined in the dictionary'',
                  Txt '' - invalid protected resource ['', Txt (g_resource g), Txt '']'',
                  Txt '' - invalid policy setting: '', Json (json_policy_setting c),
                  Txt '' - invalid policy ['', Txt (str_of (p_name pol)), Txt '']'']"
  have pol: "pol \<in> set (sc_policies security)" using assms(1) by simp
  have g: "g \<in> set (grants_of_policy pol)"
    using assms(2,3) by (simp add: grants_of_policy_def grants_of_setting_def)
  from ghost_fails_validation[OF pol g assms(4), of ?s0]
  obtain cause where c: "fst (validate security ?s0) = Inl cause" by blast
  then obtain s1 where v: "validate security ?s0 = (Inl cause, s1)"
    by (cases "validate security ?s0") simp
  have generic: "fst (initSecurity security s) = Inl (Err PlainError [Txt ''Invalid Application Security Configuration''])"
    by (simp add: initSecurity_def v generic_failure_def)
  have named: "last (logged (snd (initSecurity security s))) = (ErrorLevel, ?msg)
          \<and> mentions (g_resource g) (snd (last (logged (snd (initSecurity security s)))))"
    if cut: "fst (validate (upto_grant security ps pol cs c gs) ?s0) = Inr ()"
  proof -
    from cut have "validate (upto_grant security ps pol cs c gs) ?s0
                     = (Inr (), snd (validate (upto_grant security ps pol cs c gs) ?s0))"
      by (simp add: prod_eq_iff)
    from upto_grant_runs[OF this] obtain s1 s2 s3 cs' s4 s5 where
      r: "initializeResourceTypes (sc_resourceTypes security) (sc_conditionFactories security) ?s0 = (Inr (), s1)"
         "initializeDictionary (sc_dictionary security) s1 = (Inr (), s2)"
         "initializePolicies ps s2 = (Inr (), s3)"
         "truthy_str (p_name pol)" "find_by p_name (p_name pol) (m_policies s3) = None"
         "checkPolicySettings cs (logger Debug [Txt ''Add policy %b'', Txt (str_of (p_name pol))] s3)
              = (Inr cs', s4)"
         "truthy_str (ps_setting c)"
         "forEach (\<lambda>g s'.
                  rethrow_with [Txt '' - invalid protected resource ['', Txt (g_resource g), Txt '']'']
                    (checkPolicyProtectedResource g s')) gs s4 = (Inr (), s5)"
      by blast
    have "validate security ?s0 = (Inl (Err AssertionError ?msg), s4)"
      by (rule first_failure_cause[OF r(1) r(2) assms(1) r(3) r(4) r(5) assms(2) r(6) r(7) assms(3) r(8) assms(4)])
    then have "last (logged (snd (initSecurity security s))) = (ErrorLevel, ?msg)"
      by (simp add: initSecurity_def)
    then show ?thesis by (simp add: mentions_def contains_str_refl)
  qed
  show ?thesis using generic named by blast
qed

theorem missing_resource_fails_load_witness:
  "sc_policies ex_failing_configuration = [] @ ex_account_policy # []
   \<and> p_settings ex_account_policy = Some ([] @ ex_read # [ex_update, ex_create])
   \<and> ps_protectedResources ex_read
       = Some ([] @ \<lparr>g_resource = ''Account menu'', g_setting = Some ''show'', g_params = None\<rparr>
                  # [\<lparr>g_resource = ''Account Screen Form'', g_setting = Some ''readOnly'', g_params = None\<rparr>])
   \<and> Some ''Account menu'' \<notin> pr_name ` set (sc_dictionary ex_failing_configuration)
   \<and> fst (validate (upto_grant ex_failing_configuration [] ex_account_policy [] ex_read [])
             (logger Info [Txt ''Checking security policy data integrity...''] initial_defs)) = Inr ()
   \<and> fst (initSecurity ex_failing_configuration initial_defs)
       = Inl (Err PlainError [Txt ''Invalid Application Security Configuration''])
   \<and> last (logged (snd (initSecurity ex_failing_configuration initial_defs)))
       = (ErrorLevel,
          [Txt ''Resource ['', Txt ''Account menu'', Txt ''] is not defined in the dictionary'',
           Txt '' - invalid protected resource ['', Txt ''Account menu'', Txt '']'',
           Txt '' - invalid policy setting: '', Json (json_policy_setting ex_read),
           Txt '' - invalid policy ['', Txt ''Account Policy'', Txt '']''])
   \<and> mentions ''Account menu'' (snd (last (logged (snd (initSecurity ex_failing_configuration initial_defs)))))"
proof -
  let ?g = "\<lparr>g_resource = ''Account menu'', g_setting = Some ''show'', g_params = None\<rparr>"
  let ?g2 = "\<lparr>g_resource = ''Account Screen Form'', g_setting = Some ''readOnly'', g_params = None\<rparr>"
  have h1: "sc_policies ex_failing_configuration = [] @ ex_account_policy # []"
    by (simp add: ex_failing_configuration_def)
  have h2: "p_settings ex_account_policy = Some ([] @ ex_read # [ex_update, ex_create])"
    by (simp add: ex_account_policy_def)
  have h3: "ps_protectedResources ex_read = Some ([] @ ?g # [?g2])"
    by (simp add: ex_read_def ex_grants_def)
  have h4: "Some (g_resource ?g) \<notin> pr_name ` set (sc_dictionary ex_failing_configuration)"
    by (simp add: ex_failing_configuration_def)
  have h5: "fst (validate (upto_grant ex_failing_configuration [] ex_account_policy [] ex_read [])
             (logger Info [Txt ''Checking security policy data integrity...''] initial_defs)) = Inr ()"
    by (simp add: upto_grant_def ex_configurations loader_defs)
  from missing_resource_fails_load[OF h1 h2 h3 h4, of initial_defs] h5
  have "fst (initSecurity ex_failing_configuration initial_defs)
       = Inl (Err PlainError [Txt ''Invalid Application Security Configuration''])
   \<and> last (logged (snd (initSecurity ex_failing_configuration initial_defs)))
       = (ErrorLevel,
          [Txt ''Resource ['', Txt ''Account menu'', Txt ''] is not defined in the dictionary'',
           Txt '' - invalid protected resource ['', Txt ''Account menu'', Txt '']'',
           Txt '' - invalid policy setting: '', Json (json_policy_setting ex_read),
           Txt '' - invalid policy ['', Txt ''Account Policy'', Txt '']''])
   \<and> mentions ''Account menu'' (snd (last (logged (snd (initSecurity ex_failing_configuration initial_defs)))))"
    by (simp add: ex_account_policy_def str_of_def mentions_def contains_str_refl)
  then show ?thesis using h1 h2 h3 h4 h5 by (simp add: mentions_def contains_str_refl)
qed

theorem missing_resource_not_named_counterexample:
  "grants_of_policy ex_ghost_policy = [\<lparr>g_resource = ''Ghost'', g_setting = Some ''show'', g_params = None\<rparr>]
   \<and> sc_policies ex_ghost_configuration = [ex_ghost_policy]
   \<and> Some ''Ghost'' \<notin> pr_name ` set (sc_dictionary ex_ghost_configuration)
   \<and> fst (initSecurity ex_ghost_configuration initial_defs)
       = Inl (Err PlainError [Txt ''Invalid Application Security Configuration''])
   \<and> logged (snd (initSecurity ex_ghost_configuration initial_defs))
       = [(Info, [Txt ''Checking security policy data integrity...'']),
          (Fatal, [Txt ''Security policy data integrity FAILED.'']),
          (ErrorLevel, [Txt ''name property is required'',
                        Txt '' - invalid resource type ['', Idx 0, Txt '']: '',
                        Json (JObj [(''settings'', JArr [])])])]
   \<and> \<not> list_ex (\<lambda>entry. mentions ''Ghost'' (snd entry))
         (logged (snd (initSecurity ex_ghost_configuration initial_defs)))"
proof -
  have l: "logged (snd (initSecurity ex_ghost_configuration initial_defs))
       = [(Info, [Txt ''Checking security policy data integrity...'']),
          (Fatal, [Txt ''Security policy data integrity FAILED.'']),
          (ErrorLevel, [Txt ''name property is required'',
                        Txt '' - invalid resource type ['', Idx 0, Txt '']: '',
                        Json (JObj [(''settings'', JArr [])])])]"
    by (simp add: ex_configurations loader_defs)
  have m: "\<not> list_ex (\<lambda>entry. mentions ''Ghost'' (snd entry))
         (logged (snd (initSecurity ex_ghost_configuration initial_defs)))"
    unfolding l by (simp add: mentions_def)
  have f: "fst (initSecurity ex_ghost_configuration initial_defs)
       = Inl (Err PlainError [Txt ''Invalid Application Security Configuration''])"
    by (simp add: ex_configurations loader_defs)
  have g: "grants_of_policy ex_ghost_policy = [\<lparr>g_resource = ''Ghost'', g_setting = Some ''show'', g_params = None\<rparr>]"
    by (simp add: ex_ghost_policy_def grants_of_policy_def grants_of_setting_def)
  show ?thesis using l m f g by (simp add: ex_ghost_configuration_def)
qed


subsection \<open>Reloading\<close>

text \<open>
  Claim C5, amended. A load that fails leaves \<open>systemSecurityData\<close> as it was: the
  snapshot \<open>getSystemSecurityConfiguration\<close> returns, with the entries of its four
  lists, is the one of the last load that succeeded (none when there was none), and a
  load that succeeds replaces it by the registries it has just filled. Nothing is said
  of the lookups \<open>find\<close>, \<open>findSetting\<close> and \<open>findProtectedResourceByName\<close>:
  they read the module-level registries, which a failed load has already reset.
\<close>

theorem failed_load_keeps_snapshot:
  "(fst (load securityConfiguration st) = Inl e \<longrightarrow>
      systemSecurityData (snd (load securityConfiguration st)) = systemSecurityData st
    \<and> getSystemSecurityConfiguration (snd (load securityConfiguration st))
        = getSystemSecurityConfiguration st)
   \<and> (fst (load securityConfiguration st) = Inr () \<longrightarrow>
      systemSecurityData (snd (load securityConfiguration st))
        = Some \<lparr>s_conditionFactories = m_conditionFactories (defs (snd (load securityConfiguration st))),
                 s_dictionary = m_dictionary (defs (snd (load securityConfiguration st))),
                 s_resourceTypes = m_resourceTypes (defs (snd (load securityConfiguration st))),
                 s_policies = m_policies (defs (snd (load securityConfiguration st)))\<rparr>)"
  by (auto simp: load_def initSecurity_def getSystemSecurityConfiguration_def Let_def
        split: if_splits prod.splits sum.splits)

theorem failed_load_keeps_snapshot_witness:
  "fst (load ex_env_configuration initial_state) = Inr ()
   \<and> systemSecurityData (snd (load ex_env_configuration initial_state))
       = Some \<lparr>s_conditionFactories = [], s_dictionary = ex_registered_dictionary,
                s_resourceTypes = [ex_AppMenuItem, ex_ApiCall, ex_Shared], s_policies = [ex_env_policy]\<rparr>
   \<and> fst (load ex_failing_configuration ex_loaded) = Inl generic_failure
   \<and> systemSecurityData (snd (load ex_failing_configuration ex_loaded)) = systemSecurityData ex_loaded
   \<and> getSystemSecurityConfiguration (snd (load ex_failing_configuration ex_loaded))
       = getSystemSecurityConfiguration ex_loaded"
proof -
  have a: "fst (load ex_env_configuration initial_state) = Inr ()"
    by (simp add: ex_env_loads)
  have b: "fst (load ex_failing_configuration ex_loaded) = Inl generic_failure"
    by (simp add: ex_reload_fails)
  have c: "defs (snd (load ex_env_configuration initial_state)) = defs ex_loaded"
    by (simp add: ex_env_loads)
  show ?thesis
    using a b c failed_load_keeps_snapshot[of ex_env_configuration initial_state generic_failure]
      failed_load_keeps_snapshot[of ex_failing_configuration ex_loaded generic_failure]
    by (simp add: ex_loaded_def)
qed

text \<open>
  The claim as stated fails. After the example configuration is loaded, a reload with
  the second test's configuration fails; the snapshot is still the first one, with its
  three resource types and three resources, yet the lookups now miss all of them.
\<close>

theorem failed_load_changes_lookups_counterexample:
  "load ex_env_configuration initial_state = (Inr (), ex_loaded)
   \<and> load ex_failing_configuration ex_loaded = (Inl generic_failure, ex_reloaded)
   \<and> systemSecurityData ex_reloaded = systemSecurityData ex_loaded
   \<and> systemSecurityData ex_reloaded = Some ex_snapshot
   \<and> findResourceType (defs ex_loaded) (Some ''AppMenuItem'') = Inr ex_AppMenuItem
   \<and> findResourceType (defs ex_reloaded) (Some ''AppMenuItem'')
       = Inl (Err PlainError [Txt ''Undefined resource type ['', Txt ''AppMenuItem'', Txt ''].''])
   \<and> findSetting (defs ex_loaded) (Some ''AppMenuItem'') (Some ''hide'') = Inr (Some ex_hide)
   \<and> findSetting (defs ex_reloaded) (Some ''AppMenuItem'') (Some ''hide'')
       = Inl (Err PlainError [Txt ''Undefined resource type ['', Txt ''AppMenuItem'', Txt ''].''])
   \<and> findProtectedResourceByName (defs ex_loaded) ''Account menu''
       = Some (ex_entry_of ''Account menu'' ''AppMenuItem'' ''accountOption'' ''show'' (Some 0))
   \<and> findProtectedResourceByName (defs ex_reloaded) ''Account menu'' = None"
proof -
  have l: "findResourceType (defs ex_loaded) (Some ''AppMenuItem'') = Inr ex_AppMenuItem"
    "findSetting (defs ex_loaded) (Some ''AppMenuItem'') (Some ''hide'') = Inr (Some ex_hide)"
    "findProtectedResourceByName (defs ex_loaded) ''Account menu''
       = Some (ex_entry_of ''Account menu'' ''AppMenuItem'' ''accountOption'' ''show'' (Some 0))"
    by (simp_all add: ex_loaded_def findResourceType_def findSetting_def findProtectedResourceByName_def
          find_by_def find_setting_def has_value_def ex_AppMenuItem_def ex_show_def ex_hide_def
          ex_registered_dictionary_def ex_entry_of_def)
  have r: "findResourceType (defs ex_reloaded) (Some ''AppMenuItem'')
       = Inl (Err PlainError [Txt ''Undefined resource type ['', Txt ''AppMenuItem'', Txt ''].''])"
    "findSetting (defs ex_reloaded) (Some ''AppMenuItem'') (Some ''hide'')
       = Inl (Err PlainError [Txt ''Undefined resource type ['', Txt ''AppMenuItem'', Txt ''].''])"
    "findProtectedResourceByName (defs ex_reloaded) ''Account menu'' = None"
    by (simp_all add: ex_reloaded_fields findResourceType_def findSetting_def
          findProtectedResourceByName_def find_by_def str_of_def)
  have d: "systemSecurityData ex_loaded = Some ex_snapshot" by (simp add: ex_loaded_def)
  show ?thesis using l r d ex_env_loads ex_reload_fails ex_reloaded_fields(1) by simp
qed

subsection \<open>Environment filtering\<close>

lemma filter_throwing_total:
  "\<forall>x \<in> set xs. p x = Inr (q x) \<Longrightarrow> filter_throwing p xs = Inr (filter q xs)"
  by (induction xs) auto

lemma collect_members:
  "collect f xs = Inr ys \<Longrightarrow> y \<in> set ys \<Longrightarrow> \<exists>x \<in> set xs. f x = Inr (Some y)"
proof (induction xs arbitrary: ys)
  case Nil
  then show ?case by simp
next
  case (Cons x xs)
  then show ?case
    by (auto split: sum.splits option.splits)
qed

lemma collect_concat:
  assumes "\<forall>x \<in> set xs. \<exists>y. f x = Inr y \<and> (case y of None \<Rightarrow> [] | Some v \<Rightarrow> g' v) = filter q (g x)"
  shows "\<exists>ys. collect f xs = Inr ys \<and> concat (map g' ys) = filter q (concat (map g xs))"
  using assms
proof (induction xs)
  case Nil
  then show ?case by simp
next
  case (Cons x xs)
  then obtain ys where ys: "collect f xs = Inr ys" "concat (map g' ys) = filter q (concat (map g xs))"
    by auto
  from Cons.prems obtain y where y: "f x = Inr y" "(case y of None \<Rightarrow> [] | Some v \<Rightarrow> g' v) = filter q (g x)"
    by auto
  show ?case using ys y by (cases y) auto
qed

lemma load_ok:
  assumes "load cfg st0 = (Inr (), st)"
  shows "\<exists>data. systemSecurityData st = Some data
           \<and> s_dictionary data = m_dictionary (defs st)
           \<and> s_resourceTypes data = m_resourceTypes (defs st)
           \<and> s_policies data = m_policies (defs st)
           \<and> types_ok (defs st) \<and> dict_ok (sc_dictionary cfg) (defs st) \<and> pol_ok (defs st)"
proof -
  let ?s0 = "logger Info [Txt ''Checking security policy data integrity...''] (defs st0)"
  from assms obtain s1 where
    v: "validate cfg ?s0 = (Inr (), s1)"
    and st: "st = st0\<lparr>configured := Some cfg,
                     defs := logger Info [Txt ''Security policy data integrity PASSED.''] s1,
                     systemSecurityData :=
                       Some \<lparr>s_conditionFactories = m_conditionFactories s1, s_dictionary = m_dictionary s1,
                             s_resourceTypes = m_resourceTypes s1, s_policies = m_policies s1\<rparr>\<rparr>"
    by (auto simp: load_def initSecurity_def Let_def split: if_splits prod.splits sum.splits)
  note ok = validate_ok[OF v]
  let ?d = "logger Info [Txt ''Security policy data integrity PASSED.''] s1"
  have t: "types_ok ?d" using ok types_ok_cong[of ?d s1] by simp
  have d: "dict_ok (sc_dictionary cfg) ?d" using ok dict_ok_cong[of ?d s1] by simp
  have p: "pol_ok ?d" using ok by (simp add: pol_ok_def)
  show ?thesis using st t d p by simp
qed

lemma declares_total:
  "rt_env t \<noteq> None \<Longrightarrow>
   (case rt_env t of None \<Rightarrow> Inl (Err TypeError [Txt ''Cannot read property indexOf of undefined''])
    | Some e \<Rightarrow> Inr (env_includes e env)) = Inr (declares t env)"
  by (auto simp: declares_def)

lemma findResourceType_member:
  "findResourceType s ty = Inr t \<Longrightarrow> t \<in> set (m_resourceTypes s)"
  by (auto simp: findResourceType_def split: option.splits dest: find_by_Some)

lemma type_in_env_total:
  assumes "systemSecurityData st = Some data" and "types_ok (defs st)"
      and "findResourceType (defs st) ty = Inr t"
  shows "type_in_env st env ty = Inr (in_environment (defs st) env ty)"
proof -
  have "rt_env t \<noteq> None" using findResourceType_member[OF assms(3)] assms(2) by (auto simp: types_ok_def)
  then show ?thesis using assms(1,3)
    by (auto simp: type_in_env_def in_environment_def declares_def)
qed

lemma grant_in_env_total:
  assumes "systemSecurityData st = Some data" and "types_ok (defs st)" and "dict_ok ds (defs st)"
      and "findProtectedResourceByName (defs st) (g_resource g) \<noteq> None"
  shows "grant_in_env st env g = Inr (grant_in_environment (defs st) env g)"
proof -
  from assms(4) obtain r where r: "findProtectedResourceByName (defs st) (g_resource g) = Some r" by auto
  then have "r \<in> set (m_dictionary (defs st))"
    by (auto simp: findProtectedResourceByName_def dest: find_by_Some)
  then obtain t where "findResourceType (defs st) (pr_type r) = Inr t"
    using assms(3) by (auto simp: dict_ok_def)
  from type_in_env_total[OF assms(1,2) this] show ?thesis
    using assms(1) r by (simp add: grant_in_env_def grant_in_environment_def)
qed

lemma filterPolicySetting_total:
  assumes "systemSecurityData st = Some data" and "types_ok (defs st)" and "dict_ok ds (defs st)"
      and "\<forall>g \<in> set (grants_of_setting c). findProtectedResourceByName (defs st) (g_resource g) \<noteq> None"
  shows "\<exists>y. filterPolicySetting st env c = Inr y
           \<and> (case y of None \<Rightarrow> [] | Some c' \<Rightarrow> grants_of_setting c')
               = filter (grant_in_environment (defs st) env) (grants_of_setting c)"
proof -
  have "filter_throwing (grant_in_env st env) (grants_of_setting c)
          = Inr (filter (grant_in_environment (defs st) env) (grants_of_setting c))"
    by (rule filter_throwing_total) (use assms grant_in_env_total in blast)
  then show ?thesis by (simp add: filterPolicySetting_def grants_of_setting_def)
qed

lemma filterPolicy_total:
  assumes "systemSecurityData st = Some data" and "types_ok (defs st)" and "dict_ok ds (defs st)"
      and "p_settings pol \<noteq> None"
      and "\<forall>g \<in> set (grants_of_policy pol). findProtectedResourceByName (defs st) (g_resource g) \<noteq> None"
  shows "\<exists>y. filterPolicy st env pol = Inr y
           \<and> (case y of None \<Rightarrow> [] | Some pol' \<Rightarrow> grants_of_policy pol')
               = filter (grant_in_environment (defs st) env) (grants_of_policy pol)"
proof -
  from assms(4) obtain cs where cs: "p_settings pol = Some cs" by auto
  have each: "\<forall>c \<in> set cs. \<exists>y. filterPolicySetting st env c = Inr y
           \<and> (case y of None \<Rightarrow> [] | Some c' \<Rightarrow> grants_of_setting c')
               = filter (grant_in_environment (defs st) env) (grants_of_setting c)"
  proof
    fix c assume "c \<in> set cs"
    then have "\<forall>g \<in> set (grants_of_setting c). findProtectedResourceByName (defs st) (g_resource g) \<noteq> None"
      using assms(5) cs by (auto simp: grants_of_policy_def)
    from filterPolicySetting_total[OF assms(1,2,3) this]
    show "\<exists>y. filterPolicySetting st env c = Inr y
           \<and> (case y of None \<Rightarrow> [] | Some c' \<Rightarrow> grants_of_setting c')
               = filter (grant_in_environment (defs st) env) (grants_of_setting c)" .
  qed
  from collect_concat[OF each] obtain cs' where
    c: "collect (filterPolicySetting st env) cs = Inr cs'"
       "concat (map grants_of_setting cs') = filter (grant_in_environment (defs st) env) (concat (map grants_of_setting cs))"
    by blast
  show ?thesis using cs c by (auto simp: filterPolicy_def grants_of_policy_def)
qed

lemma filterPolicyContentByEnvironment_total:
  assumes "systemSecurityData st = Some data" and "types_ok (defs st)" and "dict_ok ds (defs st)"
      and "\<forall>pol \<in> set ups. p_settings pol \<noteq> None
             \<and> (\<forall>g \<in> set (grants_of_policy pol). findProtectedResourceByName (defs st) (g_resource g) \<noteq> None)"
  shows "\<exists>ps. filterPolicyContentByEnvironment st ups env = Inr ps
           \<and> concat (map grants_of_policy ps)
               = filter (grant_in_environment (defs st) env) (concat (map grants_of_policy ups))"
  unfolding filterPolicyContentByEnvironment_def
  by (rule collect_concat) (use assms filterPolicy_total in blast)


lemma collectRolePolicySettingDefinition_source:
  assumes "collectRolePolicySettingDefinition pd setting = Inr c"
  shows "\<exists>cs c0. p_settings pd = Some cs \<and> c0 \<in> set cs \<and> grants_of_setting c = grants_of_setting c0"
proof -
  let ?settings = "case p_settings pd of None \<Rightarrow> [] | Some cs \<Rightarrow> cs"
  from assms obtain c0 n where f: "find_by ps_setting n ?settings = Some c0"
    and c: "c = c0 \<or> (\<exists>p. c = c0\<lparr>ps_params := p\<rparr>)"
    by (auto simp: collectRolePolicySettingDefinition_def Let_def split: role_setting.splits option.splits if_splits)
  from find_by_Some[OF f] have m: "c0 \<in> set ?settings" by simp
  then obtain cs where cs: "p_settings pd = Some cs" by (cases "p_settings pd") auto
  have "grants_of_setting c = grants_of_setting c0" using c by (auto simp: grants_of_setting_def)
  then show ?thesis using m cs by auto
qed

lemma collectRolePolicySettingDefinitions_source:
  assumes "collectRolePolicySettingDefinitions rs pd = Inr cs'" and "c \<in> set cs'"
  shows "set (grants_of_setting c) \<subseteq> set (grants_of_policy pd)"
proof -
  from collect_members[OF assms[unfolded collectRolePolicySettingDefinitions_def]]
  obtain setting where
    "(case collectRolePolicySettingDefinition pd setting of Inl e \<Rightarrow> Inl e | Inr c \<Rightarrow> Inr (Some c))
       = Inr (Some c)"
    by blast
  then have "collectRolePolicySettingDefinition pd setting = Inr c"
    by (cases "collectRolePolicySettingDefinition pd setting") auto
  from collectRolePolicySettingDefinition_source[OF this] show ?thesis
    by (auto simp: grants_of_policy_def)
qed

lemma map_sum_Some_Inr: "map_sum id Some x = Inr (Some cs) \<longleftrightarrow> x = Inr cs"
  by (cases x) auto

lemma rolePolicyFor_source:
  assumes "rolePolicyFor r pd = Inr (Some pol)"
  shows "p_settings pol \<noteq> None \<and> set (grants_of_policy pol) \<subseteq> set (grants_of_policy pd)"
proof -
  from assms obtain rs cs where
    c: "collectRolePolicySettingDefinitions rs pd = Inr cs"
    and p: "pol = \<lparr>p_name = p_name pd, p_description = None, p_defaultSetting = None, p_settings = Some cs\<rparr>"
    by (auto simp: rolePolicyFor_def Let_def map_sum_Some_Inr split: option.splits if_splits sum.splits)
  have gp: "grants_of_policy pol = concat (map grants_of_setting cs)"
    using p by (simp add: grants_of_policy_def)
  have "set (grants_of_policy pol) \<subseteq> set (grants_of_policy pd)"
    unfolding gp using collectRolePolicySettingDefinitions_source[OF c] by auto
  then show ?thesis using p by simp
qed

lemma generateRolePolicies_grants:
  assumes "generateRolePolicies st userRole = Inr ups"
      and "systemSecurityData st = Some data" and "s_policies data = m_policies (defs st)"
      and "pol_ok (defs st)"
  shows "\<forall>pol \<in> set (up_list ups). p_settings pol \<noteq> None
           \<and> (\<forall>g \<in> set (grants_of_policy pol). findProtectedResourceByName (defs st) (g_resource g) \<noteq> None)"
proof
  fix pol assume m: "pol \<in> set (up_list ups)"
  from assms(1,2) obtain r where c: "collect (rolePolicyFor r) (s_policies data) = Inr (up_list ups)"
    by (auto simp: generateRolePolicies_def split: option.splits sum.splits)
  from collect_members[OF c m] obtain pd where pd: "pd \<in> set (s_policies data)"
    and f: "rolePolicyFor r pd = Inr (Some pol)" by blast
  from rolePolicyFor_source[OF f] pd assms(3,4)
  show "p_settings pol \<noteq> None
           \<and> (\<forall>g \<in> set (grants_of_policy pol). findProtectedResourceByName (defs st) (g_resource g) \<noteq> None)"
    by (auto simp: pol_ok_def)
qed

lemma same_registries_refl [simp]: "same_registries st st"
  by (simp add: same_registries_def)

lemma same_registries_slog [simp]: "same_registries a (slog l m b) = same_registries a b"
  by (simp add: same_registries_def slog_def logger_def)

lemma same_registries_clock [simp]: "same_registries a (b\<lparr>now := t\<rparr>) = same_registries a b"
  by (simp add: same_registries_def)

lemma findRole_same: "same_registries a st \<Longrightarrow> same_registries a (snd (findRole u st))"
  by (auto simp: findRole_def split: option.splits sum.splits)

lemma findUserPolicyData_same:
  assumes "same_registries a st"
  shows "same_registries a (snd (findUserPolicyData u st))"
proof -
  obtain r st1 where f: "findRole u st = (r, st1)" by (cases "findRole u st")
  have "same_registries a st1" using findRole_same[OF assms, of u] f by simp
  then show ?thesis using assms f
    by (auto simp: findUserPolicyData_def invalid_policy_def split: sum.splits bool.splits)
qed

lemma formatUserSecurityData_same:
  "same_registries a st \<Longrightarrow> same_registries a (snd (formatUserSecurityData sd st))"
  by (simp add: formatUserSecurityData_def Let_def)

lemma collectClientUserPolicy_same:
  assumes "same_registries a st"
  shows "same_registries a (snd (collectClientUserPolicy u st))"
proof -
  obtain r st1 where f: "findUserPolicyData u st = (r, st1)" by (cases "findUserPolicyData u st")
  have 1: "same_registries a st1" using findUserPolicyData_same[OF assms, of u] f by simp
  show ?thesis using 1 f formatUserSecurityData_same[OF 1]
    by (auto simp: collectClientUserPolicy_def case_prod_beta split: sum.splits)
qed

lemma collectServerUserPolicy_same:
  assumes "same_registries a st"
  shows "same_registries a (snd (collectServerUserPolicy u st))"
proof -
  obtain r st1 where f: "findUserPolicyData u st = (r, st1)" by (cases "findUserPolicyData u st")
  have 1: "same_registries a st1" using findUserPolicyData_same[OF assms, of u] f by simp
  show ?thesis using 1 f formatUserSecurityData_same[OF 1]
    by (auto simp: collectServerUserPolicy_def case_prod_beta split: sum.splits)
qed

lemma isSetting_same: "same_registries a st \<Longrightarrow> same_registries a (snd (isSetting n st))"
  by (auto simp: isSetting_def split: option.splits sum.splits)

lemma isSetting_without_policy_same:
  "same_registries a st \<Longrightarrow> same_registries a (snd (isSetting_without_policy u l n st))"
  by (auto simp: isSetting_without_policy_def split: option.splits)

lemma applyResourcePolicy_same:
  assumes "same_registries a st"
  shows "same_registries a (snd (applyResourcePolicy u l c st))"
proof (cases u)
  case None
  then show ?thesis using assms by (simp add: applyResourcePolicy_def)
next
  case (Some usr)
  obtain r st1 where f: "collectServerUserPolicy usr st = (r, st1)"
    by (cases "collectServerUserPolicy usr st")
  have 1: "same_registries a st1" using collectServerUserPolicy_same[OF assms, of usr] f by simp
  show ?thesis using Some assms 1 f
    by (auto simp: applyResourcePolicy_def split: sum.splits option.splits)
qed

lemma pol_ok_cong:
  "m_policies a = m_policies b \<Longrightarrow> m_dictionary a = m_dictionary b \<Longrightarrow> pol_ok a = pol_ok b"
  by (simp add: pol_ok_def findProtectedResourceByName_def)

lemma in_step_same:
  assumes "in_step a" and "same_registries a b"
  shows "in_step b"
proof -
  have t: "types_ok (defs b) = types_ok (defs a)"
    using assms(2) by (intro types_ok_cong) (simp add: same_registries_def)
  have d: "dict_ok (m_dictionary (defs b)) (defs b) = dict_ok (m_dictionary (defs a)) (defs a)"
    using assms(2) dict_ok_cong[of "defs b" "defs a" "m_dictionary (defs a)"]
    by (simp add: same_registries_def)
  have p: "pol_ok (defs b) = pol_ok (defs a)"
    using assms(2) by (intro pol_ok_cong) (simp_all add: same_registries_def)
  show ?thesis using assms t d p by (auto simp: in_step_def same_registries_def)
qed

lemma loaded_in_step: "loaded st \<Longrightarrow> in_step st"
proof (induction rule: loaded.induct)
  case (loaded_load securityConfiguration st0 st)
  from load_ok[OF loaded_load] show ?case
    by (auto simp: in_step_def dict_ok_def)
next
  case (loaded_log st l m)
  then show ?case using in_step_same[of st "slog l m st"] by simp
next
  case (loaded_clock st t)
  then show ?case using in_step_same[of st "st\<lparr>now := t\<rparr>"] by simp
next
  case (loaded_findUserPolicyData st u)
  then show ?case using in_step_same findUserPolicyData_same[of st st u] by simp
next
  case (loaded_collectClientUserPolicy st u)
  then show ?case using in_step_same collectClientUserPolicy_same[of st st u] by simp
next
  case (loaded_collectServerUserPolicy st u)
  then show ?case using in_step_same collectServerUserPolicy_same[of st st u] by simp
next
  case (loaded_applyResourcePolicy st user protectedResourceLocator contextParams)
  then show ?case
    using in_step_same applyResourcePolicy_same[of st st user protectedResourceLocator contextParams]
    by simp
next
  case (loaded_isSetting st settingName)
  then show ?case using in_step_same isSetting_same[of st st settingName] by simp
next
  case (loaded_isSetting_without_policy st user protectedResourceLocator settingName)
  then show ?case
    using in_step_same
      isSetting_without_policy_same[of st st user protectedResourceLocator settingName]
    by simp
qed

text \<open>
  Claim C8, amended. In every state of the service after a successful load and before
  the next attempt to load, the registries the filters read are the lists of the
  snapshot and, for a user that is under a policy and the policies collected for a
  role, the view generated for an environment tag keeps a resource type exactly when
  its \<open>env\<close> includes the tag, a dictionary entry exactly when the \<open>env\<close> of
  its resource type does, and a grant exactly when the \<open>env\<close> of the type of the
  resource it names does; the entries kept stay in order. Hence a resource type, or a
  dictionary entry, is in both the client and the server view exactly when the type
  declares both tags, and the two views share nothing else.
\<close>

theorem environment_filtering:
  assumes "loaded st"
      and "security_bypassed u = Inr False"
      and "generateRolePolicies st userRole = Inr userPolicies"
  shows "\<exists>data. systemSecurityData st = Some data
     \<and> m_resourceTypes (defs st) = s_resourceTypes data
     \<and> m_dictionary (defs st) = s_dictionary data
     \<and> (\<forall>env. \<exists>ps.
           generateUserSecurityDataByEnvironment st u userPolicies env
             = Inr \<lparr>sd_policies = Some ps,
                    sd_dictionary =
                      Some (filter (\<lambda>resource. in_environment (defs st) env (pr_type resource))
                              (s_dictionary data)),
                    sd_resourceTypes = Some (filter (\<lambda>ty. declares ty env) (s_resourceTypes data)),
                    sd_env = env, sd_user = u, sd_description = up_description userPolicies\<rparr>
         \<and> concat (map grants_of_policy ps)
             = filter (grant_in_environment (defs st) env)
                 (concat (map grants_of_policy (up_list userPolicies))))
     \<and> (\<forall>ty. ty \<in> set (filter (\<lambda>ty. declares ty ''client'') (s_resourceTypes data))
              \<and> ty \<in> set (filter (\<lambda>ty. declares ty ''server'') (s_resourceTypes data))
            \<longleftrightarrow> ty \<in> set (s_resourceTypes data) \<and> declares ty ''client'' \<and> declares ty ''server'')
     \<and> (\<forall>r. r \<in> set (filter (\<lambda>resource. in_environment (defs st) ''client'' (pr_type resource))
                         (s_dictionary data))
             \<and> r \<in> set (filter (\<lambda>resource. in_environment (defs st) ''server'' (pr_type resource))
                         (s_dictionary data))
            \<longleftrightarrow> r \<in> set (s_dictionary data)
                \<and> (\<exists>ty. findResourceType (defs st) (pr_type r) = Inr ty
                       \<and> declares ty ''client'' \<and> declares ty ''server''))"
proof -
  from loaded_in_step[OF assms(1)] obtain data where
    d: "systemSecurityData st = Some data"
       "s_dictionary data = m_dictionary (defs st)"
       "s_resourceTypes data = m_resourceTypes (defs st)"
       "s_policies data = m_policies (defs st)"
    and t: "types_ok (defs st)"
    and k: "dict_ok (m_dictionary (defs st)) (defs st)"
    and p: "pol_ok (defs st)"
    by (auto simp: in_step_def)
  note g = generateRolePolicies_grants[OF assms(3) d(1) d(4) p]
  have view: "\<exists>ps.
           generateUserSecurityDataByEnvironment st u userPolicies env
             = Inr \<lparr>sd_policies = Some ps,
                    sd_dictionary =
                      Some (filter (\<lambda>resource. in_environment (defs st) env (pr_type resource))
                              (s_dictionary data)),
                    sd_resourceTypes = Some (filter (\<lambda>ty. declares ty env) (s_resourceTypes data)),
                    sd_env = env, sd_user = u, sd_description = up_description userPolicies\<rparr>
         \<and> concat (map grants_of_policy ps)
             = filter (grant_in_environment (defs st) env)
                 (concat (map grants_of_policy (up_list userPolicies)))" for env
  proof -
    from filterPolicyContentByEnvironment_total[OF d(1) t k g, of env] obtain ps where
      ps: "filterPolicyContentByEnvironment st (up_list userPolicies) env = Inr ps"
          "concat (map grants_of_policy ps)
             = filter (grant_in_environment (defs st) env) (concat (map grants_of_policy (up_list userPolicies)))"
      by blast
    have fd: "filter_throwing (\<lambda>resource. type_in_env st env (pr_type resource)) (s_dictionary data)
                = Inr (filter (\<lambda>resource. in_environment (defs st) env (pr_type resource)) (s_dictionary data))"
    proof (rule filter_throwing_total, rule ballI)
      fix r assume "r \<in> set (s_dictionary data)"
      then obtain ty where "findResourceType (defs st) (pr_type r) = Inr ty"
        using k d(2) by (auto simp: dict_ok_def)
      from type_in_env_total[OF d(1) t this]
      show "type_in_env st env (pr_type r) = Inr (in_environment (defs st) env (pr_type r))" .
    qed
    have ft: "filter_throwing
                (\<lambda>ty. case rt_env ty of
                         None \<Rightarrow> Inl (Err TypeError [Txt ''Cannot read property indexOf of undefined''])
                       | Some e \<Rightarrow> Inr (env_includes e env))
                (s_resourceTypes data)
                = Inr (filter (\<lambda>ty. declares ty env) (s_resourceTypes data))"
      by (rule filter_throwing_total) (use t d(3) in \<open>auto simp: types_ok_def declares_def\<close>)
    show ?thesis
      using ps fd ft d(1) assms(2)
      by (simp add: generateUserSecurityDataByEnvironment_def)
  qed
  have both: "(r \<in> set (filter (\<lambda>resource. in_environment (defs st) ''client'' (pr_type resource))
                         (s_dictionary data))
             \<and> r \<in> set (filter (\<lambda>resource. in_environment (defs st) ''server'' (pr_type resource))
                         (s_dictionary data)))
            \<longleftrightarrow> (r \<in> set (s_dictionary data)
                \<and> (\<exists>ty. findResourceType (defs st) (pr_type r) = Inr ty
                       \<and> declares ty ''client'' \<and> declares ty ''server''))" for r
    by (auto simp: in_environment_def split: sum.splits)
  show ?thesis using d(1,2,3) view both by auto
qed

lemma ex_clerk_role_policies:
  "generateRolePolicies ex_loaded (Some ex_clerk_role) = Inr ex_clerk_policies"
  by (simp add: generateRolePolicies_def ex_loaded_def ex_snapshot_def ex_clerk_role_def
        ex_clerk_policies_def rolePolicyFor_def collectRolePolicySettingDefinitions_def
        collectRolePolicySettingDefinition_def ex_env_policy_def ex_manage_def find_by_def
        truthy_str_def str_of_def Let_def)

lemma ex_loaded_environments:
  "filter (\<lambda>ty. declares ty ''client'') (s_resourceTypes ex_snapshot) = [ex_AppMenuItem, ex_Shared]"
  "filter (\<lambda>ty. declares ty ''server'') (s_resourceTypes ex_snapshot) = [ex_ApiCall, ex_Shared]"
  "filter (\<lambda>resource. in_environment (defs ex_loaded) ''client'' (pr_type resource)) (s_dictionary ex_snapshot)
     = [ex_entry_of ''Account menu'' ''AppMenuItem'' ''accountOption'' ''show'' (Some 0),
        ex_entry_of ''Audit trail'' ''Shared'' ''audit'' ''on'' (Some 2)]"
  "filter (\<lambda>resource. in_environment (defs ex_loaded) ''server'' (pr_type resource)) (s_dictionary ex_snapshot)
     = [ex_entry_of ''Update account'' ''ApiCall'' ''api.account.updateOne'' ''allow'' (Some 1),
        ex_entry_of ''Audit trail'' ''Shared'' ''audit'' ''on'' (Some 2)]"
  "filter (grant_in_environment (defs ex_loaded) ''client'') (grants_of_setting ex_manage)
     = [ex_grant_of ''Account menu'' ''hide'', ex_grant_of ''Audit trail'' ''off'']"
  "filter (grant_in_environment (defs ex_loaded) ''server'') (grants_of_setting ex_manage)
     = [ex_grant_of ''Update account'' ''deny'', ex_grant_of ''Audit trail'' ''off'']"
  by (simp_all add: declares_def in_environment_def grant_in_environment_def findResourceType_def
        findProtectedResourceByName_def find_by_def ex_loaded_def ex_registered_dictionary_def
        ex_entry_of_def ex_AppMenuItem_def ex_ApiCall_def ex_Shared_def grants_of_setting_def
        ex_manage_def ex_grant_of_def ex_snapshot_def)

lemma ex_clerk_policies_found:
  "findUserPolicyData ex_clerk ex_loaded
     = (Inr ex_clerk_policies,
        slog Info [Txt ''Clerk One'', Txt '': No defined role. Using configured default role:'', Txt ''clerk'']
          ex_loaded)"
proof -
  have b: "security_bypassed ex_clerk = Inr False"
    by (simp add: security_bypassed_def ex_clerk_def truthy_str_def)
  have r: "findRole ex_clerk ex_loaded
     = (Inr (Some ex_clerk_role),
        slog Info [Txt ''Clerk One'', Txt '': No defined role. Using configured default role:'', Txt ''clerk'']
          ex_loaded)"
    by (simp add: findRole_def ex_loaded_def ex_env_configuration_def ex_clerk_def str_of_def)
  have g: "generateRolePolicies (slog l m ex_loaded) (Some ex_clerk_role) = Inr ex_clerk_policies" for l m
    using ex_clerk_role_policies
    by (simp add: generateRolePolicies_def slog_def)
  show ?thesis by (simp add: findUserPolicyData_def b r g)
qed

lemma ex_asked_role_policies:
  "generateRolePolicies ex_asked (Some ex_clerk_role) = Inr ex_clerk_policies"
  using ex_clerk_role_policies by (simp add: generateRolePolicies_def slog_def ex_asked_def)

lemma logger_in_environment [simp]: "in_environment (logger l m s) = in_environment s"
  by (simp add: fun_eq_iff logger_def in_environment_def findResourceType_def)

lemma logger_grant_in_environment [simp]:
  "grant_in_environment (logger l m s) = grant_in_environment s"
  by (auto simp: fun_eq_iff grant_in_environment_def findProtectedResourceByName_def logger_def
        in_environment_def findResourceType_def split: option.splits)

lemma ex_asked_defs: "defs ex_asked = logger Info
    [Txt ''Clerk One'', Txt '': No defined role. Using configured default role:'', Txt ''clerk'']
    (defs ex_loaded)"
  "systemSecurityData ex_asked = Some ex_snapshot"
  by (simp_all add: ex_asked_def slog_def ex_loaded_def)


lemma ex_asked_found: "findUserPolicyData ex_clerk ex_loaded = (Inr ex_clerk_policies, ex_asked)"
  by (simp add: ex_clerk_policies_found ex_asked_def)

theorem environment_filtering_witness:
  "load ex_env_configuration initial_state = (Inr (), ex_loaded)
   \<and> snd (findUserPolicyData ex_clerk ex_loaded) = ex_asked
   \<and> loaded ex_asked
   \<and> security_bypassed ex_clerk = Inr False
   \<and> generateRolePolicies ex_asked (Some ex_clerk_role) = Inr ex_clerk_policies
   \<and> systemSecurityData ex_asked = Some ex_snapshot
   \<and> m_resourceTypes (defs ex_asked) = s_resourceTypes ex_snapshot
   \<and> m_dictionary (defs ex_asked) = s_dictionary ex_snapshot
   \<and> (\<exists>ps. generateUserSecurityDataByEnvironment ex_asked ex_clerk ex_clerk_policies ''client''
             = Inr \<lparr>sd_policies = Some ps,
                    sd_dictionary =
                      Some [ex_entry_of ''Account menu'' ''AppMenuItem'' ''accountOption'' ''show'' (Some 0),
                            ex_entry_of ''Audit trail'' ''Shared'' ''audit'' ''on'' (Some 2)],
                    sd_resourceTypes = Some [ex_AppMenuItem, ex_Shared],
                    sd_env = ''client'', sd_user = ex_clerk, sd_description = Some ''Clerk''\<rparr>
          \<and> concat (map grants_of_policy ps)
              = [ex_grant_of ''Account menu'' ''hide'', ex_grant_of ''Audit trail'' ''off''])
   \<and> (\<exists>ps. generateUserSecurityDataByEnvironment ex_asked ex_clerk ex_clerk_policies ''server''
             = Inr \<lparr>sd_policies = Some ps,
                    sd_dictionary =
                      Some [ex_entry_of ''Update account'' ''ApiCall'' ''api.account.updateOne'' ''allow'' (Some 1),
                            ex_entry_of ''Audit trail'' ''Shared'' ''audit'' ''on'' (Some 2)],
                    sd_resourceTypes = Some [ex_ApiCall, ex_Shared],
                    sd_env = ''server'', sd_user = ex_clerk, sd_description = Some ''Clerk''\<rparr>
          \<and> concat (map grants_of_policy ps)
              = [ex_grant_of ''Update account'' ''deny'', ex_grant_of ''Audit trail'' ''off''])"
proof -
  have h1: "loaded ex_asked"
    unfolding ex_asked_def by (rule loaded_log, rule loaded_load, rule ex_env_loads)
  have h2: "security_bypassed ex_clerk = Inr False"
    by (simp add: security_bypassed_def ex_clerk_def truthy_str_def)
  from environment_filtering[OF h1 h2 ex_asked_role_policies]
  obtain data where d: "systemSecurityData ex_asked = Some data"
    and r: "m_resourceTypes (defs ex_asked) = s_resourceTypes data"
           "m_dictionary (defs ex_asked) = s_dictionary data"
    and v: "\<forall>env. \<exists>ps.
           generateUserSecurityDataByEnvironment ex_asked ex_clerk ex_clerk_policies env
             = Inr \<lparr>sd_policies = Some ps,
                    sd_dictionary =
                      Some (filter (\<lambda>resource. in_environment (defs ex_asked) env (pr_type resource))
                              (s_dictionary data)),
                    sd_resourceTypes = Some (filter (\<lambda>ty. declares ty env) (s_resourceTypes data)),
                    sd_env = env, sd_user = ex_clerk, sd_description = up_description ex_clerk_policies\<rparr>
         \<and> concat (map grants_of_policy ps)
             = filter (grant_in_environment (defs ex_asked) env)
                 (concat (map grants_of_policy (up_list ex_clerk_policies)))"
    by blast
  have data: "data = ex_snapshot" using d by (simp add: ex_asked_defs)
  have g: "concat (map grants_of_policy (up_list ex_clerk_policies)) = grants_of_setting ex_manage"
    by (simp add: ex_clerk_policies_def grants_of_policy_def)
  have desc: "up_description ex_clerk_policies = Some ''Clerk''" by (simp add: ex_clerk_policies_def)
  have c: "\<exists>ps. generateUserSecurityDataByEnvironment ex_asked ex_clerk ex_clerk_policies ''client''
             = Inr \<lparr>sd_policies = Some ps,
                    sd_dictionary =
                      Some [ex_entry_of ''Account menu'' ''AppMenuItem'' ''accountOption'' ''show'' (Some 0),
                            ex_entry_of ''Audit trail'' ''Shared'' ''audit'' ''on'' (Some 2)],
                    sd_resourceTypes = Some [ex_AppMenuItem, ex_Shared],
                    sd_env = ''client'', sd_user = ex_clerk, sd_description = Some ''Clerk''\<rparr>
          \<and> concat (map grants_of_policy ps)
              = [ex_grant_of ''Account menu'' ''hide'', ex_grant_of ''Audit trail'' ''off'']"
    using v[rule_format, of "''client''"]
    by (simp add: data g desc ex_asked_defs(1) ex_loaded_environments)
  have s: "\<exists>ps. generateUserSecurityDataByEnvironment ex_asked ex_clerk ex_clerk_policies ''server''
             = Inr \<lparr>sd_policies = Some ps,
                    sd_dictionary =
                      Some [ex_entry_of ''Update account'' ''ApiCall'' ''api.account.updateOne'' ''allow'' (Some 1),
                            ex_entry_of ''Audit trail'' ''Shared'' ''audit'' ''on'' (Some 2)],
                    sd_resourceTypes = Some [ex_ApiCall, ex_Shared],
                    sd_env = ''server'', sd_user = ex_clerk, sd_description = Some ''Clerk''\<rparr>
          \<and> concat (map grants_of_policy ps)
              = [ex_grant_of ''Update account'' ''deny'', ex_grant_of ''Audit trail'' ''off'']"
    using v[rule_format, of "''server''"]
    by (simp add: data g desc ex_asked_defs(1) ex_loaded_environments)
  have f: "snd (findUserPolicyData ex_clerk ex_loaded) = ex_asked" by (simp add: ex_asked_found)
  show ?thesis
    using ex_env_loads f h1 h2 ex_asked_role_policies d r c s unfolding data by blast
qed

lemma ex_redeclared_fails:
  "load ex_redeclared_configuration ex_loaded = (Inl generic_failure, ex_redeclared)"
  by (simp add: ex_redeclared_def prod_eq_iff ex_loaded_def ex_redeclared_configuration_def
        ex_ApiCall_both_def ex_configurations loader_defs)

lemma ex_redeclared_fields:
  "systemSecurityData ex_redeclared = Some ex_snapshot"
  "m_resourceTypes (defs ex_redeclared) = [ex_AppMenuItem, ex_ApiCall_both, ex_Shared]"
  "m_dictionary (defs ex_redeclared)
     = [ex_entry_of ''Account menu'' ''AppMenuItem'' ''accountOption'' ''show'' (Some 3),
        ex_entry_of ''Update account'' ''ApiCall'' ''api.account.updateOne'' ''allow'' (Some 4),
        ex_entry_of ''Audit trail'' ''Shared'' ''audit'' ''on'' (Some 5)]"
  by (simp_all add: ex_redeclared_def ex_loaded_def ex_redeclared_configuration_def
        ex_ApiCall_both_def ex_configurations loader_defs)


lemma ex_redeclared_role_policies:
  "generateRolePolicies ex_redeclared (Some ex_clerk_role) = Inr ex_clerk_policies"
  using ex_clerk_role_policies
  by (simp add: generateRolePolicies_def ex_redeclared_fields(1) ex_loaded_def)

lemma ex_redeclared_client_view:
  "generateUserSecurityDataByEnvironment ex_redeclared ex_clerk ex_clerk_policies ''client''
     = Inr \<lparr>sd_policies = Some (up_list ex_clerk_policies),
            sd_dictionary =
              Some [ex_entry_of ''Account menu'' ''AppMenuItem'' ''accountOption'' ''show'' (Some 0),
                    ex_entry_of ''Update account'' ''ApiCall'' ''api.account.updateOne'' ''allow'' (Some 1),
                    ex_entry_of ''Audit trail'' ''Shared'' ''audit'' ''on'' (Some 2)],
            sd_resourceTypes = Some [ex_AppMenuItem, ex_Shared],
            sd_env = ''client'', sd_user = ex_clerk, sd_description = Some ''Clerk''\<rparr>"
  by (simp add: generateUserSecurityDataByEnvironment_def security_bypassed_def ex_clerk_def truthy_str_def
        filterPolicyContentByEnvironment_def filterPolicy_def filterPolicySetting_def grant_in_env_def
        type_in_env_def findProtectedResourceByName_def findResourceType_def find_by_def
        ex_redeclared_fields ex_snapshot_def ex_clerk_policies_def ex_manage_def
        grants_of_setting_def ex_grant_of_def ex_registered_dictionary_def ex_entry_of_def
        ex_AppMenuItem_def ex_ApiCall_def ex_ApiCall_both_def ex_Shared_def)

text \<open>
  The claim as stated, for every loaded snapshot, fails once a reload has failed. After
  the example configuration is loaded, a reload that declares \<open>ApiCall\<close> for both
  environments and grants an undeclared resource fails. The snapshot is still the
  first one, in which \<open>ApiCall\<close> is a server type; yet the client view of the clerk
  keeps the dictionary entry \<open>Update account\<close>, of type \<open>ApiCall\<close>, and the
  grant on it, while the resource types of that view leave \<open>ApiCall\<close> out.
\<close>

theorem failed_reload_changes_views_counterexample:
  "load ex_env_configuration initial_state = (Inr (), ex_loaded)
   \<and> load ex_redeclared_configuration ex_loaded = (Inl generic_failure, ex_redeclared)
   \<and> getSystemSecurityConfiguration ex_redeclared = Inr ex_snapshot
   \<and> security_bypassed ex_clerk = Inr False
   \<and> generateRolePolicies ex_redeclared (Some ex_clerk_role) = Inr ex_clerk_policies
   \<and> ex_entry_of ''Update account'' ''ApiCall'' ''api.account.updateOne'' ''allow'' (Some 1)
        \<in> set (s_dictionary ex_snapshot)
   \<and> find_by rt_name (Some ''ApiCall'') (s_resourceTypes ex_snapshot) = Some ex_ApiCall
   \<and> rt_env ex_ApiCall = Some (EnvArray [''server''])
   \<and> \<not> declares ex_ApiCall ''client''
   \<and> generateUserSecurityDataByEnvironment ex_redeclared ex_clerk ex_clerk_policies ''client''
       = Inr \<lparr>sd_policies = Some (up_list ex_clerk_policies),
              sd_dictionary =
                Some [ex_entry_of ''Account menu'' ''AppMenuItem'' ''accountOption'' ''show'' (Some 0),
                      ex_entry_of ''Update account'' ''ApiCall'' ''api.account.updateOne'' ''allow'' (Some 1),
                      ex_entry_of ''Audit trail'' ''Shared'' ''audit'' ''on'' (Some 2)],
              sd_resourceTypes = Some [ex_AppMenuItem, ex_Shared],
              sd_env = ''client'', sd_user = ex_clerk, sd_description = Some ''Clerk''\<rparr>
   \<and> concat (map grants_of_policy (up_list ex_clerk_policies))
       = [ex_grant_of ''Account menu'' ''hide'', ex_grant_of ''Update account'' ''deny'',
          ex_grant_of ''Audit trail'' ''off'']"
proof -
  have a: "getSystemSecurityConfiguration ex_redeclared = Inr ex_snapshot"
    by (simp add: getSystemSecurityConfiguration_def ex_redeclared_fields(1))
  have b: "security_bypassed ex_clerk = Inr False"
    by (simp add: security_bypassed_def ex_clerk_def truthy_str_def)
  have c: "ex_entry_of ''Update account'' ''ApiCall'' ''api.account.updateOne'' ''allow'' (Some 1)
        \<in> set (s_dictionary ex_snapshot)"
    "find_by rt_name (Some ''ApiCall'') (s_resourceTypes ex_snapshot) = Some ex_ApiCall"
    "rt_env ex_ApiCall = Some (EnvArray [''server''])"
    "\<not> declares ex_ApiCall ''client''"
    by (simp_all add: ex_snapshot_def ex_registered_dictionary_def find_by_def ex_AppMenuItem_def
          ex_ApiCall_def declares_def)
  have g: "concat (map grants_of_policy (up_list ex_clerk_policies))
       = [ex_grant_of ''Account menu'' ''hide'', ex_grant_of ''Update account'' ''deny'',
          ex_grant_of ''Audit trail'' ''off'']"
    by (simp add: ex_clerk_policies_def grants_of_policy_def grants_of_setting_def ex_manage_def)
  show ?thesis
    using ex_env_loads ex_redeclared_fails a b ex_redeclared_role_policies c ex_redeclared_client_view g
    by simp
qed

subsection \<open>Users outside any policy\<close>

text \<open>
  Claim C9. With no user, or a user without a role code, \<open>applyResourcePolicy\<close>
  resolves at once with \<open>result\<close> true: the service is left untouched, and neither the
  locator, the context params nor anything loaded is read. The \<open>isSetting\<close> it returns
  answers false for every setting name when there is a user; with no user at all it
  throws, since it reads \<open>user.display\<close> before answering.
\<close>

theorem applyResourcePolicy_without_policy:
  "applyResourcePolicy None locator contextParams st
     = (Inr (resolved_without_policy None locator), st)
   \<and> applyResourcePolicy (Some (usr\<lparr>u_permissionRoleCode := None\<rparr>)) locator contextParams st
     = (Inr (resolved_without_policy (Some (usr\<lparr>u_permissionRoleCode := None\<rparr>)) locator), st)
   \<and> applyResourcePolicy (Some (usr\<lparr>u_permissionRoleCode := Some []\<rparr>)) locator contextParams st
     = (Inr (resolved_without_policy (Some (usr\<lparr>u_permissionRoleCode := Some []\<rparr>)) locator), st)
   \<and> ar_result (resolved_without_policy u locator) = JBool True
   \<and> fst (ar_isSetting (resolved_without_policy (Some usr) locator) settingName st') = Inr False
   \<and> ar_isSetting (resolved_without_policy None locator) settingName st'
     = (Inl (Err TypeError [Txt ''Cannot read property display of undefined'']), st')"
  by (simp add: applyResourcePolicy_def resolved_without_policy_def isSetting_without_policy_def
        truthy_str_def)

text \<open>
  Claim C10. For a user who has no role code, or for whom \<open>isTenantAdmin()\<close> returns
  true, \<open>findUserPolicyData\<close> resolves with an empty policy list and only logs a warning,
  whatever the service holds (no role is looked up, no policy read), and the security
  data generated for any environment is the \<open>Admin - Full access\<close> form, without
  policies, dictionary or resource types; so is what \<open>collectClientUserPolicy\<close> sends.
\<close>

theorem admin_bypasses_policies:
  assumes "\<not> truthy_str (u_permissionRoleCode u) \<or> u_isTenantAdmin u = Inr True"
  shows "findUserPolicyData u st
           = (Inr \<lparr>up_description = None, up_list = []\<rparr>,
              slog Warn [Txt ''Security deactivated for %b'', Txt (str_of (u_display u))] st)
       \<and> generateUserSecurityDataByEnvironment st u userPolicies env
           = Inr \<lparr>sd_policies = None, sd_dictionary = None, sd_resourceTypes = None,
                  sd_env = env, sd_user = u, sd_description = Some ''Admin - Full access''\<rparr>
       \<and> (\<exists>formated st'. collectClientUserPolicy u st = (Inr formated, st')
             \<and> usd_policies formated = None \<and> usd_dictionary formated = None
             \<and> usd_resourceTypes formated = None)"
proof -
  have b: "security_bypassed u = Inr True" using assms by (auto simp: security_bypassed_def)
  have f: "findUserPolicyData u st
           = (Inr \<lparr>up_description = None, up_list = []\<rparr>,
              slog Warn [Txt ''Security deactivated for %b'', Txt (str_of (u_display u))] st)"
    by (simp add: findUserPolicyData_def b)
  have g: "generateUserSecurityDataByEnvironment st' u ups env'
           = Inr \<lparr>sd_policies = None, sd_dictionary = None, sd_resourceTypes = None,
                  sd_env = env', sd_user = u, sd_description = Some ''Admin - Full access''\<rparr>"
    for st' ups env'
    by (simp add: generateUserSecurityDataByEnvironment_def b)
  have c: "\<exists>formated st'. collectClientUserPolicy u st = (Inr formated, st')
             \<and> usd_policies formated = None \<and> usd_dictionary formated = None
             \<and> usd_resourceTypes formated = None"
    by (simp add: collectClientUserPolicy_def f g formatUserSecurityData_def Let_def)
  show ?thesis using f g c by simp
qed

theorem admin_bypasses_policies_witness:
  "u_isTenantAdmin ex_admin = Inr True
   \<and> truthy_str (u_permissionRoleCode ex_admin)
   \<and> findUserPolicyData ex_admin initial_state
       = (Inr \<lparr>up_description = None, up_list = []\<rparr>,
          slog Warn [Txt ''Security deactivated for %b'', Txt ''Admin Two''] initial_state)
   \<and> generateUserSecurityDataByEnvironment initial_state ex_admin ex_clerk_policies ''client''
       = Inr \<lparr>sd_policies = None, sd_dictionary = None, sd_resourceTypes = None,
              sd_env = ''client'', sd_user = ex_admin, sd_description = Some ''Admin - Full access''\<rparr>"
proof -
  have h: "\<not> truthy_str (u_permissionRoleCode ex_admin) \<or> u_isTenantAdmin ex_admin = Inr True"
    by (simp add: ex_admin_def)
  have r: "truthy_str (u_permissionRoleCode ex_admin)" "u_isTenantAdmin ex_admin = Inr True"
    "str_of (u_display ex_admin) = ''Admin Two''"
    by (simp_all add: ex_admin_def truthy_str_def str_of_def)
  show ?thesis
    using r admin_bypasses_policies[OF h, of initial_state ex_clerk_policies "''client''"] by simp
qed

subsection \<open>The server side of the example, evaluated\<close>

text \<open>The clerk of the example asks for three resources of the loaded service: the
  account update, which the policy denies; the audit trail, whose granted setting the
  apply function accepts; and a client resource, which the server view does not hold.\<close>

lemma ex_server_view:
  "generateUserSecurityDataByEnvironment (slog l m ex_loaded) ex_clerk ex_clerk_policies ''server''
     = Inr \<lparr>sd_policies = Some [ex_server_policy],
            sd_dictionary =
              Some [ex_entry_of ''Update account'' ''ApiCall'' ''api.account.updateOne'' ''allow'' (Some 1),
                    ex_entry_of ''Audit trail'' ''Shared'' ''audit'' ''on'' (Some 2)],
            sd_resourceTypes = Some [ex_ApiCall, ex_Shared],
            sd_env = ''server'', sd_user = ex_clerk, sd_description = Some ''Clerk''\<rparr>"
  by (simp add: generateUserSecurityDataByEnvironment_def security_bypassed_def ex_clerk_def truthy_str_def
        filterPolicyContentByEnvironment_def filterPolicy_def filterPolicySetting_def grant_in_env_def
        type_in_env_def findProtectedResourceByName_def findResourceType_def find_by_def
        slog_def logger_def ex_loaded_def ex_snapshot_def ex_clerk_policies_def ex_manage_def
        ex_server_policy_def ex_server_manage_def
        grants_of_setting_def ex_grant_of_def ex_registered_dictionary_def ex_entry_of_def
        ex_AppMenuItem_def ex_ApiCall_def ex_Shared_def)

lemma ex_server_compiled:
  "compileSecurityData gcf getResourceTypeFactory
     \<lparr>usd_id = i, usd_revision = r, usd_timestamp = t, usd_userId = a, usd_display = b,
      usd_policies = Some [ex_server_policy],
      usd_dictionary =
        Some [ex_entry_of ''Update account'' ''ApiCall'' ''api.account.updateOne'' ''allow'' (Some k1),
              ex_entry_of ''Audit trail'' ''Shared'' ''audit'' ''on'' (Some k2)],
      usd_resourceTypes = Some [ex_ApiCall, ex_Shared]\<rparr>
   = Inr [ex_compiled_of ''Update account'' ex_ApiCall ''api.account.updateOne''
            [(''value'', JStr ''allow''), (''priority'', JNum 1)] k1
            [(''value'', JStr ''deny''), (''priority'', JNum 0)],
          ex_compiled_of ''Audit trail'' ex_Shared ''audit''
            [(''value'', JStr ''on''), (''priority'', JNum 1)] k2
            [(''value'', JStr ''off''), (''priority'', JNum 0)]]"
  by (simp add: compileSecurityData_def buildProtectedResources_def buildProtectedResource_def
        getResourceImplementation_def getResourceTypeFactory_def buildProtectedResourceObject_def
        buildResourceSettingObject_def find_setting_def has_value_def find_by_def
        assign_def assign_from_def addProtectedResourcePreferences_def addPolicySetting_def
        getPolicyConditionImplementation_def addGrant_def addPolicyResourceSettingToProtectedResource_def
        js_values_def is_index_key_def is_digit_def str_of_def Let_def
        ex_server_policy_def ex_server_manage_def ex_manage_def ex_grant_of_def ex_entry_of_def
        ex_ApiCall_def ex_Shared_def ex_compiled_of_def ex_always_setting_def)


lemma fst_formatUserSecurityData:
  "fst (formatUserSecurityData sd st)
     = \<lparr>usd_id = 1, usd_revision = now st, usd_timestamp = [], usd_userId = u_id (sd_user sd),
        usd_display = u_display (sd_user sd), usd_policies = sd_policies sd,
        usd_dictionary = sd_dictionary sd, usd_resourceTypes = sd_resourceTypes sd\<rparr>"
  by (simp add: formatUserSecurityData_def Let_def)

lemma ex_clerk_server_policy:
  "fst (collectServerUserPolicy ex_clerk ex_loaded)
     = Inr [ex_compiled_of ''Update account'' ex_ApiCall ''api.account.updateOne''
              [(''value'', JStr ''allow''), (''priority'', JNum 1)] 1
              [(''value'', JStr ''deny''), (''priority'', JNum 0)],
            ex_compiled_of ''Audit trail'' ex_Shared ''audit''
              [(''value'', JStr ''on''), (''priority'', JNum 1)] 2
              [(''value'', JStr ''off''), (''priority'', JNum 0)]]"
  by (simp add: collectServerUserPolicy_def ex_clerk_policies_found ex_server_view
        case_prod_beta fst_formatUserSecurityData ex_server_compiled)

lemma ex_clerk_update_denied:
  "fst (applyResourcePolicy (Some ex_clerk) ''api.account.updateOne'' JUndefined ex_loaded)
     = Inl (Rejection ''RESOURCE_DENIED'')"
proof -
  obtain r st1 where c: "collectServerUserPolicy ex_clerk ex_loaded = (r, st1)"
    by (cases "collectServerUserPolicy ex_clerk ex_loaded")
  with ex_clerk_server_policy have r: "r = Inr [ex_compiled_of ''Update account'' ex_ApiCall ''api.account.updateOne''
              [(''value'', JStr ''allow''), (''priority'', JNum 1)] 1
              [(''value'', JStr ''deny''), (''priority'', JNum 0)],
            ex_compiled_of ''Audit trail'' ex_Shared ''audit''
              [(''value'', JStr ''on''), (''priority'', JNum 1)] 2
              [(''value'', JStr ''off''), (''priority'', JNum 0)]]"
    by simp
  have u: "truthy_str (u_permissionRoleCode ex_clerk)"
    by (simp add: ex_clerk_def truthy_str_def)
  show ?thesis
    unfolding applyResourcePolicy_def
    by (simp add: u c r getProtectedResourceByLocator_def calculateSetting_def
          computeResourceSetting_def ex_compiled_of_def ex_always_setting_def Let_def
          ex_ApiCall_def ex_apply_def)
qed

lemma ex_clerk_audit_allowed:
  "map_sum id ar_result (fst (applyResourcePolicy (Some ex_clerk) ''audit'' JUndefined ex_loaded))
     = Inr (JBool True)"
proof -
  obtain r st1 where c: "collectServerUserPolicy ex_clerk ex_loaded = (r, st1)"
    by (cases "collectServerUserPolicy ex_clerk ex_loaded")
  with ex_clerk_server_policy have r: "r = Inr [ex_compiled_of ''Update account'' ex_ApiCall ''api.account.updateOne''
              [(''value'', JStr ''allow''), (''priority'', JNum 1)] 1
              [(''value'', JStr ''deny''), (''priority'', JNum 0)],
            ex_compiled_of ''Audit trail'' ex_Shared ''audit''
              [(''value'', JStr ''on''), (''priority'', JNum 1)] 2
              [(''value'', JStr ''off''), (''priority'', JNum 0)]]"
    by simp
  have u: "truthy_str (u_permissionRoleCode ex_clerk)"
    by (simp add: ex_clerk_def truthy_str_def)
  show ?thesis
    unfolding applyResourcePolicy_def
    by (simp add: u c r getProtectedResourceByLocator_def calculateSetting_def
          computeResourceSetting_def ex_compiled_of_def ex_always_setting_def Let_def
          ex_Shared_def ex_apply_def)
qed

lemma ex_clerk_client_resource_unknown:
  "fst (applyResourcePolicy (Some ex_clerk) ''accountOption'' JUndefined ex_loaded)
     = Inl (Err PlainError [Txt ''Protected resource ['', Txt ''accountOption'', Txt ''] undefined''])"
proof -
  obtain r st1 where c: "collectServerUserPolicy ex_clerk ex_loaded = (r, st1)"
    by (cases "collectServerUserPolicy ex_clerk ex_loaded")
  with ex_clerk_server_policy have r: "r = Inr [ex_compiled_of ''Update account'' ex_ApiCall ''api.account.updateOne''
              [(''value'', JStr ''allow''), (''priority'', JNum 1)] 1
              [(''value'', JStr ''deny''), (''priority'', JNum 0)],
            ex_compiled_of ''Audit trail'' ex_Shared ''audit''
              [(''value'', JStr ''on''), (''priority'', JNum 1)] 2
              [(''value'', JStr ''off''), (''priority'', JNum 0)]]"
    by simp
  have u: "truthy_str (u_permissionRoleCode ex_clerk)"
    by (simp add: ex_clerk_def truthy_str_def)
  show ?thesis
    unfolding applyResourcePolicy_def
    by (simp add: u c r getProtectedResourceByLocator_def ex_compiled_of_def Let_def)
qed

end
